theory Spec2Isabelle
  imports Main "HOL-Library.Word"
begin

unbundle bit_operations_syntax

section \<open>Data model of vita-elf\<close>

type_synonym u8 = "8 word"
type_synonym u32 = "32 word"

text \<open>
  The ARM relocation codes that \<open>vita-elf.c\<close> names.  The C code holds them in an
  \<open>int\<close> and switches over the named constants of \<open>elf.h\<close>; the embedding keeps one
  constructor per named constant and \<open>R_ARM_OTHER n\<close> for any other code \<open>n\<close>.
\<close>

datatype r_type =
    R_ARM_NONE
  | R_ARM_V4BX
  | R_ARM_ABS32
  | R_ARM_TARGET1
  | R_ARM_REL32
  | R_ARM_TARGET2
  | R_ARM_PREL31
  | R_ARM_THM_CALL
  | R_ARM_CALL
  | R_ARM_JUMP24
  | R_ARM_MOVW_ABS_NC
  | R_ARM_MOVT_ABS
  | R_ARM_THM_MOVW_ABS_NC
  | R_ARM_THM_MOVT_ABS
  | R_ARM_THM_JUMP24
  | R_ARM_THM_PC11
  | R_ARM_OTHER nat

section \<open>Relocation decoding\<close>

text \<open>\<open>#define THUMB_SHUFFLE(x) ((((x) & 0xFFFF0000) >> 16) | (((x) & 0xFFFF) << 16))\<close>\<close>

definition THUMB_SHUFFLE :: "u32 \<Rightarrow> u32" where
  "THUMB_SHUFFLE x = drop_bit 16 (x AND 0xFFFF0000) OR push_bit 16 (x AND 0xFFFF)"

text \<open>C's logical negation \<open>!x\<close>, as a 32-bit value.\<close>

definition lnot :: "u32 \<Rightarrow> u32" where
  "lnot x = (if x = 0 then 1 else 0)"

text \<open>
  \<open>decode_rel_target\<close>, all arithmetic in \<open>uint32_t\<close>.  A type outside the switch
  reaches \<open>errx(EXIT_FAILURE, ...)\<close>, which ends the process: \<open>None\<close>.
\<close>

definition decode_thm_call :: "u32 \<Rightarrow> u32 \<Rightarrow> u32" where
  "decode_thm_call data0 addr =
     (let data = THUMB_SHUFFLE data0;
          upper = drop_bit 16 data;
          lower = data AND 0xFFFF;
          sign = drop_bit 10 upper AND 1;
          j1 = drop_bit 13 lower AND 1;
          j2 = drop_bit 11 lower AND 1;
          imm10 = upper AND 0x3ff;
          imm11 = lower AND 0x7ff
      in addr + (push_bit 1 (imm11 OR push_bit 11 imm10 OR push_bit 21 (lnot (j2 XOR sign))
                              OR push_bit 22 (lnot (j1 XOR sign)) OR push_bit 23 sign)
                 OR (if sign \<noteq> 0 then 0xff000000 else 0)))"

definition decode_thm_movw :: "u32 \<Rightarrow> u32" where
  "decode_thm_movw data0 =
     (let data = THUMB_SHUFFLE data0
      in push_bit 12 (drop_bit 16 data AND 0xf)
         OR push_bit 11 (drop_bit 26 data AND 0x1)
         OR push_bit 8 (drop_bit 12 data AND 0x7)
         OR (data AND 0xff))"

definition decode_thm_movt :: "u32 \<Rightarrow> u32" where
  "decode_thm_movt data0 =
     (let data = THUMB_SHUFFLE data0
      in push_bit 28 (drop_bit 16 data AND 0xf)
         OR push_bit 27 (drop_bit 26 data AND 0x1)
         OR push_bit 24 (drop_bit 12 data AND 0x7)
         OR push_bit 16 (data AND 0xff))"

definition decode_rel_target :: "u32 \<Rightarrow> r_type \<Rightarrow> u32 \<Rightarrow> u32 option" where
  "decode_rel_target data type addr =
     (case type of
        R_ARM_NONE \<Rightarrow> Some 0xdeadbeef
      | R_ARM_V4BX \<Rightarrow> Some 0xdeadbeef
      | R_ARM_ABS32 \<Rightarrow> Some data
      | R_ARM_TARGET1 \<Rightarrow> Some data
      | R_ARM_REL32 \<Rightarrow> Some (data + addr)
      | R_ARM_TARGET2 \<Rightarrow> Some (data + addr)
      | R_ARM_PREL31 \<Rightarrow> Some (data + addr)
      | R_ARM_THM_CALL \<Rightarrow> Some (decode_thm_call data addr)
      | R_ARM_CALL \<Rightarrow> Some (drop_bit 8 (push_bit 8 (push_bit 2 (data AND 0x00ffffff) + addr)))
      | R_ARM_JUMP24 \<Rightarrow> Some (drop_bit 8 (push_bit 8 (push_bit 2 (data AND 0x00ffffff) + addr)))
      | R_ARM_MOVW_ABS_NC \<Rightarrow> Some (drop_bit 4 (data AND 0xf0000) OR (data AND 0xfff))
      | R_ARM_MOVT_ABS \<Rightarrow> Some (push_bit 16 (drop_bit 4 (data AND 0xf0000) OR (data AND 0xfff)))
      | R_ARM_THM_MOVW_ABS_NC \<Rightarrow> Some (decode_thm_movw data)
      | R_ARM_THM_MOVT_ABS \<Rightarrow> Some (decode_thm_movt data)
      | _ \<Rightarrow> None)"

text \<open>
  The decode rule for \<open>R_ARM_CALL\<close> and \<open>R_ARM_JUMP24\<close> in the words of the
  specification: the low 24 bits shifted left by 2, sign-extended from bit 25, plus the
  relocation offset.
\<close>

definition spec_branch_target :: "u32 \<Rightarrow> u32 \<Rightarrow> u32" where
  "spec_branch_target data offset = signed_take_bit 25 (push_bit 2 (data AND 0x00FFFFFF)) + offset"


section \<open>The ELF context\<close>

type_synonym host_ptr = "64 word"

datatype st_type = STT_FUNC | STT_OBJECT | STT_OTHER nat
datatype st_bind = STB_GLOBAL | STB_OTHER nat

text \<open>
  The structs of \<open>vita-elf.h\<close> as records.  A field name that several structs share is
  prefixed in all but one of them: \<open>type\<close> is \<open>symtype\<close> in a symbol, \<open>rtype\<close> in a
  relocation entry and \<open>segtype\<close> in a segment, and the \<open>symbol\<close> of a relocation entry
  is \<open>rsymbol\<close>.  The \<open>zero_\<close> constants are the all-zero values that \<open>calloc\<close> gives.
\<close>

record vita_elf_symbol =
  name :: string
  "value" :: u32
  symtype :: st_type
  binding :: st_bind
  shndx :: nat

text \<open>
  \<open>vita_elf_stub_t\<close>.  The \<open>symbol\<close> pointer points into the symbol array of the
  context and is kept as the index of the symbol; \<open>None\<close> is \<open>NULL\<close>.  The records of the
  import database (\<open>vita-import.h\<close>) are type parameters.
\<close>

record ('l, 'm, 't) vita_elf_stub =
  addr :: u32
  library_nid :: u32
  module_nid :: u32
  target_nid :: u32
  symbol :: "nat option"
  library :: "'l option"
  module :: "'m option"
  target :: "'t option"

text \<open>
  \<open>vita_elf_rela_t\<close>.  \<open>addend\<close> is a signed 32-bit field; it is kept as its 32 bits
  and read with \<open>sint\<close>.
\<close>

record vita_elf_rela =
  rtype :: r_type
  rsymbol :: "nat option"
  offset :: u32
  addend :: u32

record vita_elf_rela_table =
  relas :: "vita_elf_rela list"
  num_relas :: nat
  target_ndx :: nat

record vita_elf_segment_info =
  segtype :: nat
  vaddr :: u32
  memsz :: u32
  vaddr_top :: host_ptr
  vaddr_bottom :: host_ptr

text \<open>
  \<open>vita_elf_t\<close>.  Arrays are lists, \<open>symtab = None\<close> is the \<open>NULL\<close> pointer, and the linked
  sequence of relocation tables is a list with the head first.
\<close>

record ('l, 'm, 't) vita_elf =
  fstubs_ndx :: nat
  vstubs_ndx :: nat
  symtab_ndx :: nat
  symtab :: "vita_elf_symbol list option"
  num_symbols :: nat
  rela_tables :: "vita_elf_rela_table list"
  fstubs :: "('l, 'm, 't) vita_elf_stub list"
  vstubs :: "('l, 'm, 't) vita_elf_stub list"
  num_fstubs :: nat
  num_vstubs :: nat
  segments :: "vita_elf_segment_info list"
  num_segments :: nat

definition zero_symbol :: vita_elf_symbol where
  "zero_symbol = \<lparr>name = [], value = 0, symtype = STT_OTHER 0, binding = STB_OTHER 0, shndx = 0\<rparr>"

definition zero_stub :: "('l, 'm, 't) vita_elf_stub" where
  "zero_stub = \<lparr>addr = 0, library_nid = 0, module_nid = 0, target_nid = 0,
                 symbol = None, library = None, module = None, target = None\<rparr>"

definition zero_rela :: vita_elf_rela where
  "zero_rela = \<lparr>rtype = R_ARM_NONE, rsymbol = None, offset = 0, addend = 0\<rparr>"

definition zero_elf :: "('l, 'm, 't) vita_elf" where
  "zero_elf = \<lparr>fstubs_ndx = 0, vstubs_ndx = 0, symtab_ndx = 0, symtab = None, num_symbols = 0,
               rela_tables = [], fstubs = [], vstubs = [], num_fstubs = 0, num_vstubs = 0,
               segments = [], num_segments = 0\<rparr>"

section \<open>The input file as libelf presents it\<close>

text \<open>
  libelf is outside the sources.  The embedding starts from what its calls return for
  an open file: section headers with the section name already looked up, data
  descriptors, symbols and REL entries.  Calls that read a header of a section that
  exists, and \<open>calloc\<close>, are taken to succeed.
\<close>

datatype sh_type = SHT_PROGBITS | SHT_SYMTAB | SHT_REL | SHT_RELA | SHT_OTHER nat

text \<open>
  \<open>GElf_Sym\<close> and \<open>GElf_Rel\<close> as the \<open>gelf_\<close> accessors return them: \<open>st_name\<close> is the
  string \<open>elf_strptr\<close> finds for the name offset, \<open>st_type\<close> and \<open>st_bind\<close> are
  \<open>GELF_ST_TYPE\<close> and \<open>GELF_ST_BIND\<close> of \<open>st_info\<close>, \<open>r_type\<close> and \<open>r_sym\<close> are
  \<open>GELF_R_TYPE\<close> and \<open>GELF_R_SYM\<close> of \<open>r_info\<close>.
\<close>

record GElf_Sym =
  st_name :: string
  st_value :: u32
  st_type :: st_type
  st_bind :: st_bind
  st_shndx :: nat

record GElf_Rel =
  r_offset :: u32
  r_type :: r_type
  r_sym :: nat

text \<open>
  One \<open>Elf_Data\<close> descriptor: the raw bytes \<open>d_buf\<close> of length \<open>d_size\<close> at section
  offset \<open>d_off\<close>, with the entries that \<open>gelf_getsym\<close> and \<open>gelf_getrel\<close> read from it.
\<close>

record Elf_Data =
  d_off :: nat
  d_size :: nat
  d_buf :: "u8 list"
  d_syms :: "GElf_Sym list"
  d_rels :: "GElf_Rel list"

record Elf_Scn =
  sh_name :: "string option"
  sh_type :: sh_type
  sh_addr :: u32
  sh_size :: nat
  sh_entsize :: nat
  sh_link :: nat
  sh_info :: nat
  chunks :: "Elf_Data list"

definition gelf_getsym :: "Elf_Data \<Rightarrow> nat \<Rightarrow> GElf_Sym option" where
  "gelf_getsym data ndx = (if ndx < length (d_syms data) then Some (d_syms data ! ndx) else None)"

definition gelf_getrel :: "Elf_Data \<Rightarrow> nat \<Rightarrow> GElf_Rel option" where
  "gelf_getrel data ndx = (if ndx < length (d_rels data) then Some (d_rels data ! ndx) else None)"

text \<open>\<open>elf_getscn\<close>: the section with the given index of the section table, or \<open>NULL\<close>.\<close>

definition elf_getscn :: "Elf_Scn list \<Rightarrow> nat \<Rightarrow> (nat \<times> Elf_Scn) option" where
  "elf_getscn scns ndx = (if ndx < length scns then Some (ndx, scns ! ndx) else None)"

text \<open>\<open>elf_getdata(scn, NULL)\<close>: the first data descriptor of a section, or \<open>NULL\<close>.\<close>

definition elf_getdata_first :: "Elf_Scn \<Rightarrow> Elf_Data option" where
  "elf_getdata_first scn = (case chunks scn of [] \<Rightarrow> None | d # _ \<Rightarrow> Some d)"

text \<open>
  Every way the loader stops.  \<open>Undefined\<close> stands for the places where the C program
  has no defined result (a read or write outside an array, a \<open>NULL\<close> dereference, a
  division by zero); the other constructors are the diagnostics of \<open>FAILX\<close>, \<open>FAILE\<close>,
  \<open>FAIL\<close>, \<open>ELF_ASSERT\<close> and \<open>warnx\<close> followed by a failure return.
\<close>

datatype error =
    Undefined
  | Elf_library_error
  | Open_failed
  | Not_an_ELF_file
  | Not_an_ARM_binary
  | Not_32bit_little_endian
  | Multiple_fstubs_sections
  | Multiple_vstubs_sections
  | Contains_debugging_information
  | Multiple_symbol_tables
  | Gelf_getsym_failed
  | Gelf_getrel_failed
  | Invalid_relocation_type r_type
  | Rel_symbol_out_of_range nat nat
  | RELA_unsupported
  | No_stub_sections
  | No_symbol_table
  | No_relocation_sections
  | Wrong_symbol_type string nat st_type st_type
  | Duplicate_stub_symbols u32 nat string string
  | Not_a_valid_stub string nat
  | Mmap_failed nat

section \<open>The relocation loader\<close>

datatype rel_handling = REL_HANDLE_NORMAL | REL_HANDLE_IGNORE | REL_HANDLE_INVALID

definition get_rel_handling :: "r_type \<Rightarrow> rel_handling" where
  "get_rel_handling type =
     (case type of
        R_ARM_NONE \<Rightarrow> REL_HANDLE_IGNORE
      | R_ARM_V4BX \<Rightarrow> REL_HANDLE_IGNORE
      | R_ARM_ABS32 \<Rightarrow> REL_HANDLE_NORMAL
      | R_ARM_TARGET1 \<Rightarrow> REL_HANDLE_NORMAL
      | R_ARM_REL32 \<Rightarrow> REL_HANDLE_NORMAL
      | R_ARM_TARGET2 \<Rightarrow> REL_HANDLE_NORMAL
      | R_ARM_PREL31 \<Rightarrow> REL_HANDLE_NORMAL
      | R_ARM_THM_CALL \<Rightarrow> REL_HANDLE_NORMAL
      | R_ARM_CALL \<Rightarrow> REL_HANDLE_NORMAL
      | R_ARM_JUMP24 \<Rightarrow> REL_HANDLE_NORMAL
      | R_ARM_MOVW_ABS_NC \<Rightarrow> REL_HANDLE_NORMAL
      | R_ARM_MOVT_ABS \<Rightarrow> REL_HANDLE_NORMAL
      | R_ARM_THM_MOVW_ABS_NC \<Rightarrow> REL_HANDLE_NORMAL
      | R_ARM_THM_MOVT_ABS \<Rightarrow> REL_HANDLE_NORMAL
      | _ \<Rightarrow> REL_HANDLE_INVALID)"

text \<open>
  \<open>le32toh(*((uint32_t*)(d_buf + i)))\<close>: the four bytes at \<open>i\<close>, least significant
  first.  Outside the buffer the C read is undefined: \<open>None\<close>.
\<close>

definition read_le32 :: "u8 list \<Rightarrow> nat \<Rightarrow> u32 option" where
  "read_le32 buf i =
     (if i + 4 \<le> length buf
      then Some (ucast (buf ! i) OR push_bit 8 (ucast (buf ! (i + 1)))
                 OR push_bit 16 (ucast (buf ! (i + 2))) OR push_bit 24 (ucast (buf ! (i + 3))))
      else None)"

text \<open>
  The word at guest address \<open>r_offset\<close> of the patched section:
  \<open>text_data->d_buf + (rel.r_offset - text_shdr.sh_addr)\<close>.  The subtraction is unsigned,
  so an offset below \<open>sh_addr\<close> points far outside the buffer; a missing section or
  data descriptor is a \<open>NULL\<close> dereference.
\<close>

definition fetch_insn :: "(Elf_Scn \<times> Elf_Data) option \<Rightarrow> u32 \<Rightarrow> u32 option" where
  "fetch_insn txt roff =
     (case txt of
        None \<Rightarrow> None
      | Some (text_shdr, text_data) \<Rightarrow>
          if sh_addr text_shdr \<le> roff
          then read_le32 (d_buf text_data) (unat roff - unat (sh_addr text_shdr))
          else None)"

text \<open>
  The body of the loop of \<open>load_rel_table\<close> for one REL entry, acting on the slot
  \<open>currela\<close> of the table.  Each \<open>continue\<close> returns the slot as it is at that point.
\<close>

definition load_rel_entry ::
  "vita_elf_symbol list \<Rightarrow> nat \<Rightarrow> (Elf_Scn \<times> Elf_Data) option \<Rightarrow> GElf_Rel \<Rightarrow> vita_elf_rela
     \<Rightarrow> error + vita_elf_rela" where
  "load_rel_entry syms nsyms txt rel currela0 =
     (let currela1 = currela0\<lparr>rtype := r_type rel\<rparr>;
          currela2 = (if rtype currela1 = R_ARM_THM_JUMP24
                      then currela1\<lparr>rtype := R_ARM_THM_CALL\<rparr> else currela1)
      in if rtype currela2 = R_ARM_THM_PC11 then Inr currela2
         else
           let currela3 = currela2\<lparr>offset := r_offset rel\<rparr>
           in case fetch_insn txt (r_offset rel) of
                None \<Rightarrow> Inl Undefined
              | Some insn \<Rightarrow>
                 (case get_rel_handling (rtype currela3) of
                    REL_HANDLE_IGNORE \<Rightarrow> Inr currela3
                  | REL_HANDLE_INVALID \<Rightarrow> Inl (Invalid_relocation_type (rtype currela3))
                  | REL_HANDLE_NORMAL \<Rightarrow>
                      if r_sym rel \<ge> nsyms then Inl (Rel_symbol_out_of_range (r_sym rel) nsyms)
                      else if r_sym rel \<ge> length syms then Inl Undefined
                      else
                        (case decode_rel_target insn (rtype currela3) (r_offset rel) of
                           None \<Rightarrow> Inl Undefined
                         | Some tgt \<Rightarrow>
                            let currela4 = currela3\<lparr>rsymbol := Some (r_sym rel)\<rparr>;
                                sv = value (syms ! r_sym rel)
                            in if rtype currela4 = R_ARM_MOVT_ABS \<or> rtype currela4 = R_ARM_THM_MOVT_ABS
                               then Inr (currela4\<lparr>addend := tgt - (sv AND 0xFFFF0000)\<rparr>)
                               else if rtype currela4 = R_ARM_MOVW_ABS_NC
                                     \<or> rtype currela4 = R_ARM_THM_MOVW_ABS_NC
                               then Inr (currela4\<lparr>addend := tgt - (sv AND 0xFFFF)\<rparr>)
                               else if rtype currela4 = R_ARM_THM_CALL
                               then Inr (currela4\<lparr>addend := tgt - (sv AND 0xFFFFFFFE)\<rparr>)
                               else Inr (currela4\<lparr>addend := tgt - sv\<rparr>))))"

text \<open>
  The \<open>for\<close> loop over \<open>relndx\<close>; the list holds the indices still to visit.  A slot
  beyond the allocated table is a write outside the array.
\<close>

fun load_rel_loop ::
  "vita_elf_symbol list \<Rightarrow> nat \<Rightarrow> (Elf_Scn \<times> Elf_Data) option \<Rightarrow> Elf_Data \<Rightarrow> nat list
     \<Rightarrow> vita_elf_rela list \<Rightarrow> error + vita_elf_rela list" where
  "load_rel_loop syms nsyms txt data [] rs = Inr rs"
| "load_rel_loop syms nsyms txt data (relndx # rest) rs =
     (case gelf_getrel data relndx of
        None \<Rightarrow> Inl Gelf_getrel_failed
      | Some rel \<Rightarrow>
          if relndx \<ge> length rs then Inl Undefined
          else (case load_rel_entry syms nsyms txt rel (rs ! relndx) of
                  Inl e \<Rightarrow> Inl e
                | Inr r \<Rightarrow> load_rel_loop syms nsyms txt data rest (rs[relndx := r])))"


section \<open>The symbol-table loader\<close>

text \<open>The inner \<open>for\<close> loop of \<open>load_symbols\<close> over the entries of one data descriptor.\<close>

fun load_sym_entries ::
  "Elf_Data \<Rightarrow> nat \<Rightarrow> nat list \<Rightarrow> vita_elf_symbol list \<Rightarrow> error + vita_elf_symbol list" where
  "load_sym_entries data data_beginsym [] st = Inr st"
| "load_sym_entries data data_beginsym (symndx # rest) st =
     (case gelf_getsym data symndx of
        None \<Rightarrow> Inl Gelf_getsym_failed
      | Some gsym \<Rightarrow>
          if symndx + data_beginsym \<ge> length st then Inl Undefined
          else load_sym_entries data data_beginsym rest
                 (st[symndx + data_beginsym :=
                       \<lparr>name = st_name gsym, value = st_value gsym, symtype = st_type gsym,
                        binding = st_bind gsym, shndx = st_shndx gsym\<rparr>]))"

text \<open>The \<open>while\<close> loop over the data descriptors: it stops once \<open>sh_size\<close> bytes are seen.\<close>

fun load_sym_chunks ::
  "nat \<Rightarrow> nat \<Rightarrow> Elf_Data list \<Rightarrow> nat \<Rightarrow> vita_elf_symbol list \<Rightarrow> error + vita_elf_symbol list" where
  "load_sym_chunks shsize entsize [] total_bytes st = Inr st"
| "load_sym_chunks shsize entsize (data # rest) total_bytes st =
     (if total_bytes < shsize
      then (case load_sym_entries data (d_off data div entsize) [0..<d_size data div entsize] st of
              Inl e \<Rightarrow> Inl e
            | Inr st' \<Rightarrow> load_sym_chunks shsize entsize rest (total_bytes + d_size data) st')
      else Inr st)"

text \<open>\<open>elf_ndxscn\<close>; for \<open>NULL\<close> it is \<open>SHN_UNDEF\<close>, which is 0.\<close>

definition elf_ndxscn :: "(nat \<times> Elf_Scn) option \<Rightarrow> nat" where
  "elf_ndxscn scn = (case scn of None \<Rightarrow> 0 | Some (ndx, _) \<Rightarrow> ndx)"

definition load_symbols ::
  "('l, 'm, 't) vita_elf \<Rightarrow> (nat \<times> Elf_Scn) option \<Rightarrow> error + ('l, 'm, 't) vita_elf" where
  "load_symbols ve scn =
     (if elf_ndxscn scn = symtab_ndx ve then Inr ve
      else if symtab ve \<noteq> None then Inl Multiple_symbol_tables
      else (case scn of
              None \<Rightarrow> Inl Undefined
            | Some (ndx, shdr) \<Rightarrow>
                if sh_entsize shdr = 0 then Inl Undefined
                else
                  let n = sh_size shdr div sh_entsize shdr
                  in (case load_sym_chunks (sh_size shdr) (sh_entsize shdr) (chunks shdr) 0
                             (replicate n zero_symbol) of
                        Inl e \<Rightarrow> Inl e
                      | Inr st \<Rightarrow> Inr (ve\<lparr>num_symbols := n, symtab := Some st, symtab_ndx := ndx\<rparr>))))"

section \<open>The relocation table of one REL section\<close>

definition symtab_list :: "('l, 'm, 't) vita_elf \<Rightarrow> vita_elf_symbol list" where
  "symtab_list ve = (case symtab ve of None \<Rightarrow> [] | Some st \<Rightarrow> st)"

text \<open>The section that the relocations patch and its first data descriptor.\<close>

definition text_of :: "Elf_Scn list \<Rightarrow> nat \<Rightarrow> (Elf_Scn \<times> Elf_Data) option" where
  "text_of scns ndx =
     (case elf_getscn scns ndx of
        None \<Rightarrow> None
      | Some (_, text_shdr) \<Rightarrow>
          (case elf_getdata_first text_shdr of
             None \<Rightarrow> None
           | Some text_data \<Rightarrow> Some (text_shdr, text_data)))"

definition load_rel_table ::
  "Elf_Scn list \<Rightarrow> ('l, 'm, 't) vita_elf \<Rightarrow> Elf_Scn \<Rightarrow> error + ('l, 'm, 't) vita_elf" where
  "load_rel_table scns ve shdr =
     (case load_symbols ve (elf_getscn scns (sh_link shdr)) of
        Inl e \<Rightarrow> Inl e
      | Inr ve1 \<Rightarrow>
          if sh_entsize shdr = 0 then Inl Undefined
          else
            (case elf_getdata_first shdr of
               None \<Rightarrow> Inl Undefined
             | Some data \<Rightarrow>
                 (case load_rel_loop (symtab_list ve1) (num_symbols ve1)
                         (text_of scns (sh_info shdr)) data
                         [0..<d_size data div sh_entsize shdr]
                         (replicate (sh_size shdr div sh_entsize shdr) zero_rela) of
                    Inl e \<Rightarrow> Inl e
                  | Inr rs \<Rightarrow>
                      Inr (ve1\<lparr>rela_tables :=
                                 \<lparr>relas = rs, num_relas = sh_size shdr div sh_entsize shdr,
                                  target_ndx = sh_info shdr\<rparr> # rela_tables ve1\<rparr>))))"

text \<open>
  The adjustment of the symbol value in the words of the specification (section 4.5,
  step 6).
\<close>

definition adjusted_symbol_value :: "r_type \<Rightarrow> u32 \<Rightarrow> u32" where
  "adjusted_symbol_value t v =
     (if t = R_ARM_MOVT_ABS \<or> t = R_ARM_THM_MOVT_ABS then v AND 0xFFFF0000
      else if t = R_ARM_MOVW_ABS_NC \<or> t = R_ARM_THM_MOVW_ABS_NC then v AND 0x0000FFFF
      else if t = R_ARM_THM_CALL then v AND 0xFFFFFFFE
      else v)"

text \<open>The type of an entry after the rewrite of \<open>R_ARM_THM_JUMP24\<close>.\<close>

definition normalized_type :: "r_type \<Rightarrow> r_type" where
  "normalized_type t = (if t = R_ARM_THM_JUMP24 then R_ARM_THM_CALL else t)"

text \<open>The relocation tables of a load result; none when the load failed.\<close>

definition loaded_tables :: "error + ('l, 'm, 't) vita_elf \<Rightarrow> vita_elf_rela_table list" where
  "loaded_tables r = (case r of Inl _ \<Rightarrow> [] | Inr ve \<Rightarrow> rela_tables ve)"

definition loaded_addend :: "error + vita_elf_rela \<Rightarrow> int option" where
  "loaded_addend r = (case r of Inl _ \<Rightarrow> None | Inr rela \<Rightarrow> Some (sint (addend rela)))"


definition loaded_addends :: "error + ('l, 'm, 't) vita_elf \<Rightarrow> int list list" where
  "loaded_addends r = map (\<lambda>t. map (\<lambda>e. sint (addend e)) (relas t)) (loaded_tables r)"

section \<open>Example inputs\<close>

text \<open>
  Section headers and contents for small input files: the null section of index 0, a
  \<open>PROGBITS\<close> section, a symbol table of 16-byte entries and a REL section of 8-byte
  entries, each with a single data descriptor that covers the section.
\<close>

definition scn_null :: Elf_Scn where
  "scn_null = \<lparr>sh_name = Some [], sh_type = SHT_OTHER 0, sh_addr = 0, sh_size = 0,
               sh_entsize = 0, sh_link = 0, sh_info = 0, chunks = []\<rparr>"

definition scn_progbits :: "string \<Rightarrow> u32 \<Rightarrow> u8 list \<Rightarrow> Elf_Scn" where
  "scn_progbits nm a bytes =
     \<lparr>sh_name = Some nm, sh_type = SHT_PROGBITS, sh_addr = a, sh_size = length bytes,
      sh_entsize = 0, sh_link = 0, sh_info = 0,
      chunks = [\<lparr>d_off = 0, d_size = length bytes, d_buf = bytes, d_syms = [], d_rels = []\<rparr>]\<rparr>"

definition scn_symtab :: "GElf_Sym list \<Rightarrow> Elf_Scn" where
  "scn_symtab syms =
     \<lparr>sh_name = Some ''.symtab'', sh_type = SHT_SYMTAB, sh_addr = 0, sh_size = 16 * length syms,
      sh_entsize = 16, sh_link = 0, sh_info = 0,
      chunks = [\<lparr>d_off = 0, d_size = 16 * length syms, d_buf = [], d_syms = syms, d_rels = []\<rparr>]\<rparr>"

definition scn_rel :: "string \<Rightarrow> nat \<Rightarrow> nat \<Rightarrow> GElf_Rel list \<Rightarrow> Elf_Scn" where
  "scn_rel nm link info rels =
     \<lparr>sh_name = Some nm, sh_type = SHT_REL, sh_addr = 0, sh_size = 8 * length rels,
      sh_entsize = 8, sh_link = link, sh_info = info,
      chunks = [\<lparr>d_off = 0, d_size = 8 * length rels, d_buf = [], d_syms = [], d_rels = rels\<rparr>]\<rparr>"

text \<open>
  Scenario S1: the Thumb \<open>BL\<close> with bytes \<open>FF F7 FE FF\<close> at guest address \<open>0x81000\<close>,
  patched by one \<open>R_ARM_THM_CALL\<close> entry against a symbol of value \<open>0x81001\<close>.
\<close>

definition S1_rel :: Elf_Scn where
  "S1_rel = scn_rel ''.rel.text'' 2 1 [\<lparr>r_offset = 0x81000, r_type = R_ARM_THM_CALL, r_sym = 0\<rparr>]"

definition S1_sections :: "Elf_Scn list" where
  "S1_sections =
     [scn_null,
      scn_progbits ''.text'' 0x81000 [0xFF, 0xF7, 0xFE, 0xFF],
      scn_symtab [\<lparr>st_name = ''S'', st_value = 0x81001, st_type = STT_FUNC,
                   st_bind = STB_GLOBAL, st_shndx = 1\<rparr>],
      S1_rel]"

text \<open>
  Scenario S2: \<open>movw r0, #0xBEEF\<close> and \<open>movt r0, #0xDEAD\<close> at adjacent offsets, both
  against one symbol of value \<open>0xDEADBEEF\<close>.
\<close>

definition S2_rel :: Elf_Scn where
  "S2_rel = scn_rel ''.rel.text'' 2 1
              [\<lparr>r_offset = 0x81000, r_type = R_ARM_MOVW_ABS_NC, r_sym = 0\<rparr>,
               \<lparr>r_offset = 0x81004, r_type = R_ARM_MOVT_ABS, r_sym = 0\<rparr>]"

definition S2_sections :: "Elf_Scn list" where
  "S2_sections =
     [scn_null,
      scn_progbits ''.text'' 0x81000 [0xEF, 0x0E, 0x0B, 0xE3, 0xAD, 0x0E, 0x4D, 0xE3],
      scn_symtab [\<lparr>st_name = ''S'', st_value = 0xDEADBEEF, st_type = STT_OBJECT,
                   st_bind = STB_GLOBAL, st_shndx = 1\<rparr>],
      S2_rel]"

text \<open>A REL section with one \<open>R_ARM_THM_PC11\<close> entry between two \<open>R_ARM_ABS32\<close> entries.\<close>

definition PC11_rel :: Elf_Scn where
  "PC11_rel = scn_rel ''.rel.text'' 2 1
                [\<lparr>r_offset = 0x81000, r_type = R_ARM_ABS32, r_sym = 0\<rparr>,
                 \<lparr>r_offset = 0x81004, r_type = R_ARM_THM_PC11, r_sym = 0\<rparr>,
                 \<lparr>r_offset = 0x81008, r_type = R_ARM_ABS32, r_sym = 0\<rparr>]"

definition PC11_sections :: "Elf_Scn list" where
  "PC11_sections =
     [scn_null,
      scn_progbits ''.text'' 0x81000
        [0x00, 0x80, 0x00, 0x00, 0xFE, 0xE7, 0x00, 0xBF, 0x00, 0x80, 0x00, 0x00],
      scn_symtab [\<lparr>st_name = ''S'', st_value = 0x7000, st_type = STT_OBJECT,
                   st_bind = STB_GLOBAL, st_shndx = 1\<rparr>],
      PC11_rel]"

section \<open>The address-space mapper\<close>

text \<open>
  Host addresses are the pointers of an LP64 host, 64-bit words with \<open>NULL = 0\<close>;
  guest addresses and sizes are \<open>uint32_t\<close>, so \<open>seg->vaddr + seg->memsz\<close> wraps
  at \<open>2^32\<close>.  The loops run over the segment array of the context.
\<close>

fun vaddr_to_host_loop :: "vita_elf_segment_info list \<Rightarrow> u32 \<Rightarrow> host_ptr" where
  "vaddr_to_host_loop [] a = 0"
| "vaddr_to_host_loop (seg # rest) a =
     (if a \<ge> vaddr seg \<and> a < vaddr seg + memsz seg
      then vaddr_top seg + ucast a - ucast (vaddr seg)
      else vaddr_to_host_loop rest a)"

definition vita_elf_vaddr_to_host :: "('l, 'm, 't) vita_elf \<Rightarrow> u32 \<Rightarrow> host_ptr" where
  "vita_elf_vaddr_to_host ve a = vaddr_to_host_loop (segments ve) a"

fun host_to_vaddr_loop :: "vita_elf_segment_info list \<Rightarrow> host_ptr \<Rightarrow> u32" where
  "host_to_vaddr_loop [] host_addr = 0"
| "host_to_vaddr_loop (seg # rest) host_addr =
     (if host_addr \<ge> vaddr_top seg \<and> host_addr < vaddr_bottom seg
      then vaddr seg + ucast (host_addr - vaddr_top seg)
      else host_to_vaddr_loop rest host_addr)"

definition vita_elf_host_to_vaddr :: "('l, 'm, 't) vita_elf \<Rightarrow> host_ptr \<Rightarrow> u32" where
  "vita_elf_host_to_vaddr ve host_addr =
     (if host_addr = 0 then 0 else host_to_vaddr_loop (segments ve) host_addr)"

text \<open>
  \<open>vita_elf_vaddr_to_segoffset\<close>.  \<open>segndx\<close> is a C \<open>int\<close>; an index outside the segment
  array is a read outside the array, which has no defined result: \<open>None\<close>.
\<close>

definition vita_elf_vaddr_to_segoffset :: "('l, 'm, 't) vita_elf \<Rightarrow> u32 \<Rightarrow> int \<Rightarrow> u32 option" where
  "vita_elf_vaddr_to_segoffset ve a segndx =
     (if segndx < 0 \<or> segndx \<ge> int (length (segments ve)) then None
      else let seg = segments ve ! nat segndx
           in if a = 0 then Some 0 else Some (a - vaddr seg))"

text \<open>
  The state of the host placeholders after loading: a segment with \<open>memsz = 0\<close> has
  no reservation (both pointers stay \<open>NULL\<close>); any other segment owns the \<open>memsz\<close>
  bytes from the non-null \<open>vaddr_top\<close> up to \<open>vaddr_bottom\<close>, and the reservations of
  distinct segments do not overlap.
\<close>

definition seg_host_ok :: "vita_elf_segment_info \<Rightarrow> bool" where
  "seg_host_ok s =
     (if memsz s = 0 then vaddr_top s = 0 \<and> vaddr_bottom s = 0
      else vaddr_top s \<noteq> 0 \<and> unat (vaddr_top s) + unat (memsz s) < 2 ^ 64
           \<and> vaddr_bottom s = vaddr_top s + ucast (memsz s))"

definition host_disjoint :: "vita_elf_segment_info \<Rightarrow> vita_elf_segment_info \<Rightarrow> bool" where
  "host_disjoint s t = (vaddr_bottom s \<le> vaddr_top t \<or> vaddr_bottom t \<le> vaddr_top s)"

fun hosts_ok :: "vita_elf_segment_info list \<Rightarrow> bool" where
  "hosts_ok [] = True"
| "hosts_ok (s # ss) = (seg_host_ok s \<and> list_all (host_disjoint s) ss \<and> hosts_ok ss)"

text \<open>
  Scenario S4: two \<open>LOAD\<close> segments and an \<open>EXIDX\<close> segment that shadows the start of
  the first, with host placeholders as \<open>mmap\<close> may hand them out.
\<close>

definition S4_segments :: "vita_elf_segment_info list" where
  "S4_segments =
     [\<lparr>segtype = 0x70000001, vaddr = 0x80000000, memsz = 0x200,
       vaddr_top = 0x7f0000030000, vaddr_bottom = 0x7f0000030200\<rparr>,
      \<lparr>segtype = 1, vaddr = 0x80000000, memsz = 0x10000,
       vaddr_top = 0x7f0000010000, vaddr_bottom = 0x7f0000020000\<rparr>,
      \<lparr>segtype = 1, vaddr = 0x81000000, memsz = 0x1000,
       vaddr_top = 0x7f0000000000, vaddr_bottom = 0x7f0000001000\<rparr>]"

definition S4_elf :: "(unit, unit, unit) vita_elf" where
  "S4_elf = zero_elf\<lparr>segments := S4_segments, num_segments := 3\<rparr>"


section \<open>The stub loader\<close>

text \<open>
  The inner \<open>for\<close> loop of \<open>load_stubs\<close> over the 16-byte slots of one data descriptor.
  \<open>cur\<close> is the position of \<open>curstub\<close> in the stub array; the address is truncated to
  the 32 bits of \<open>Elf32_Addr\<close>.
\<close>

fun load_stub_slots ::
  "u32 \<Rightarrow> Elf_Data \<Rightarrow> nat list \<Rightarrow> nat \<Rightarrow> ('l, 'm, 't) vita_elf_stub list
     \<Rightarrow> error + (nat \<times> ('l, 'm, 't) vita_elf_stub list)" where
  "load_stub_slots sa data [] cur st = Inr (cur, st)"
| "load_stub_slots sa data (chunk_offset # rest) cur st =
     (case (read_le32 (d_buf data) chunk_offset, read_le32 (d_buf data) (chunk_offset + 4),
            read_le32 (d_buf data) (chunk_offset + 8)) of
        (Some w0, Some w1, Some w2) \<Rightarrow>
          if cur \<ge> length st then Inl Undefined
          else load_stub_slots sa data rest (Suc cur)
                 (st[cur := (st ! cur)\<lparr>addr := word_of_nat (unat sa + d_off data + chunk_offset),
                                        library_nid := w0, module_nid := w1, target_nid := w2\<rparr>])
      | _ \<Rightarrow> Inl Undefined)"

fun load_stub_chunks ::
  "u32 \<Rightarrow> nat \<Rightarrow> Elf_Data list \<Rightarrow> nat \<Rightarrow> nat \<Rightarrow> ('l, 'm, 't) vita_elf_stub list
     \<Rightarrow> error + ('l, 'm, 't) vita_elf_stub list" where
  "load_stub_chunks sa shsize [] total_bytes cur st = Inr st"
| "load_stub_chunks sa shsize (data # rest) total_bytes cur st =
     (if total_bytes < shsize
      then (case load_stub_slots sa data (map (\<lambda>k. 16 * k) [0..<(d_size data + 15) div 16]) cur st of
              Inl e \<Rightarrow> Inl e
            | Inr (cur', st') \<Rightarrow>
                load_stub_chunks sa shsize rest (total_bytes + d_size data) cur' st')
      else Inr st)"

text \<open>\<open>load_stubs\<close> returns \<open>*num_stubs\<close> and \<open>*stubs\<close>.\<close>

definition load_stubs :: "Elf_Scn \<Rightarrow> error + (nat \<times> ('l, 'm, 't) vita_elf_stub list)" where
  "load_stubs shdr =
     (let num_stubs = sh_size shdr div 16
      in case load_stub_chunks (sh_addr shdr) (sh_size shdr) (chunks shdr) 0 0
                (replicate num_stubs zero_stub) of
           Inl e \<Rightarrow> Inl e
         | Inr st \<Rightarrow> Inr (num_stubs, st))"

definition load_rela_table :: "('l, 'm, 't) vita_elf \<Rightarrow> Elf_Scn \<Rightarrow> error + ('l, 'm, 't) vita_elf" where
  "load_rela_table ve shdr = Inl RELA_unsupported"

section \<open>The stub-symbol linker\<close>

text \<open>
  The inner \<open>for\<close> loop of \<open>lookup_stub_symbols\<close> for the symbol \<open>cursym\<close> of index
  \<open>symndx\<close>: the first stub at the symbol's value is bound, unless it is bound already;
  running off the end of the array is the failure \<open>stub == num_stubs\<close>.
\<close>

fun bind_stub ::
  "vita_elf_symbol list \<Rightarrow> nat \<Rightarrow> vita_elf_symbol \<Rightarrow> nat \<Rightarrow> ('l, 'm, 't) vita_elf_stub list
     \<Rightarrow> error + ('l, 'm, 't) vita_elf_stub list" where
  "bind_stub syms stubs_ndx cursym symndx [] =
     Inl (Not_a_valid_stub (name cursym) (shndx cursym))"
| "bind_stub syms stubs_ndx cursym symndx (st # rest) =
     (if addr st \<noteq> value cursym
      then (case bind_stub syms stubs_ndx cursym symndx rest of
              Inl e \<Rightarrow> Inl e
            | Inr rest' \<Rightarrow> Inr (st # rest'))
      else (case symbol st of
              Some other \<Rightarrow>
                Inl (Duplicate_stub_symbols (value cursym) stubs_ndx (name (syms ! other))
                       (name cursym))
            | None \<Rightarrow> Inr (st\<lparr>symbol := Some symndx\<rparr> # rest)))"

text \<open>The symbols that the linker looks at: global, function or object, in the stub section.\<close>

definition stub_symbol :: "nat \<Rightarrow> vita_elf_symbol \<Rightarrow> bool" where
  "stub_symbol stubs_ndx cursym =
     (binding cursym = STB_GLOBAL
      \<and> (symtype cursym = STT_FUNC \<or> symtype cursym = STT_OBJECT)
      \<and> shndx cursym = stubs_ndx)"

text \<open>The body of the outer \<open>for\<close> loop for the symbol of index \<open>symndx\<close>.\<close>

definition link_symbol ::
  "vita_elf_symbol list \<Rightarrow> nat \<Rightarrow> st_type \<Rightarrow> nat \<Rightarrow> ('l, 'm, 't) vita_elf_stub list
     \<Rightarrow> error + ('l, 'm, 't) vita_elf_stub list" where
  "link_symbol syms stubs_ndx sym_type symndx stubs =
     (if symndx \<ge> length syms then Inl Undefined
      else
        let cursym = syms ! symndx
        in if binding cursym \<noteq> STB_GLOBAL then Inr stubs
           else if symtype cursym \<noteq> STT_FUNC \<and> symtype cursym \<noteq> STT_OBJECT then Inr stubs
           else if shndx cursym \<noteq> stubs_ndx then Inr stubs
           else if symtype cursym \<noteq> sym_type
           then Inl (Wrong_symbol_type (name cursym) stubs_ndx sym_type (symtype cursym))
           else bind_stub syms stubs_ndx cursym symndx stubs)"

fun lookup_stub_symbols_loop ::
  "vita_elf_symbol list \<Rightarrow> nat \<Rightarrow> st_type \<Rightarrow> nat list \<Rightarrow> ('l, 'm, 't) vita_elf_stub list
     \<Rightarrow> error + ('l, 'm, 't) vita_elf_stub list" where
  "lookup_stub_symbols_loop syms stubs_ndx sym_type [] stubs = Inr stubs"
| "lookup_stub_symbols_loop syms stubs_ndx sym_type (symndx # rest) stubs =
     (case link_symbol syms stubs_ndx sym_type symndx stubs of
        Inl e \<Rightarrow> Inl e
      | Inr stubs' \<Rightarrow> lookup_stub_symbols_loop syms stubs_ndx sym_type rest stubs')"

definition lookup_stub_symbols ::
  "('l, 'm, 't) vita_elf \<Rightarrow> ('l, 'm, 't) vita_elf_stub list \<Rightarrow> nat \<Rightarrow> st_type
     \<Rightarrow> error + ('l, 'm, 't) vita_elf_stub list" where
  "lookup_stub_symbols ve stubs stubs_ndx sym_type =
     lookup_stub_symbols_loop (symtab_list ve) stubs_ndx sym_type [0..<num_symbols ve] stubs"

section \<open>Loading the ELF context\<close>

datatype elf_kind = ELF_K_ELF | ELF_K_OTHER
datatype e_machine = EM_ARM | EM_OTHER nat
datatype ei_class = ELFCLASS32 | ELFCLASS_OTHER
datatype ei_data = ELFDATA2LSB | ELFDATA_OTHER

record GElf_Phdr =
  p_type :: nat
  p_vaddr :: u32
  p_memsz :: u32

text \<open>
  The input file as libelf presents it once it is open: the kind, the fields of the ELF
  header that the loader checks, the section table (index 0 is the null section, which
  \<open>elf_nextscn\<close> skips) and the program headers.
\<close>

record elf_file =
  kind :: elf_kind
  machine :: e_machine
  eclass :: ei_class
  edata :: ei_data
  sections :: "Elf_Scn list"
  phdrs :: "GElf_Phdr list"

definition debug_sections :: "string list" where
  "debug_sections = [''.rel.debug_info'', ''.rel.debug_arange'', ''.rel.debug_line'',
                     ''.rel.debug_frame'']"

text \<open>The body of the \<open>while\<close> loop of \<open>vita_elf_load\<close> for the section of index \<open>ndx\<close>.\<close>

definition scan_stubs ::
  "('l, 'm, 't) vita_elf \<Rightarrow> nat \<Rightarrow> Elf_Scn \<Rightarrow> string \<Rightarrow> error + ('l, 'm, 't) vita_elf" where
  "scan_stubs ve ndx shdr nm =
     (if sh_type shdr = SHT_PROGBITS \<and> nm = ''.vitalink.fstubs''
      then (if fstubs_ndx ve \<noteq> 0 then Inl Multiple_fstubs_sections
            else (case load_stubs shdr of
                    Inl e \<Rightarrow> Inl e
                  | Inr (n, st) \<Rightarrow> Inr (ve\<lparr>fstubs_ndx := ndx, num_fstubs := n, fstubs := st\<rparr>)))
      else if sh_type shdr = SHT_PROGBITS \<and> nm = ''.vitalink.vstubs''
      then (if vstubs_ndx ve \<noteq> 0 then Inl Multiple_vstubs_sections
            else (case load_stubs shdr of
                    Inl e \<Rightarrow> Inl e
                  | Inr (n, st) \<Rightarrow> Inr (ve\<lparr>vstubs_ndx := ndx, num_vstubs := n, vstubs := st\<rparr>)))
      else Inr ve)"

definition scan_section ::
  "Elf_Scn list \<Rightarrow> ('l, 'm, 't) vita_elf \<Rightarrow> nat \<Rightarrow> Elf_Scn \<Rightarrow> error + ('l, 'm, 't) vita_elf" where
  "scan_section scns ve ndx shdr =
     (case sh_name shdr of
        None \<Rightarrow> Inl Elf_library_error
      | Some nm \<Rightarrow>
          (case scan_stubs ve ndx shdr nm of
             Inl e \<Rightarrow> Inl e
           | Inr ve1 \<Rightarrow>
               if nm \<in> set debug_sections then Inl Contains_debugging_information
               else if sh_type shdr = SHT_SYMTAB then load_symbols ve1 (Some (ndx, shdr))
               else if sh_type shdr = SHT_REL then load_rel_table scns ve1 shdr
               else if sh_type shdr = SHT_RELA then load_rela_table ve1 shdr
               else Inr ve1))"

fun scan_sections ::
  "Elf_Scn list \<Rightarrow> nat \<Rightarrow> Elf_Scn list \<Rightarrow> ('l, 'm, 't) vita_elf \<Rightarrow> error + ('l, 'm, 't) vita_elf" where
  "scan_sections scns ndx [] ve = Inr ve"
| "scan_sections scns ndx (shdr # rest) ve =
     (case scan_section scns ve ndx shdr of
        Inl e \<Rightarrow> Inl e
      | Inr ve' \<Rightarrow> scan_sections scns (Suc ndx) rest ve')"

text \<open>
  The loop over the program headers.  \<open>mmap_result segndx\<close> is the pointer that \<open>mmap\<close>
  returns for the segment \<open>segndx\<close>; the code takes \<open>NULL\<close> as the failure.
\<close>

fun load_segments ::
  "(nat \<Rightarrow> host_ptr) \<Rightarrow> nat \<Rightarrow> GElf_Phdr list \<Rightarrow> error + vita_elf_segment_info list" where
  "load_segments mmap_result segndx [] = Inr []"
| "load_segments mmap_result segndx (phdr # rest) =
     (let curseg = \<lparr>segtype = p_type phdr, vaddr = p_vaddr phdr, memsz = p_memsz phdr,
                    vaddr_top = 0, vaddr_bottom = 0\<rparr>
      in if memsz curseg \<noteq> 0
         then (if mmap_result segndx = 0 then Inl (Mmap_failed segndx)
               else (case load_segments mmap_result (Suc segndx) rest of
                       Inl e \<Rightarrow> Inl e
                     | Inr segs \<Rightarrow>
                         Inr (curseg\<lparr>vaddr_top := mmap_result segndx,
                                     vaddr_bottom := mmap_result segndx + ucast (memsz curseg)\<rparr>
                              # segs)))
         else (case load_segments mmap_result (Suc segndx) rest of
                 Inl e \<Rightarrow> Inl e
               | Inr segs \<Rightarrow> Inr (curseg # segs)))"

text \<open>The part of \<open>vita_elf_load\<close> after the loop over the sections.\<close>

definition link_fstubs :: "('l, 'm, 't) vita_elf \<Rightarrow> error + ('l, 'm, 't) vita_elf" where
  "link_fstubs ve =
     (if fstubs_ndx ve \<noteq> 0
      then (case lookup_stub_symbols ve (fstubs ve) (fstubs_ndx ve) STT_FUNC of
              Inl e \<Rightarrow> Inl e
            | Inr st \<Rightarrow> Inr (ve\<lparr>fstubs := st\<rparr>))
      else Inr ve)"

definition link_vstubs :: "('l, 'm, 't) vita_elf \<Rightarrow> error + ('l, 'm, 't) vita_elf" where
  "link_vstubs ve =
     (if vstubs_ndx ve \<noteq> 0
      then (case lookup_stub_symbols ve (vstubs ve) (vstubs_ndx ve) STT_OBJECT of
              Inl e \<Rightarrow> Inl e
            | Inr st \<Rightarrow> Inr (ve\<lparr>vstubs := st\<rparr>))
      else Inr ve)"

definition finish_load ::
  "(nat \<Rightarrow> host_ptr) \<Rightarrow> GElf_Phdr list \<Rightarrow> ('l, 'm, 't) vita_elf \<Rightarrow> error + ('l, 'm, 't) vita_elf" where
  "finish_load mmap_result ph ve =
     (if fstubs_ndx ve = 0 \<and> vstubs_ndx ve = 0 then Inl No_stub_sections
      else if symtab ve = None then Inl No_symbol_table
      else if rela_tables ve = [] then Inl No_relocation_sections
      else (case link_fstubs ve of
              Inl e \<Rightarrow> Inl e
            | Inr ve1 \<Rightarrow>
                (case link_vstubs ve1 of
                   Inl e \<Rightarrow> Inl e
                 | Inr ve2 \<Rightarrow>
                     (case load_segments mmap_result 0 ph of
                        Inl e \<Rightarrow> Inl e
                      | Inr segs \<Rightarrow> Inr (ve2\<lparr>segments := segs, num_segments := length ph\<rparr>)))))"

text \<open>
  \<open>vita_elf_load\<close>.  The argument is the file as libelf presents it, \<open>None\<close> when
  \<open>fopen\<close> fails; the result \<open>Inl\<close> is the \<open>NULL\<close> return with its diagnostic.
\<close>

definition vita_elf_load ::
  "elf_file option \<Rightarrow> (nat \<Rightarrow> host_ptr) \<Rightarrow> error + ('l, 'm, 't) vita_elf" where
  "vita_elf_load file mmap_result =
     (case file of
        None \<Rightarrow> Inl Open_failed
      | Some f \<Rightarrow>
          if kind f \<noteq> ELF_K_ELF then Inl Not_an_ELF_file
          else if machine f \<noteq> EM_ARM then Inl Not_an_ARM_binary
          else if eclass f \<noteq> ELFCLASS32 \<or> edata f \<noteq> ELFDATA2LSB then Inl Not_32bit_little_endian
          else (case scan_sections (sections f) 1 (tl (sections f)) zero_elf of
                  Inl e \<Rightarrow> Inl e
                | Inr ve \<Rightarrow> finish_load mmap_result (phdrs f) ve))"

section \<open>The import resolver\<close>

text \<open>
  The three \<open>warnx\<close> calls of \<open>lookup_stubs\<close>, each with its arguments in the order of
  the format string:
  \<open>"Unable to find library with NID %u for %s symbol %s"\<close>,
  \<open>"Unable to find module with NID %u for %s symbol %s"\<close> and
  \<open>"Unable to find %s with NID %u for symbol %s"\<close>.
\<close>

datatype warning =
    Unable_to_find_library u32 string string
  | Unable_to_find_module u32 string string
  | Unable_to_find_target string u32 string

text \<open>\<open>stub->symbol ? stub->symbol->name : "(unreferenced stub)"\<close>\<close>

definition stub_symbol_name :: "vita_elf_symbol list \<Rightarrow> ('l, 'm, 't) vita_elf_stub \<Rightarrow> string" where
  "stub_symbol_name syms stub =
     (case symbol stub of None \<Rightarrow> ''(unreferenced stub)'' | Some i \<Rightarrow> name (syms ! i))"

text \<open>
  The loop over the import databases: \<open>stub->library\<close> is assigned in every round and
  the loop stops at the first database that knows the library.  The finders of
  \<open>vita-import.h\<close> are parameters.
\<close>

fun find_library_loop :: "('db \<Rightarrow> u32 \<Rightarrow> 'l option) \<Rightarrow> 'db list \<Rightarrow> u32 \<Rightarrow> 'l option \<Rightarrow> 'l option" where
  "find_library_loop find_lib [] nid cur = cur"
| "find_library_loop find_lib (imp # rest) nid cur =
     (case find_lib imp nid of
        Some lib \<Rightarrow> Some lib
      | None \<Rightarrow> find_library_loop find_lib rest nid None)"

text \<open>
  The body of the loop of \<open>lookup_stubs\<close> for one stub: the stub as it is left, the
  warning if one is emitted, and whether the stub was found.
\<close>

definition lookup_stub ::
  "('db \<Rightarrow> u32 \<Rightarrow> 'l option) \<Rightarrow> ('l \<Rightarrow> u32 \<Rightarrow> 'm option) \<Rightarrow> ('m \<Rightarrow> u32 \<Rightarrow> 't option)
     \<Rightarrow> vita_elf_symbol list \<Rightarrow> 'db list \<Rightarrow> string \<Rightarrow> ('l, 'm, 't) vita_elf_stub
     \<Rightarrow> ('l, 'm, 't) vita_elf_stub \<times> warning list \<times> bool" where
  "lookup_stub find_lib find_module find_stub syms imports stub_type_name stub0 =
     (let stub1 = stub0\<lparr>library :=
                    find_library_loop find_lib imports (library_nid stub0) (library stub0)\<rparr>
      in case library stub1 of
           None \<Rightarrow>
             (stub1, [Unable_to_find_library (library_nid stub1) stub_type_name
                        (stub_symbol_name syms stub1)], False)
         | Some lib \<Rightarrow>
             let stub2 = stub1\<lparr>module := find_module lib (module_nid stub1)\<rparr>
             in case module stub2 of
                  None \<Rightarrow>
                    (stub2, [Unable_to_find_module (module_nid stub2) stub_type_name
                               (stub_symbol_name syms stub2)], False)
                | Some md \<Rightarrow>
                    let stub3 = stub2\<lparr>target := find_stub md (target_nid stub2)\<rparr>
                    in case target stub3 of
                         None \<Rightarrow>
                           (stub3, [Unable_to_find_target stub_type_name (module_nid stub3)
                                      (stub_symbol_name syms stub3)], False)
                       | Some _ \<Rightarrow> (stub3, [], True))"

text \<open>
  \<open>lookup_stubs\<close>: the stubs as they are left, the warnings in the order they are
  emitted, and \<open>found_all\<close>.
\<close>

fun lookup_stubs_loop ::
  "('db \<Rightarrow> u32 \<Rightarrow> 'l option) \<Rightarrow> ('l \<Rightarrow> u32 \<Rightarrow> 'm option) \<Rightarrow> ('m \<Rightarrow> u32 \<Rightarrow> 't option)
     \<Rightarrow> vita_elf_symbol list \<Rightarrow> 'db list \<Rightarrow> string \<Rightarrow> ('l, 'm, 't) vita_elf_stub list \<Rightarrow> bool
     \<Rightarrow> ('l, 'm, 't) vita_elf_stub list \<times> warning list \<times> bool" where
  "lookup_stubs_loop find_lib find_module find_stub syms imports stub_type_name [] found_all =
     ([], [], found_all)"
| "lookup_stubs_loop find_lib find_module find_stub syms imports stub_type_name (stub # rest)
     found_all =
     (case lookup_stub find_lib find_module find_stub syms imports stub_type_name stub of
        (stub', ws, found) \<Rightarrow>
          (case lookup_stubs_loop find_lib find_module find_stub syms imports stub_type_name rest
                  (found_all \<and> found) of
             (rest', ws', found_all') \<Rightarrow> (stub' # rest', ws @ ws', found_all')))"

definition lookup_stubs ::
  "('db \<Rightarrow> u32 \<Rightarrow> 'l option) \<Rightarrow> ('l \<Rightarrow> u32 \<Rightarrow> 'm option) \<Rightarrow> ('m \<Rightarrow> u32 \<Rightarrow> 't option)
     \<Rightarrow> vita_elf_symbol list \<Rightarrow> ('l, 'm, 't) vita_elf_stub list \<Rightarrow> 'db list \<Rightarrow> string
     \<Rightarrow> ('l, 'm, 't) vita_elf_stub list \<times> warning list \<times> bool" where
  "lookup_stubs find_lib find_module find_stub syms stubs imports stub_type_name =
     lookup_stubs_loop find_lib find_module find_stub syms imports stub_type_name stubs True"

definition vita_elf_lookup_imports ::
  "('db \<Rightarrow> u32 \<Rightarrow> 'l option) \<Rightarrow> ('l \<Rightarrow> u32 \<Rightarrow> 'm option) \<Rightarrow> ('m \<Rightarrow> u32 \<Rightarrow> 't option)
     \<Rightarrow> ('m \<Rightarrow> u32 \<Rightarrow> 't option) \<Rightarrow> ('l, 'm, 't) vita_elf \<Rightarrow> 'db list
     \<Rightarrow> ('l, 'm, 't) vita_elf \<times> warning list \<times> bool" where
  "vita_elf_lookup_imports find_lib find_module find_function find_variable ve imports =
     (case lookup_stubs find_lib find_module find_function (symtab_list ve) (fstubs ve) imports
             ''function'' of
        (fs, ws1, found1) \<Rightarrow>
          (case lookup_stubs find_lib find_module find_variable (symtab_list ve) (vstubs ve)
                  imports ''variable'' of
             (vs, ws2, found2) \<Rightarrow>
               (ve\<lparr>fstubs := fs, vstubs := vs\<rparr>, ws1 @ ws2, found1 \<and> found2)))"

text \<open>A stub is resolved when its library, module and target are all bound.\<close>

definition resolved :: "('l, 'm, 't) vita_elf_stub \<Rightarrow> bool" where
  "resolved stub = (library stub \<noteq> None \<and> module stub \<noteq> None \<and> target stub \<noteq> None)"

text \<open>
  The warning for a stub in the words of the specification: it names the NID of the
  step that failed, the library NID, the module NID or the target NID.
\<close>

definition spec_warning ::
  "('db \<Rightarrow> u32 \<Rightarrow> 'l option) \<Rightarrow> ('l \<Rightarrow> u32 \<Rightarrow> 'm option) \<Rightarrow> ('m \<Rightarrow> u32 \<Rightarrow> 't option)
     \<Rightarrow> vita_elf_symbol list \<Rightarrow> 'db list \<Rightarrow> string \<Rightarrow> ('l, 'm, 't) vita_elf_stub
     \<Rightarrow> warning list" where
  "spec_warning find_lib find_module find_stub syms imports stub_type_name stub =
     (case List.map_filter (\<lambda>imp. find_lib imp (library_nid stub)) imports of
        [] \<Rightarrow> [Unable_to_find_library (library_nid stub) stub_type_name (stub_symbol_name syms stub)]
      | lib # _ \<Rightarrow>
          (case find_module lib (module_nid stub) of
             None \<Rightarrow> [Unable_to_find_module (module_nid stub) stub_type_name
                        (stub_symbol_name syms stub)]
           | Some md \<Rightarrow>
               (case find_stub md (target_nid stub) of
                  None \<Rightarrow> [Unable_to_find_target stub_type_name (target_nid stub)
                             (stub_symbol_name syms stub)]
                | Some _ \<Rightarrow> [])))"

section \<open>The orchestrator\<close>

datatype exit_status = EXIT_SUCCESS | EXIT_FAILURE

text \<open>
  The calls of \<open>main\<close> that produce the output file, each under \<open>ASSERT\<close> or
  \<open>ELF_ASSERT\<close>, in the order of the source.
\<close>

datatype stage =
    Copy_to_file
  | Duplicate_shstrtab
  | Discard_invalid_relocs
  | Write_module_info
  | Write_rela_sections
  | Rewrite_stubs
  | Elf_update
  | Set_headers

definition output_stages :: "stage list" where
  "output_stages = [Copy_to_file, Duplicate_shstrtab, Discard_invalid_relocs, Write_module_info,
                    Write_rela_sections, Rewrite_stubs, Elf_update, Set_headers]"

text \<open>The stages run in order; the first one that fails jumps to \<open>failure\<close>.\<close>

fun run_stages :: "(stage \<Rightarrow> bool) \<Rightarrow> stage list \<Rightarrow> stage list" where
  "run_stages ok [] = []"
| "run_stages ok (s # ss) = (if ok s then s # run_stages ok ss else [])"

text \<open>
  What one run of \<open>main\<close> is given: the argument count, the input file, the pointers
  \<open>mmap\<close> returns, the import databases that \<open>load_imports\<close> returns (\<open>None\<close> for
  \<open>NULL\<close>) and, for each output stage, whether the external routine succeeds.
\<close>

record 'db main_env =
  argc :: nat
  input :: "elf_file option"
  mmap_result :: "nat \<Rightarrow> host_ptr"
  loaded_imports :: "'db list option"
  stage_ok :: "stage \<Rightarrow> bool"

text \<open>
  What one run of \<open>main\<close> does: the exit status, the diagnostic of a failed load, the
  warnings of the resolver and the output stages that completed.
\<close>

record main_result =
  status :: exit_status
  diagnostic :: "error option"
  warnings :: "warning list"
  stages_done :: "stage list"

definition main ::
  "('db \<Rightarrow> u32 \<Rightarrow> 'l option) \<Rightarrow> ('l \<Rightarrow> u32 \<Rightarrow> 'm option) \<Rightarrow> ('m \<Rightarrow> u32 \<Rightarrow> 't option)
     \<Rightarrow> ('m \<Rightarrow> u32 \<Rightarrow> 't option) \<Rightarrow> 'db main_env \<Rightarrow> main_result" where
  "main find_lib find_module find_function find_variable env =
     (if argc env < 3
      then \<lparr>status = EXIT_FAILURE, diagnostic = None, warnings = [], stages_done = []\<rparr>
      else
        (case (vita_elf_load (input env) (mmap_result env) :: error + ('l, 'm, 't) vita_elf) of
           Inl e \<Rightarrow> \<lparr>status = EXIT_FAILURE, diagnostic = Some e, warnings = [], stages_done = []\<rparr>
         | Inr ve \<Rightarrow>
             (case loaded_imports env of
                None \<Rightarrow>
                  \<lparr>status = EXIT_FAILURE, diagnostic = None, warnings = [], stages_done = []\<rparr>
              | Some imports \<Rightarrow>
                  (case vita_elf_lookup_imports find_lib find_module find_function find_variable
                          ve imports of
                     (ve', ws, found_all) \<Rightarrow>
                       let st = (if found_all then EXIT_SUCCESS else EXIT_FAILURE);
                           ran = run_stages (stage_ok env) output_stages
                       in if ran = output_stages
                          then \<lparr>status = st, diagnostic = None, warnings = ws, stages_done = ran\<rparr>
                          else \<lparr>status = EXIT_FAILURE, diagnostic = None, warnings = ws,
                                stages_done = ran\<rparr>))))"

text \<open>The output file is complete when every output stage has run.\<close>

definition output_written :: "main_result \<Rightarrow> bool" where
  "output_written r = (stages_done r = output_stages)"

section \<open>Example files and import databases\<close>

text \<open>
  A small import database for the examples: a library is its NID with its modules, a
  module is its NID with the NIDs of its functions and of its variables, and the
  finders look an NID up in these lists.
\<close>

type_synonym ex_module = "u32 \<times> u32 list \<times> u32 list"
type_synonym ex_library = "u32 \<times> ex_module list"
type_synonym ex_imports = "ex_library list"

definition ex_find_lib :: "ex_imports \<Rightarrow> u32 \<Rightarrow> ex_library option" where
  "ex_find_lib imp nid = find (\<lambda>l. fst l = nid) imp"

definition ex_find_module :: "ex_library \<Rightarrow> u32 \<Rightarrow> ex_module option" where
  "ex_find_module lib nid = find (\<lambda>m. fst m = nid) (snd lib)"

definition ex_find_function :: "ex_module \<Rightarrow> u32 \<Rightarrow> u32 option" where
  "ex_find_function md nid = find (\<lambda>f. f = nid) (fst (snd md))"

definition ex_find_variable :: "ex_module \<Rightarrow> u32 \<Rightarrow> u32 option" where
  "ex_find_variable md nid = find (\<lambda>f. f = nid) (snd (snd md))"

text \<open>A database that knows library 1 and its module 2, but no function of that module.\<close>

definition ex_db_no_function :: ex_imports where
  "ex_db_no_function = [(1, [(2, [], [])])]"

text \<open>A database that knows library 1, module 2 and its function 3.\<close>

definition ex_db_complete :: ex_imports where
  "ex_db_complete = [(1, [(2, [3], [])])]"

text \<open>A database without library 1.\<close>

definition ex_db_other :: ex_imports where
  "ex_db_other = [(7, [(2, [3], [])])]"

definition ex_stub :: "(ex_library, ex_module, u32) vita_elf_stub" where
  "ex_stub = \<lparr>addr = 0x82000, library_nid = 1, module_nid = 2, target_nid = 3,
              symbol = None, library = None, module = None, target = None\<rparr>"

text \<open>
  Input files: a text section with one word, a function-stub section with one slot
  (library 1, module 2, target 3), a symbol table and a REL section with one
  \<open>R_ARM_ABS32\<close> entry; one \<open>LOAD\<close> segment.
\<close>

definition ex_text :: Elf_Scn where
  "ex_text = scn_progbits ''.text'' 0x81000 [0x00, 0x80, 0x00, 0x00]"

definition ex_fstubs :: Elf_Scn where
  "ex_fstubs = scn_progbits ''.vitalink.fstubs'' 0x82000
                 [1, 0, 0, 0, 2, 0, 0, 0, 3, 0, 0, 0, 0, 0, 0, 0]"

definition ex_sym :: "string \<Rightarrow> u32 \<Rightarrow> nat \<Rightarrow> GElf_Sym" where
  "ex_sym nm v ndx = \<lparr>st_name = nm, st_value = v, st_type = STT_FUNC, st_bind = STB_GLOBAL,
                      st_shndx = ndx\<rparr>"

definition ex_rel :: "nat \<Rightarrow> Elf_Scn" where
  "ex_rel link = scn_rel ''.rel.text'' link 1
                   [\<lparr>r_offset = 0x81000, r_type = R_ARM_ABS32, r_sym = 0\<rparr>]"

definition ex_file :: "Elf_Scn list \<Rightarrow> elf_file" where
  "ex_file scns = \<lparr>kind = ELF_K_ELF, machine = EM_ARM, eclass = ELFCLASS32, edata = ELFDATA2LSB,
                   sections = scns,
                   phdrs = [\<lparr>p_type = 1, p_vaddr = 0x81000, p_memsz = 0x2000\<rparr>]\<rparr>"

definition ex_mmap :: "nat \<Rightarrow> host_ptr" where
  "ex_mmap segndx = 0x7f0000000000"

text \<open>One global function symbol on the stub slot.\<close>

definition good_file :: elf_file where
  "good_file = ex_file [scn_null, ex_text, ex_fstubs, scn_symtab [ex_sym ''sceFoo'' 0x82000 2],
                        ex_rel 3]"

text \<open>Scenario S6: two global function symbols with the value of the one stub slot.\<close>

definition S6_file :: elf_file where
  "S6_file = ex_file [scn_null, ex_text, ex_fstubs,
                      scn_symtab [ex_sym ''sceFoo'' 0x82000 2, ex_sym ''sceBar'' 0x82000 2],
                      ex_rel 3]"

text \<open>Two \<open>PROGBITS\<close> sections named \<open>.vitalink.fstubs\<close>.\<close>

definition twice_fstubs_file :: elf_file where
  "twice_fstubs_file = ex_file [scn_null, ex_text, ex_fstubs, ex_fstubs,
                                scn_symtab [ex_sym ''sceFoo'' 0x82000 2], ex_rel 4]"

text \<open>Runs of the program on \<open>good_file\<close> with every output stage succeeding.\<close>

definition ex_env :: "elf_file \<Rightarrow> ex_imports \<Rightarrow> ex_imports main_env" where
  "ex_env f db = \<lparr>argc = 3, input = Some f, mmap_result = ex_mmap, loaded_imports = Some [db],
                  stage_ok = (\<lambda>s. True)\<rparr>"

definition ex_main :: "ex_imports main_env \<Rightarrow> main_result" where
  "ex_main env = main ex_find_lib ex_find_module ex_find_function ex_find_variable env"

text \<open>The ELF context that \<open>good_file\<close> loads as (theorem \<open>good_file_loads\<close>).\<close>

definition good_elf :: "(ex_library, ex_module, u32) vita_elf" where
  "good_elf =
     \<lparr>fstubs_ndx = 2, vstubs_ndx = 0, symtab_ndx = 3,
      symtab = Some [\<lparr>name = ''sceFoo'', value = 0x82000, symtype = STT_FUNC,
                      binding = STB_GLOBAL, shndx = 2\<rparr>],
      num_symbols = 1,
      rela_tables = [\<lparr>relas = [\<lparr>rtype = R_ARM_ABS32, rsymbol = Some 0, offset = 0x81000,
                                 addend = 0x8000 - 0x82000\<rparr>],
                      num_relas = 1, target_ndx = 1\<rparr>],
      fstubs = [\<lparr>addr = 0x82000, library_nid = 1, module_nid = 2, target_nid = 3,
                 symbol = Some 0, library = None, module = None, target = None\<rparr>],
      vstubs = [], num_fstubs = 1, num_vstubs = 0,
      segments = [\<lparr>segtype = 1, vaddr = 0x81000, memsz = 0x2000,
                   vaddr_top = 0x7f0000000000, vaddr_bottom = 0x7f0000002000\<rparr>],
      num_segments = 1\<rparr>"

section \<open>Notions for the stub sections\<close>

text \<open>The stub slot at an address: the first stub of the array with that \<open>addr\<close>.\<close>

definition slot_of :: "('l, 'm, 't) vita_elf_stub list \<Rightarrow> u32 \<Rightarrow> ('l, 'm, 't) vita_elf_stub option" where
  "slot_of stubs v = find (\<lambda>st. addr st = v) stubs"

text \<open>The two kinds of section that the loop over the sections takes as stub sections.\<close>

definition is_fstubs :: "Elf_Scn \<Rightarrow> bool" where
  "is_fstubs shdr = (sh_type shdr = SHT_PROGBITS \<and> sh_name shdr = Some ''.vitalink.fstubs'')"

definition is_vstubs :: "Elf_Scn \<Rightarrow> bool" where
  "is_vstubs shdr = (sh_type shdr = SHT_PROGBITS \<and> sh_name shdr = Some ''.vitalink.vstubs'')"

text \<open>The header fields that \<open>vita_elf_load\<close> checks before it looks at the sections.\<close>

definition header_ok :: "elf_file \<Rightarrow> bool" where
  "header_ok f = (kind f = ELF_K_ELF \<and> machine f = EM_ARM \<and> eclass f = ELFCLASS32
                  \<and> edata f = ELFDATA2LSB)"

text \<open>The context of \<open>S6_file\<close> after the loop over the sections.\<close>

definition S6_scanned :: "(ex_library, ex_module, u32) vita_elf" where
  "S6_scanned =
     \<lparr>fstubs_ndx = 2, vstubs_ndx = 0, symtab_ndx = 3,
      symtab = Some [\<lparr>name = ''sceFoo'', value = 0x82000, symtype = STT_FUNC,
                      binding = STB_GLOBAL, shndx = 2\<rparr>,
                     \<lparr>name = ''sceBar'', value = 0x82000, symtype = STT_FUNC,
                      binding = STB_GLOBAL, shndx = 2\<rparr>],
      num_symbols = 2,
      rela_tables = [\<lparr>relas = [\<lparr>rtype = R_ARM_ABS32, rsymbol = Some 0, offset = 0x81000,
                                 addend = 0x8000 - 0x82000\<rparr>],
                      num_relas = 1, target_ndx = 1\<rparr>],
      fstubs = [\<lparr>addr = 0x82000, library_nid = 1, module_nid = 2, target_nid = 3,
                 symbol = None, library = None, module = None, target = None\<rparr>],
      vstubs = [], num_fstubs = 1, num_vstubs = 0,
      segments = [], num_segments = 0\<rparr>"

text \<open>The context of \<open>twice_fstubs_file\<close> after its first two sections.\<close>

definition twice_scanned :: "(ex_library, ex_module, u32) vita_elf" where
  "twice_scanned =
     zero_elf\<lparr>fstubs_ndx := 2, num_fstubs := 1,
              fstubs := [\<lparr>addr = 0x82000, library_nid = 1, module_nid = 2, target_nid = 3,
                          symbol = None, library = None, module = None, target = None\<rparr>]\<rparr>"

text \<open>
  Files with both stub sections: a variable-stub section with one slot at \<open>0x83000\<close>
  beside the function-stub section, the function symbol \<open>sceFoo\<close> on the function
  slot, and further symbols \<open>gsyms\<close>.
\<close>

definition ex_vstubs :: Elf_Scn where
  "ex_vstubs = scn_progbits ''.vitalink.vstubs'' 0x83000
                 [1, 0, 0, 0, 2, 0, 0, 0, 4, 0, 0, 0, 0, 0, 0, 0]"

definition ex_vstub :: "(ex_library, ex_module, u32) vita_elf_stub" where
  "ex_vstub = \<lparr>addr = 0x83000, library_nid = 1, module_nid = 2, target_nid = 4,
               symbol = None, library = None, module = None, target = None\<rparr>"

definition ex_obj :: "string \<Rightarrow> u32 \<Rightarrow> nat \<Rightarrow> GElf_Sym" where
  "ex_obj nm v ndx = \<lparr>st_name = nm, st_value = v, st_type = STT_OBJECT, st_bind = STB_GLOBAL,
                      st_shndx = ndx\<rparr>"

definition stubs_file :: "GElf_Sym list \<Rightarrow> elf_file" where
  "stubs_file gsyms = ex_file [scn_null, ex_text, ex_fstubs, ex_vstubs,
                               scn_symtab (ex_sym ''sceFoo'' 0x82000 2 # gsyms), ex_rel 4]"

text \<open>The entry of the symbol table that \<open>load_symbols\<close> makes of a symbol of the file.\<close>

definition ex_symbol :: "GElf_Sym \<Rightarrow> vita_elf_symbol" where
  "ex_symbol gsym = \<lparr>name = st_name gsym, value = st_value gsym, symtype = st_type gsym,
                     binding = st_bind gsym, shndx = st_shndx gsym\<rparr>"

text \<open>The context of \<open>stubs_file gsyms\<close> after the loop over the sections.\<close>

definition stubs_scanned :: "GElf_Sym list \<Rightarrow> (ex_library, ex_module, u32) vita_elf" where
  "stubs_scanned gsyms =
     \<lparr>fstubs_ndx = 2, vstubs_ndx = 3, symtab_ndx = 4,
      symtab = Some (map ex_symbol (ex_sym ''sceFoo'' 0x82000 2 # gsyms)),
      num_symbols = Suc (length gsyms),
      rela_tables = [\<lparr>relas = [\<lparr>rtype = R_ARM_ABS32, rsymbol = Some 0, offset = 0x81000,
                                 addend = 0x8000 - 0x82000\<rparr>],
                      num_relas = 1, target_ndx = 1\<rparr>],
      fstubs = [ex_stub], vstubs = [ex_vstub], num_fstubs = 1, num_vstubs = 1,
      segments = [], num_segments = 0\<rparr>"

text \<open>
  The symbols of four such files: a variable symbol on the variable slot; two variable
  symbols on the variable slot; a variable symbol of the variable-stub section at an
  address that is no slot; a function symbol of the function-stub section at an address
  that is no slot.
\<close>

definition var_on_slot :: "GElf_Sym list" where
  "var_on_slot = [ex_obj ''sceVar'' 0x83000 3]"

definition vars_on_one_slot :: "GElf_Sym list" where
  "vars_on_one_slot = [ex_obj ''sceVar'' 0x83000 3, ex_obj ''sceVar2'' 0x83000 3]"

definition var_off_slot :: "GElf_Sym list" where
  "var_off_slot = [ex_obj ''sceVar'' 0x83010 3]"

definition func_off_slot :: "GElf_Sym list" where
  "func_off_slot = [ex_sym ''sceOff'' 0x82010 2]"

text \<open>The ELF context that \<open>stubs_file var_on_slot\<close> loads as.\<close>

definition stubs_elf :: "(ex_library, ex_module, u32) vita_elf" where
  "stubs_elf =
     (stubs_scanned var_on_slot)
       \<lparr>fstubs := [ex_stub\<lparr>symbol := Some 0\<rparr>], vstubs := [ex_vstub\<lparr>symbol := Some 1\<rparr>],
        segments := [\<lparr>segtype = 1, vaddr = 0x81000, memsz = 0x2000,
                      vaddr_top = 0x7f0000000000, vaddr_bottom = 0x7f0000002000\<rparr>],
        num_segments := 1\<rparr>"

section \<open>Example files for the address-space mapper\<close>










section \<open>Properties of the relocation loader\<close>

lemma load_rel_loop_length:
  "load_rel_loop syms nsyms txt data idxs rs = Inr rs' \<Longrightarrow> length rs' = length rs"
proof (induction idxs arbitrary: rs)
  case Nil
  then show ?case by simp
next
  case (Cons i idxs)
  then show ?case
    by (auto split: option.splits if_splits sum.splits)
qed

lemma load_rel_loop_other:
  "load_rel_loop syms nsyms txt data idxs rs = Inr rs' \<Longrightarrow> i \<notin> set idxs \<Longrightarrow> rs' ! i = rs ! i"
proof (induction idxs arbitrary: rs)
  case Nil
  then show ?case by simp
next
  case (Cons j idxs)
  then show ?case
    by (auto split: option.splits if_splits sum.splits)
qed

lemma load_rel_loop_slot:
  "load_rel_loop syms nsyms txt data idxs rs = Inr rs' \<Longrightarrow> distinct idxs \<Longrightarrow> i \<in> set idxs \<Longrightarrow>
     \<exists>rel. gelf_getrel data i = Some rel \<and> i < length rs
           \<and> load_rel_entry syms nsyms txt rel (rs ! i) = Inr (rs' ! i)"
proof (induction idxs arbitrary: rs)
  case Nil
  then show ?case by simp
next
  case (Cons j idxs)
  from Cons.prems(1) obtain rel r where
    g: "gelf_getrel data j = Some rel" and l: "j < length rs"
    and e: "load_rel_entry syms nsyms txt rel (rs ! j) = Inr r"
    and rest: "load_rel_loop syms nsyms txt data idxs (rs[j := r]) = Inr rs'"
    by (auto split: option.splits if_splits sum.splits)
  show ?case
  proof (cases "i = j")
    case True
    with Cons.prems(2) have "i \<notin> set idxs" by simp
    from load_rel_loop_other[OF rest this] l True have "rs' ! i = r" by simp
    with g l e True show ?thesis by simp
  next
    case False
    with Cons.prems have "i \<in> set idxs" "distinct idxs" by auto
    from Cons.IH[OF rest this(2) this(1)] False show ?thesis by auto
  qed
qed

lemma load_symbols_keeps_tables:
  "load_symbols ve scn = Inr ve1 \<Longrightarrow> rela_tables ve1 = rela_tables ve"
  by (auto simp: load_symbols_def Let_def split: if_splits option.splits sum.splits prod.splits)

text \<open>
  What a successful \<open>load_rel_table\<close> leaves behind: a new head table with one slot per
  \<open>sh_size / sh_entsize\<close>, where the slot of every visited REL entry is the result of
  the loop body on a zeroed slot.
\<close>

lemma load_rel_table_slot:
  assumes "load_rel_table scns ve shdr = Inr ve'"
      and "elf_getdata_first shdr = Some data"
      and "i < d_size data div sh_entsize shdr"
      and "gelf_getrel data i = Some rel"
  shows "num_relas (hd (rela_tables ve')) = sh_size shdr div sh_entsize shdr"
    and "length (relas (hd (rela_tables ve'))) = sh_size shdr div sh_entsize shdr"
    and "i < length (relas (hd (rela_tables ve')))"
    and "load_rel_entry (symtab_list ve') (num_symbols ve') (text_of scns (sh_info shdr)) rel
           zero_rela = Inr (relas (hd (rela_tables ve')) ! i)"
    and "tl (rela_tables ve') = rela_tables ve"
proof -
  from assms(1,2) obtain ve1 rs where
    s: "load_symbols ve (elf_getscn scns (sh_link shdr)) = Inr ve1"
    and l: "load_rel_loop (symtab_list ve1) (num_symbols ve1) (text_of scns (sh_info shdr)) data
              [0..<d_size data div sh_entsize shdr]
              (replicate (sh_size shdr div sh_entsize shdr) zero_rela) = Inr rs"
    and v: "ve' = ve1\<lparr>rela_tables :=
                      \<lparr>relas = rs, num_relas = sh_size shdr div sh_entsize shdr,
                       target_ndx = sh_info shdr\<rparr> # rela_tables ve1\<rparr>"
    by (auto simp: load_rel_table_def split: sum.splits if_splits option.splits)
  have len: "length rs = sh_size shdr div sh_entsize shdr"
    using load_rel_loop_length[OF l] by simp
  from assms(3) have m: "i \<in> set [0..<d_size data div sh_entsize shdr]" by simp
  from load_rel_loop_slot[OF l _ m] assms(4) have
    b: "i < length (replicate (sh_size shdr div sh_entsize shdr) zero_rela)"
    and e: "load_rel_entry (symtab_list ve1) (num_symbols ve1) (text_of scns (sh_info shdr)) rel
         (replicate (sh_size shdr div sh_entsize shdr) zero_rela ! i) = Inr (rs ! i)"
    by auto
  from b have b': "i < sh_size shdr div sh_entsize shdr" by simp
  from v have st: "symtab_list ve' = symtab_list ve1" "num_symbols ve' = num_symbols ve1"
    by (simp_all add: symtab_list_def)
  from v have hd: "hd (rela_tables ve') = \<lparr>relas = rs, num_relas = sh_size shdr div sh_entsize shdr,
                       target_ndx = sh_info shdr\<rparr>" by simp
  show "num_relas (hd (rela_tables ve')) = sh_size shdr div sh_entsize shdr"
    using hd by simp
  show "length (relas (hd (rela_tables ve'))) = sh_size shdr div sh_entsize shdr"
    using hd len by simp
  show "i < length (relas (hd (rela_tables ve')))"
    using hd len b' by simp
  show "load_rel_entry (symtab_list ve') (num_symbols ve') (text_of scns (sh_info shdr)) rel
           zero_rela = Inr (relas (hd (rela_tables ve')) ! i)"
    using hd e b' st by simp
  show "tl (rela_tables ve') = rela_tables ve"
    using v load_symbols_keeps_tables[OF s] by simp
qed

lemma load_rel_entry_pc11:
  "r_type rel = R_ARM_THM_PC11 \<Longrightarrow>
     load_rel_entry syms nsyms txt rel cur = Inr (cur\<lparr>rtype := R_ARM_THM_PC11\<rparr>)"
  by (simp add: load_rel_entry_def)

lemma load_rel_entry_normal:
  assumes "load_rel_entry syms nsyms txt rel cur = Inr r"
      and "get_rel_handling (normalized_type (r_type rel)) = REL_HANDLE_NORMAL"
  shows "\<exists>insn tgt. fetch_insn txt (r_offset rel) = Some insn
           \<and> decode_rel_target insn (normalized_type (r_type rel)) (r_offset rel) = Some tgt
           \<and> r_sym rel < nsyms
           \<and> r = cur\<lparr>rtype := normalized_type (r_type rel), rsymbol := Some (r_sym rel),
                     offset := r_offset rel,
                     addend := tgt - adjusted_symbol_value (normalized_type (r_type rel))
                                       (value (syms ! r_sym rel))\<rparr>"
  using assms
  by (cases "r_type rel")
     (auto simp: load_rel_entry_def normalized_type_def get_rel_handling_def adjusted_symbol_value_def
                 Let_def split: option.splits if_splits)

lemma read_le32_bytes:
  assumes "take 4 (drop i buf) = [b0, b1, b2, b3]"
  shows "read_le32 buf i = Some (ucast b0 OR push_bit 8 (ucast b1) OR push_bit 16 (ucast b2)
                                 OR push_bit 24 (ucast b3))"
proof -
  from assms have "length (take 4 (drop i buf)) = 4" by simp
  then have len: "i + 4 \<le> length buf" by simp
  have "buf ! (i + k) = take 4 (drop i buf) ! k" if "k < 4" for k
    using that len by simp
  from this[of 0] this[of 1] this[of 2] this[of 3] assms
  have "buf ! i = b0" "buf ! (i + 1) = b1" "buf ! (i + 2) = b2" "buf ! (i + 3) = b3"
    by simp_all
  with len show ?thesis by (simp add: read_le32_def)
qed

lemma replicate_numeral:
  "replicate (numeral k) x = x # replicate (pred_numeral k) x"
  by (simp add: numeral_eq_Suc)

lemmas example_defs =
  S1_rel_def S1_sections_def S2_rel_def S2_sections_def PC11_rel_def PC11_sections_def
  scn_null_def scn_progbits_def scn_symtab_def scn_rel_def

lemmas loader_defs =
  load_rel_table_def load_symbols_def elf_getscn_def elf_ndxscn_def zero_elf_def zero_symbol_def
  zero_rela_def gelf_getsym_def gelf_getrel_def elf_getdata_first_def text_of_def symtab_list_def
  load_rel_entry_def fetch_insn_def read_le32_def get_rel_handling_def decode_rel_target_def
  decode_thm_call_def decode_thm_movw_def decode_thm_movt_def THUMB_SHUFFLE_def lnot_def Let_def
  replicate_numeral

text \<open>
  In general the code keeps the low 24 bits of the target that the rule of the
  specification gives, so the two agree exactly for the targets below \<open>2^24\<close>.
\<close>

lemma call_low24:
  fixes x :: u32
  shows "drop_bit 8 (push_bit 8 x) = take_bit 24 x"
  by (rule bit_eqI) (auto simp: bit_simps)

lemma take_bit_24_add:
  fixes a b c :: u32
  assumes "take_bit 24 a = take_bit 24 b"
  shows "take_bit 24 (a + c) = take_bit 24 (b + c)"
proof -
  have "uint (take_bit 24 a) = uint (take_bit 24 b)" using assms by simp
  then have "take_bit 24 (uint a) = take_bit 24 (uint b)"
    by (simp only: unsigned_take_bit_eq)
  then have "take_bit 24 (uint a + uint c) = take_bit 24 (uint b + uint c)"
    by (metis take_bit_add)
  then have "take_bit 24 (take_bit 32 (uint a + uint c))
               = take_bit 24 (take_bit 32 (uint b + uint c))"
    by (simp add: take_bit_take_bit min_def)
  then have "take_bit 24 (uint (a + c)) = take_bit 24 (uint (b + c))"
    by (simp add: uint_word_arith_bintrs)
  then have "uint (take_bit 24 (a + c)) = uint (take_bit 24 (b + c))"
    by (simp only: unsigned_take_bit_eq)
  then show ?thesis by (rule word_uint_eqI)
qed

lemma decode_call_low24:
  "decode_rel_target data R_ARM_CALL a = Some (take_bit 24 (spec_branch_target data a))"
  "decode_rel_target data R_ARM_JUMP24 a = Some (take_bit 24 (spec_branch_target data a))"
proof -
  let ?y = "push_bit 2 (data AND 0x00ffffff)"
  have "take_bit 24 (signed_take_bit 25 ?y) = take_bit 24 ?y"
    by (rule take_bit_signed_take_bit) simp
  from take_bit_24_add[OF this, of a]
  show "decode_rel_target data R_ARM_CALL a = Some (take_bit 24 (spec_branch_target data a))"
    and "decode_rel_target data R_ARM_JUMP24 a = Some (take_bit 24 (spec_branch_target data a))"
    by (simp_all add: decode_rel_target_def spec_branch_target_def call_low24)
qed

text \<open>
  C1.  The specification decodes an \<open>R_ARM_CALL\<close> or \<open>R_ARM_JUMP24\<close> word as the low 24
  bits shifted left by 2, sign-extended from bit 25, plus the offset.  The code shifts
  the sum of the unextended field and the offset left and right by 8 in \<open>uint32_t\<close>,
  which clears the top byte instead of extending a sign.  For the instruction
  \<open>0xEBFFFFFE\<close> (a \<open>bl\<close> to itself) at offset \<open>0x81000010\<close> the code decodes the target
  \<open>0x00000008\<close>, where the rule of the specification gives \<open>0x81000008\<close>.
\<close>

theorem decode_rel_target_call_drops_top_byte:
  "decode_rel_target 0xEBFFFFFE R_ARM_CALL 0x81000010 = Some 0x00000008
   \<and> decode_rel_target 0xEBFFFFFE R_ARM_JUMP24 0x81000010 = Some 0x00000008
   \<and> spec_branch_target 0xEBFFFFFE 0x81000010 = 0x81000008"
  by (simp add: decode_rel_target_def spec_branch_target_def)

text \<open>
  C2, as stated: loading the entry of scenario S1 gives the addend \<open>-6\<close>.  On the input
  of S1 the loaded table holds the single addend \<open>-4\<close>.
\<close>

theorem S1_addend_is_not_minus_6:
  "loaded_addends (load_rel_table S1_sections (zero_elf :: (unit, unit, unit) vita_elf) S1_rel)
     = [[- 4]]
   \<and> loaded_addends (load_rel_table S1_sections (zero_elf :: (unit, unit, unit) vita_elf) S1_rel)
     \<noteq> [[- 6]]"
  by (simp add: example_defs loader_defs loaded_addends_def loaded_tables_def upt_rec)

text \<open>
  C2, amended: for a REL entry of type \<open>R_ARM_THM_CALL\<close> at offset \<open>0x81000\<close> whose
  patched section holds the bytes \<open>FF F7 FE FF\<close> there and whose symbol has the value
  \<open>0x81001\<close>, the decoded target is \<open>0x80FFC\<close>, the symbol value with the Thumb bit
  cleared is \<open>0x81000\<close>, and the loaded addend is their difference \<open>-4\<close>.
\<close>

theorem S1_thm_call_addend:
  assumes "sh_addr text_shdr \<le> 0x81000"
      and "take 4 (drop (0x81000 - unat (sh_addr text_shdr)) (d_buf text_data))
             = [0xFF, 0xF7, 0xFE, 0xFF]"
      and "r_offset rel = 0x81000" and "r_type rel = R_ARM_THM_CALL"
      and "r_sym rel < nsyms" and "r_sym rel < length syms"
      and "value (syms ! r_sym rel) = 0x81001"
  shows "fetch_insn (Some (text_shdr, text_data)) (r_offset rel) = Some 0xFFFEF7FF
       \<and> decode_rel_target 0xFFFEF7FF R_ARM_THM_CALL (r_offset rel) = Some 0x80FFC
       \<and> value (syms ! r_sym rel) AND 0xFFFFFFFE = 0x81000
       \<and> load_rel_entry syms nsyms (Some (text_shdr, text_data)) rel cur
           = Inr (cur\<lparr>rtype := R_ARM_THM_CALL, rsymbol := Some (r_sym rel), offset := 0x81000,
                      addend := 0x80FFC - 0x81000\<rparr>)
       \<and> loaded_addend (load_rel_entry syms nsyms (Some (text_shdr, text_data)) rel cur)
           = Some (- 4)"
proof -
  have f: "fetch_insn (Some (text_shdr, text_data)) (r_offset rel) = Some 0xFFFEF7FF"
    using assms(1,3) read_le32_bytes[OF assms(2)] by (simp add: fetch_insn_def)
  have d: "decode_rel_target 0xFFFEF7FF R_ARM_THM_CALL (r_offset rel) = Some 0x80FFC"
    using assms(3)
    by (simp add: decode_rel_target_def decode_thm_call_def THUMB_SHUFFLE_def lnot_def)
  have e: "load_rel_entry syms nsyms (Some (text_shdr, text_data)) rel cur
           = Inr (cur\<lparr>rtype := R_ARM_THM_CALL, rsymbol := Some (r_sym rel), offset := 0x81000,
                      addend := 0x80FFC - 0x81000\<rparr>)"
    using f d assms(3-7) by (simp add: load_rel_entry_def get_rel_handling_def)
  show ?thesis using f d e assms(7) by (simp add: loaded_addend_def)
qed

theorem S1_thm_call_addend_witness:
  "loaded_addend
     (load_rel_entry
        [\<lparr>name = ''S'', value = 0x81001, symtype = STT_FUNC, binding = STB_GLOBAL, shndx = 1\<rparr>] 1
        (Some (scn_progbits ''.text'' 0x81000 [0xFF, 0xF7, 0xFE, 0xFF],
               \<lparr>d_off = 0, d_size = 4, d_buf = [0xFF, 0xF7, 0xFE, 0xFF], d_syms = [], d_rels = []\<rparr>))
        \<lparr>r_offset = 0x81000, r_type = R_ARM_THM_CALL, r_sym = 0\<rparr> zero_rela)
   = Some (- 4)"
proof -
  let ?ts = "scn_progbits ''.text'' 0x81000 [0xFF, 0xF7, 0xFE, 0xFF]"
  let ?td = "\<lparr>d_off = 0, d_size = 4, d_buf = [0xFF, 0xF7, 0xFE, 0xFF :: u8], d_syms = [],
              d_rels = []\<rparr>"
  let ?rel = "\<lparr>r_offset = 0x81000, r_type = R_ARM_THM_CALL, r_sym = 0\<rparr>"
  let ?syms = "[\<lparr>name = ''S'', value = 0x81001, symtype = STT_FUNC, binding = STB_GLOBAL,
                 shndx = 1\<rparr>]"
  have h1: "sh_addr ?ts \<le> 0x81000" by (simp add: scn_progbits_def)
  have h2: "take 4 (drop (0x81000 - unat (sh_addr ?ts)) (d_buf ?td)) = [0xFF, 0xF7, 0xFE, 0xFF]"
    by (simp add: scn_progbits_def)
  have h3: "r_offset ?rel = 0x81000" and h4: "r_type ?rel = R_ARM_THM_CALL"
    and h5: "r_sym ?rel < 1" and h6: "r_sym ?rel < length ?syms"
    and h7: "value (?syms ! r_sym ?rel) = 0x81001"
    by simp_all
  from S1_thm_call_addend[OF h1 h2 h3 h4 h5 h6 h7, of zero_rela]
  show ?thesis by blast
qed

text \<open>
  C3.  In a successfully loaded relocation table, the slot of every REL entry with
  normal handling holds \<open>addend = decoded target - adjusted symbol value\<close>, where the
  adjustment masks the symbol value with \<open>0xFFFF0000\<close> for \<open>R_ARM_MOVT_ABS\<close> and
  \<open>R_ARM_THM_MOVT_ABS\<close> and with \<open>0x0000FFFF\<close> for \<open>R_ARM_MOVW_ABS_NC\<close> and
  \<open>R_ARM_THM_MOVW_ABS_NC\<close>.  For a symbol of value \<open>0xDEADBEEF\<close> and the decoded
  targets \<open>0xBEEF\<close> (MOVW) and \<open>0xDEAD0000\<close> (MOVT) both differences are 0, and
  loading the pair of scenario S2 gives the addends 0 and 0.
\<close>

theorem load_rel_table_addend:
  assumes "load_rel_table scns ve shdr = Inr ve'"
      and "elf_getdata_first shdr = Some data"
      and "i < d_size data div sh_entsize shdr"
      and "gelf_getrel data i = Some rel"
      and "get_rel_handling (normalized_type (r_type rel)) = REL_HANDLE_NORMAL"
  shows "(\<exists>insn tgt.
            fetch_insn (text_of scns (sh_info shdr)) (r_offset rel) = Some insn
          \<and> decode_rel_target insn (normalized_type (r_type rel)) (r_offset rel) = Some tgt
          \<and> relas (hd (rela_tables ve')) ! i
              = \<lparr>rtype = normalized_type (r_type rel), rsymbol = Some (r_sym rel),
                 offset = r_offset rel,
                 addend = tgt - adjusted_symbol_value (normalized_type (r_type rel))
                                  (value (symtab_list ve' ! r_sym rel))\<rparr>)
       \<and> adjusted_symbol_value R_ARM_MOVT_ABS v = v AND 0xFFFF0000
       \<and> adjusted_symbol_value R_ARM_THM_MOVT_ABS v = v AND 0xFFFF0000
       \<and> adjusted_symbol_value R_ARM_MOVW_ABS_NC v = v AND 0x0000FFFF
       \<and> adjusted_symbol_value R_ARM_THM_MOVW_ABS_NC v = v AND 0x0000FFFF
       \<and> 0xBEEF - adjusted_symbol_value R_ARM_MOVW_ABS_NC 0xDEADBEEF = 0
       \<and> 0xBEEF - adjusted_symbol_value R_ARM_THM_MOVW_ABS_NC 0xDEADBEEF = 0
       \<and> 0xDEAD0000 - adjusted_symbol_value R_ARM_MOVT_ABS 0xDEADBEEF = 0
       \<and> 0xDEAD0000 - adjusted_symbol_value R_ARM_THM_MOVT_ABS 0xDEADBEEF = 0
       \<and> loaded_addends (load_rel_table S2_sections (zero_elf :: (unit, unit, unit) vita_elf) S2_rel)
           = [[0, 0]]"
proof -
  note e = load_rel_table_slot(4)[OF assms(1-4)]
  from load_rel_entry_normal[OF e assms(5)]
  have general: "\<exists>insn tgt.
            fetch_insn (text_of scns (sh_info shdr)) (r_offset rel) = Some insn
          \<and> decode_rel_target insn (normalized_type (r_type rel)) (r_offset rel) = Some tgt
          \<and> relas (hd (rela_tables ve')) ! i
              = \<lparr>rtype = normalized_type (r_type rel), rsymbol = Some (r_sym rel),
                 offset = r_offset rel,
                 addend = tgt - adjusted_symbol_value (normalized_type (r_type rel))
                                  (value (symtab_list ve' ! r_sym rel))\<rparr>"
    by (auto simp: zero_rela_def)
  have masks: "adjusted_symbol_value R_ARM_MOVT_ABS v = v AND 0xFFFF0000"
    "adjusted_symbol_value R_ARM_THM_MOVT_ABS v = v AND 0xFFFF0000"
    "adjusted_symbol_value R_ARM_MOVW_ABS_NC v = v AND 0x0000FFFF"
    "adjusted_symbol_value R_ARM_THM_MOVW_ABS_NC v = v AND 0x0000FFFF"
    by (simp_all add: adjusted_symbol_value_def)
  have zeros: "0xBEEF - adjusted_symbol_value R_ARM_MOVW_ABS_NC 0xDEADBEEF = 0"
    "0xBEEF - adjusted_symbol_value R_ARM_THM_MOVW_ABS_NC 0xDEADBEEF = 0"
    "0xDEAD0000 - adjusted_symbol_value R_ARM_MOVT_ABS 0xDEADBEEF = 0"
    "0xDEAD0000 - adjusted_symbol_value R_ARM_THM_MOVT_ABS 0xDEADBEEF = 0"
    by (simp_all add: adjusted_symbol_value_def)
  have s2: "loaded_addends (load_rel_table S2_sections (zero_elf :: (unit, unit, unit) vita_elf) S2_rel)
              = [[0, 0]]"
    by (simp add: example_defs loader_defs loaded_addends_def loaded_tables_def upt_rec)
  from general masks zeros s2 show ?thesis by blast
qed

lemma S2_loaded:
  "load_rel_table S2_sections (zero_elf :: (unit, unit, unit) vita_elf) S2_rel
   = Inr \<lparr>fstubs_ndx = 0, vstubs_ndx = 0, symtab_ndx = 2,
          symtab = Some [\<lparr>name = ''S'', value = 0xDEADBEEF, symtype = STT_OBJECT,
                          binding = STB_GLOBAL, shndx = 1\<rparr>],
          num_symbols = 1,
          rela_tables =
            [\<lparr>relas = [\<lparr>rtype = R_ARM_MOVW_ABS_NC, rsymbol = Some 0, offset = 0x81000, addend = 0\<rparr>,
                       \<lparr>rtype = R_ARM_MOVT_ABS, rsymbol = Some 0, offset = 0x81004, addend = 0\<rparr>],
              num_relas = 2, target_ndx = 1\<rparr>],
          fstubs = [], vstubs = [], num_fstubs = 0, num_vstubs = 0,
          segments = [], num_segments = 0\<rparr>"
  by (simp add: example_defs loader_defs upt_rec)

theorem load_rel_table_addend_witness:
  "fetch_insn (text_of S2_sections 1) 0x81004 = Some 0xE34D0EAD
   \<and> decode_rel_target 0xE34D0EAD R_ARM_MOVT_ABS 0x81004 = Some 0xDEAD0000
   \<and> relas (hd (loaded_tables
                  (load_rel_table S2_sections (zero_elf :: (unit, unit, unit) vita_elf) S2_rel))) ! 1
       = \<lparr>rtype = R_ARM_MOVT_ABS, rsymbol = Some 0, offset = 0x81004,
          addend = 0xDEAD0000 - (0xDEADBEEF AND 0xFFFF0000)\<rparr>"
proof -
  let ?data = "\<lparr>d_off = 0, d_size = 16, d_buf = [], d_syms = [],
                d_rels = [\<lparr>r_offset = 0x81000, r_type = R_ARM_MOVW_ABS_NC, r_sym = 0\<rparr>,
                          \<lparr>r_offset = 0x81004, r_type = R_ARM_MOVT_ABS, r_sym = 0\<rparr>]\<rparr>"
  let ?rel = "\<lparr>r_offset = 0x81004, r_type = R_ARM_MOVT_ABS, r_sym = 0\<rparr>"
  have h2: "elf_getdata_first S2_rel = Some ?data"
    by (simp add: example_defs elf_getdata_first_def)
  have h3: "1 < d_size ?data div sh_entsize S2_rel" by (simp add: example_defs)
  have h4: "gelf_getrel ?data 1 = Some ?rel" by (simp add: gelf_getrel_def)
  have h5: "get_rel_handling (normalized_type (r_type ?rel)) = REL_HANDLE_NORMAL"
    by (simp add: normalized_type_def get_rel_handling_def)
  have f: "fetch_insn (text_of S2_sections 1) 0x81004 = Some 0xE34D0EAD"
    by (simp add: example_defs text_of_def elf_getscn_def elf_getdata_first_def fetch_insn_def
          read_le32_def)
  have d: "decode_rel_target 0xE34D0EAD R_ARM_MOVT_ABS 0x81004 = Some 0xDEAD0000"
    by (simp add: decode_rel_target_def)
  have i: "sh_info S2_rel = 1" by (simp add: example_defs)
  from load_rel_table_addend[OF S2_loaded h2 h3 h4 h5, THEN conjunct1]
  have "\<exists>insn tgt.
          fetch_insn (text_of S2_sections 1) 0x81004 = Some insn
        \<and> decode_rel_target insn R_ARM_MOVT_ABS 0x81004 = Some tgt
        \<and> relas (hd (loaded_tables
                  (load_rel_table S2_sections (zero_elf :: (unit, unit, unit) vita_elf) S2_rel))) ! 1
            = \<lparr>rtype = R_ARM_MOVT_ABS, rsymbol = Some 0, offset = 0x81004,
               addend = tgt - (0xDEADBEEF AND 0xFFFF0000)\<rparr>"
    by (simp add: S2_loaded i loaded_tables_def normalized_type_def adjusted_symbol_value_def
          symtab_list_def)
  with f d show ?thesis by auto
qed

text \<open>
  C8, as stated: an \<open>R_ARM_THM_PC11\<close> entry produces no entry in any loaded relocation
  table.  A REL section with three entries, the second of type \<open>R_ARM_THM_PC11\<close>, loads
  as a table of three entries, and the second carries the type \<open>R_ARM_THM_PC11\<close>.
\<close>

theorem thm_pc11_keeps_its_slot:
  "num_relas (hd (loaded_tables
       (load_rel_table PC11_sections (zero_elf :: (unit, unit, unit) vita_elf) PC11_rel))) = 3
   \<and> map rtype (relas (hd (loaded_tables
       (load_rel_table PC11_sections (zero_elf :: (unit, unit, unit) vita_elf) PC11_rel))))
      = [R_ARM_ABS32, R_ARM_THM_PC11, R_ARM_ABS32]"
  by (simp add: example_defs loader_defs loaded_tables_def upt_rec)

text \<open>
  C8, amended: the loader stops processing an \<open>R_ARM_THM_PC11\<close> entry right after it has
  recorded the type, so the entry is not decoded: its slot of the loaded table keeps
  offset 0, no symbol and addend 0.  The table still has one slot per REL entry
  (\<open>sh_size / sh_entsize\<close>), the slot of the \<open>R_ARM_THM_PC11\<close> entry among them.
\<close>

theorem load_rel_table_thm_pc11_slot:
  assumes "load_rel_table scns ve shdr = Inr ve'"
      and "elf_getdata_first shdr = Some data"
      and "i < d_size data div sh_entsize shdr"
      and "gelf_getrel data i = Some rel"
      and "r_type rel = R_ARM_THM_PC11"
  shows "num_relas (hd (rela_tables ve')) = sh_size shdr div sh_entsize shdr
       \<and> length (relas (hd (rela_tables ve'))) = sh_size shdr div sh_entsize shdr
       \<and> i < length (relas (hd (rela_tables ve')))
       \<and> relas (hd (rela_tables ve')) ! i
           = \<lparr>rtype = R_ARM_THM_PC11, rsymbol = None, offset = 0, addend = 0\<rparr>"
proof -
  note sl = load_rel_table_slot[OF assms(1-4)]
  from sl(4) load_rel_entry_pc11[OF assms(5)]
  have "relas (hd (rela_tables ve')) ! i
          = \<lparr>rtype = R_ARM_THM_PC11, rsymbol = None, offset = 0, addend = 0\<rparr>"
    by (simp add: zero_rela_def)
  with sl(1-3) show ?thesis by simp
qed

lemma PC11_loaded:
  "load_rel_table PC11_sections (zero_elf :: (unit, unit, unit) vita_elf) PC11_rel
   = Inr \<lparr>fstubs_ndx = 0, vstubs_ndx = 0, symtab_ndx = 2,
          symtab = Some [\<lparr>name = ''S'', value = 0x7000, symtype = STT_OBJECT,
                          binding = STB_GLOBAL, shndx = 1\<rparr>],
          num_symbols = 1,
          rela_tables =
            [\<lparr>relas = [\<lparr>rtype = R_ARM_ABS32, rsymbol = Some 0, offset = 0x81000, addend = 0x1000\<rparr>,
                       \<lparr>rtype = R_ARM_THM_PC11, rsymbol = None, offset = 0, addend = 0\<rparr>,
                       \<lparr>rtype = R_ARM_ABS32, rsymbol = Some 0, offset = 0x81008, addend = 0x1000\<rparr>],
              num_relas = 3, target_ndx = 1\<rparr>],
          fstubs = [], vstubs = [], num_fstubs = 0, num_vstubs = 0,
          segments = [], num_segments = 0\<rparr>"
  by (simp add: example_defs loader_defs upt_rec)

theorem load_rel_table_thm_pc11_slot_witness:
  "length (relas (hd (loaded_tables
       (load_rel_table PC11_sections (zero_elf :: (unit, unit, unit) vita_elf) PC11_rel)))) = 3
   \<and> relas (hd (loaded_tables
       (load_rel_table PC11_sections (zero_elf :: (unit, unit, unit) vita_elf) PC11_rel))) ! 1
      = \<lparr>rtype = R_ARM_THM_PC11, rsymbol = None, offset = 0, addend = 0\<rparr>"
proof -
  let ?data = "\<lparr>d_off = 0, d_size = 24, d_buf = [], d_syms = [],
                d_rels = [\<lparr>r_offset = 0x81000, r_type = R_ARM_ABS32, r_sym = 0\<rparr>,
                          \<lparr>r_offset = 0x81004, r_type = R_ARM_THM_PC11, r_sym = 0\<rparr>,
                          \<lparr>r_offset = 0x81008, r_type = R_ARM_ABS32, r_sym = 0\<rparr>]\<rparr>"
  let ?rel = "\<lparr>r_offset = 0x81004, r_type = R_ARM_THM_PC11, r_sym = 0\<rparr>"
  have h2: "elf_getdata_first PC11_rel = Some ?data"
    by (simp add: example_defs elf_getdata_first_def)
  have h3: "1 < d_size ?data div sh_entsize PC11_rel" by (simp add: example_defs)
  have h4: "gelf_getrel ?data 1 = Some ?rel" by (simp add: gelf_getrel_def)
  have h5: "r_type ?rel = R_ARM_THM_PC11" by simp
  from load_rel_table_thm_pc11_slot[OF PC11_loaded h2 h3 h4 h5]
  show ?thesis by (simp add: PC11_loaded loaded_tables_def)
qed

section \<open>Properties of the address-space mapper\<close>

lemma guest_range_offset:
  fixes a v m :: u32
  assumes "v \<le> a" and "a < v + m"
  shows "unat v \<le> unat a" and "unat a - unat v < unat m" and "unat v + unat m < 2 ^ 32"
proof -
  from assms(1) show le: "unat v \<le> unat a" by (simp add: word_le_nat_alt)
  from assms(2) have lt: "unat a < (unat v + unat m) mod 2 ^ 32"
    by (simp add: word_less_nat_alt unat_word_ariths)
  have bv: "unat v < 2 ^ 32" and bm: "unat m < 2 ^ 32"
    using unsigned_less[where 'a = nat, of v] unsigned_less[where 'a = nat, of m] by simp_all
  show nowrap: "unat v + unat m < 2 ^ 32"
  proof (rule ccontr)
    assume "\<not> unat v + unat m < 2 ^ 32"
    then have ge: "2 ^ 32 \<le> unat v + unat m" by simp
    with bv bm have "(unat v + unat m) mod 2 ^ 32 = unat v + unat m - 2 ^ 32"
      by (simp add: mod_if)
    with lt le bm show False by simp
  qed
  then have "(unat v + unat m) mod 2 ^ 32 = unat v + unat m" by simp
  with lt le show "unat a - unat v < unat m" by simp
qed

lemma unat_ucast_32_64: "unat (ucast (x :: u32) :: host_ptr) = unat x"
proof -
  have "unat x < 2 ^ 32" using unsigned_less[of x] by simp
  then have "unat x < 2 ^ 64" by simp
  then show ?thesis by (simp add: unsigned_ucast_eq take_bit_nat_eq_self)
qed

lemma unat_ucast_64_32: "unat (ucast (p :: host_ptr) :: u32) = unat p mod 2 ^ 32"
  by (simp add: unsigned_ucast_eq take_bit_eq_mod)

text \<open>
  Inside one segment: the host address computed for a guest address of the segment lies
  in the segment's placeholder, is not \<open>NULL\<close>, and maps back to the guest address.
\<close>

lemma host_of_guest:
  fixes a :: u32
  assumes ok: "seg_host_ok s" and le: "vaddr s \<le> a" and lt: "a < vaddr s + memsz s"
  shows "vaddr_top s \<le> vaddr_top s + ucast a - ucast (vaddr s)"
    and "vaddr_top s + ucast a - ucast (vaddr s) < vaddr_bottom s"
    and "vaddr_top s + ucast a - ucast (vaddr s) \<noteq> 0"
    and "vaddr s + ucast (vaddr_top s + ucast a - ucast (vaddr s) - vaddr_top s) = a"
proof -
  let ?p = "vaddr_top s + ucast a - ucast (vaddr s)"
  let ?d = "unat a - unat (vaddr s)"
  note g = guest_range_offset[OF le lt]
  from g(2) have mz: "memsz s \<noteq> 0" by (auto simp: unat_eq_0)
  with ok have top0: "vaddr_top s \<noteq> 0"
    and nw: "unat (vaddr_top s) + unat (memsz s) < 2 ^ 64"
    and bot: "vaddr_bottom s = vaddr_top s + ucast (memsz s)"
    by (simp_all add: seg_host_ok_def)
  have ule: "(ucast (vaddr s) :: host_ptr) \<le> ucast a"
    using g(1) by (simp add: word_le_nat_alt unat_ucast_32_64)
  have usub: "unat (ucast a - ucast (vaddr s) :: host_ptr) = ?d"
    using unat_sub[OF ule] by (simp add: unat_ucast_32_64)
  have peq: "?p = vaddr_top s + (ucast a - ucast (vaddr s))" by simp
  have up: "unat ?p = unat (vaddr_top s) + ?d"
  proof -
    have "unat (vaddr_top s) + unat (ucast a - ucast (vaddr s) :: host_ptr) < 2 ^ LENGTH(64)"
      using usub g(2) nw by simp
    then have "unat (vaddr_top s + (ucast a - ucast (vaddr s))) =
               unat (vaddr_top s) + unat (ucast a - ucast (vaddr s) :: host_ptr)"
      by (simp only: unat_add_lem)
    then show ?thesis by (simp only: peq usub)
  qed
  have ub: "unat (vaddr_bottom s) = unat (vaddr_top s) + unat (memsz s)"
  proof -
    have "unat (vaddr_top s) + unat (ucast (memsz s) :: host_ptr) < 2 ^ LENGTH(64)"
      using nw by (simp add: unat_ucast_32_64)
    then have "unat (vaddr_top s + ucast (memsz s)) =
               unat (vaddr_top s) + unat (ucast (memsz s) :: host_ptr)"
      by (simp only: unat_add_lem)
    with bot show ?thesis by (simp add: unat_ucast_32_64)
  qed
  show c1: "vaddr_top s \<le> ?p" using up by (simp add: word_le_nat_alt)
  show "?p < vaddr_bottom s" using up ub g(2) by (simp add: word_less_nat_alt)
  show "?p \<noteq> 0"
  proof
    assume "?p = 0"
    then have "unat ?p = 0" by simp
    with up have "unat (vaddr_top s) = 0" by simp
    with top0 show False by (simp add: unat_eq_0)
  qed
  have "unat (?p - vaddr_top s) = ?d"
    using unat_sub[OF c1] up by simp
  then have "unat (ucast (?p - vaddr_top s) :: u32) = ?d mod 2 ^ 32"
    by (simp add: unat_ucast_64_32)
  moreover have ba: "unat a < 2 ^ 32" using unsigned_less[where 'a = nat, of a] by simp
  then have "?d < 2 ^ 32" by simp
  ultimately have ud: "unat (ucast (?p - vaddr_top s) :: u32) = ?d" by simp
  have "unat (vaddr s) + unat (ucast (?p - vaddr_top s) :: u32) < 2 ^ LENGTH(32)"
    using ud g(1) ba by simp
  then have "unat (vaddr s + ucast (?p - vaddr_top s)) =
             unat (vaddr s) + unat (ucast (?p - vaddr_top s) :: u32)"
    by (simp only: unat_add_lem)
  with ud g(1) have "unat (vaddr s + ucast (?p - vaddr_top s)) = unat a" by simp
  then show "vaddr s + ucast (?p - vaddr_top s) = a" by (simp only: word_unat_eq_iff)
qed

lemma host_range_disjoint:
  fixes p :: host_ptr
  assumes "host_disjoint s k" and "vaddr_top k \<le> p" and "p < vaddr_bottom k"
  shows "\<not> (vaddr_top s \<le> p \<and> p < vaddr_bottom s)"
  using assms by (auto simp: host_disjoint_def)

text \<open>The walk over the segment array, by induction on the array.\<close>

lemma roundtrip_loop:
  assumes "hosts_ok segs"
      and "\<exists>s \<in> set segs. vaddr s \<le> a \<and> a < vaddr s + memsz s"
  shows "vaddr_to_host_loop segs a \<noteq> 0
       \<and> (\<exists>k \<in> set segs. vaddr_top k \<le> vaddr_to_host_loop segs a
                         \<and> vaddr_to_host_loop segs a < vaddr_bottom k)
       \<and> host_to_vaddr_loop segs (vaddr_to_host_loop segs a) = a"
  using assms
proof (induction segs)
  case Nil
  then show ?case by simp
next
  case (Cons seg rest)
  show ?case
  proof (cases "vaddr seg \<le> a \<and> a < vaddr seg + memsz seg")
    case True
    from Cons.prems(1) have ok: "seg_host_ok seg" by simp
    from True have le: "vaddr seg \<le> a" and lt: "a < vaddr seg + memsz seg" by simp_all
    note h = host_of_guest[OF ok le lt]
    from True have v: "vaddr_to_host_loop (seg # rest) a
                         = vaddr_top seg + ucast a - ucast (vaddr seg)" by simp
    from h show ?thesis unfolding v by simp
  next
    case False
    with Cons.prems(2) have ex: "\<exists>s \<in> set rest. vaddr s \<le> a \<and> a < vaddr s + memsz s" by auto
    from Cons.prems(1) have okr: "hosts_ok rest" and dis: "list_all (host_disjoint seg) rest"
      by simp_all
    from Cons.IH[OF okr ex] obtain k where
      nz: "vaddr_to_host_loop rest a \<noteq> 0" and k: "k \<in> set rest"
      and k1: "vaddr_top k \<le> vaddr_to_host_loop rest a"
      and k2: "vaddr_to_host_loop rest a < vaddr_bottom k"
      and rt: "host_to_vaddr_loop rest (vaddr_to_host_loop rest a) = a"
      by blast
    from dis k have "host_disjoint seg k" by (simp add: list_all_iff)
    from host_range_disjoint[OF this k1 k2]
    have out: "\<not> (vaddr_top seg \<le> vaddr_to_host_loop rest a
                 \<and> vaddr_to_host_loop rest a < vaddr_bottom seg)" .
    from False have v: "vaddr_to_host_loop (seg # rest) a = vaddr_to_host_loop rest a" by auto
    from out rt have "host_to_vaddr_loop (seg # rest) (vaddr_to_host_loop rest a) = a"
      by auto
    with nz k k1 k2 show ?thesis unfolding v by auto
  qed
qed






lemmas mapper_defs =
  S4_elf_def S4_segments_def zero_elf_def vita_elf_vaddr_to_host_def vita_elf_host_to_vaddr_def
  vita_elf_vaddr_to_segoffset_def seg_host_ok_def host_disjoint_def

text \<open>
  The round trip in a context whose host placeholders are in the state above, for the
  range test of the code.
\<close>

lemma segment_roundtrip:
  assumes "hosts_ok (segments ve)"
      and "s \<in> set (segments ve)"
      and "vaddr s \<le> a" and "a < vaddr s + memsz s"
  shows "vita_elf_host_to_vaddr ve (vita_elf_vaddr_to_host ve a) = a"
proof -
  from assms(2-4) have "\<exists>s \<in> set (segments ve). vaddr s \<le> a \<and> a < vaddr s + memsz s"
    by blast
  from roundtrip_loop[OF assms(1) this] show ?thesis
    by (simp add: vita_elf_host_to_vaddr_def vita_elf_vaddr_to_host_def)
qed

text \<open>
  C9, as stated: for every guest address \<open>a\<close>, \<open>vaddr_to_segoffset (a, i)\<close> is the raw
  subtraction \<open>a - segments[i].vaddr\<close>.  For \<open>a = 0\<close> and the third segment of S4, at
  \<open>0x81000000\<close>, the function returns 0, while \<open>0 - 0x81000000 = 0x7F000000\<close>.
\<close>

theorem vaddr_to_segoffset_of_null_is_not_the_difference:
  "vita_elf_vaddr_to_segoffset S4_elf 0 2 = Some 0
   \<and> vita_elf_vaddr_to_segoffset S4_elf 0 2 \<noteq> Some (0 - vaddr (segments S4_elf ! 2))"
  by (simp add: mapper_defs)

text \<open>
  C9, amended: for every segment index \<open>i\<close> of the context and every guest address
  \<open>a\<close> other than 0, \<open>vaddr_to_segoffset (a, i)\<close> returns the raw subtraction
  \<open>a - segments[i].vaddr\<close> (modulo \<open>2^32\<close>) and performs no containment check on
  \<open>a\<close>; for \<open>a = 0\<close> it returns 0.
\<close>

theorem vaddr_to_segoffset_raw:
  assumes "0 \<le> i" and "i < int (length (segments ve))"
  shows "vita_elf_vaddr_to_segoffset ve a i
           = Some (if a = 0 then 0 else a - vaddr (segments ve ! nat i))"
  using assms by (simp add: vita_elf_vaddr_to_segoffset_def)

theorem vaddr_to_segoffset_raw_witness:
  "vita_elf_vaddr_to_segoffset S4_elf 0x80000100 2 = Some (0x80000100 - 0x81000000)
   \<and> vita_elf_vaddr_to_segoffset S4_elf 0x80000100 2 = Some 0xFF000100"
proof -
  have h1: "(0 :: int) \<le> 2" by simp
  have h2: "2 < int (length (segments S4_elf))" by (simp add: mapper_defs)
  from vaddr_to_segoffset_raw[OF h1 h2, of "0x80000100"] show ?thesis
    by (simp add: mapper_defs)
qed

section \<open>Properties of the import resolver and of the orchestrator\<close>

lemmas resolver_example_defs =
  ex_find_lib_def ex_find_module_def ex_find_function_def ex_find_variable_def
  ex_db_no_function_def ex_db_complete_def ex_db_other_def ex_stub_def

lemmas file_example_defs =
  ex_text_def ex_fstubs_def ex_sym_def ex_rel_def ex_file_def ex_mmap_def good_file_def
  S6_file_def twice_fstubs_file_def scn_null_def scn_progbits_def scn_symtab_def scn_rel_def

lemmas load_defs =
  vita_elf_load_def scan_section_def scan_stubs_def load_stubs_def load_rela_table_def
  finish_load_def link_fstubs_def link_vstubs_def lookup_stub_symbols_def link_symbol_def debug_sections_def
  zero_stub_def stub_symbol_def

text \<open>
  The code against the specification, stub by stub: the warning of the code is the
  warning of the specification, except that a warning for a missing target carries
  the module NID of the stub.
\<close>

lemma find_library_loop_first:
  "find_library_loop fl imps nid None
     = (case List.map_filter (\<lambda>imp. fl imp nid) imps of [] \<Rightarrow> None | lib # _ \<Rightarrow> Some lib)"
  by (induction imps) (auto simp: List.map_filter_simps split: option.splits)

lemma lookup_stub_warning:
  assumes "library stub = None"
  shows "fst (snd (lookup_stub fl fm fs syms imps nm stub))
           = map (\<lambda>w. case w of
                         Unable_to_find_target t n s \<Rightarrow> Unable_to_find_target t (module_nid stub) s
                       | _ \<Rightarrow> w)
               (spec_warning fl fm fs syms imps nm stub)"
  using assms
  by (auto simp: lookup_stub_def spec_warning_def find_library_loop_first stub_symbol_name_def
           Let_def split: option.splits list.splits)

text \<open>
  C5.  The specification has the warning of each failed step name the NID that was
  looked up: the library NID, the module NID or the target NID.  The code does so for
  the library and the module, but the warning for a missing target prints
  \<open>stub->module_nid\<close>.  For a stub with library NID 1, module NID 2 and target NID 3
  and a database that knows library 1 and module 2 but not function 3, the code warns
  about NID 2; the NID that is missing is 3.
\<close>

theorem lookup_stubs_target_warning_names_module_nid:
  "lookup_stubs ex_find_lib ex_find_module ex_find_function [] [ex_stub] [ex_db_no_function]
     ''function''
   = ([ex_stub\<lparr>library := Some (1, [(2, [], [])]), module := Some (2, [], [])\<rparr>],
      [Unable_to_find_target ''function'' 2 ''(unreferenced stub)''], False)
   \<and> spec_warning ex_find_lib ex_find_module ex_find_function [] [ex_db_no_function]
       ''function'' ex_stub
     = [Unable_to_find_target ''function'' 3 ''(unreferenced stub)'']"
  by (simp add: lookup_stubs_def lookup_stub_def spec_warning_def stub_symbol_name_def
        resolver_example_defs List.map_filter_def)

text \<open>
  The resolver never stops early: every stub is visited, a stub is found exactly when
  it ends up with its library, module and target bound, and exactly the stubs that are
  not found produce a warning.
\<close>

lemma lookup_stub_found:
  "lookup_stub fl fm fs syms imps nm stub = (stub', ws, found) \<Longrightarrow>
     found = resolved stub' \<and> (found \<longleftrightarrow> ws = []) \<and> length ws \<le> 1"
  by (auto simp: lookup_stub_def Let_def resolved_def split: option.splits)

lemma lookup_stubs_loop_found:
  "lookup_stubs_loop fl fm fs syms imps nm stubs fa = (stubs', ws, fa') \<Longrightarrow>
     length stubs' = length stubs \<and> fa' = (fa \<and> list_all resolved stubs')
     \<and> (list_all resolved stubs' \<longleftrightarrow> ws = []) \<and> length ws \<le> length stubs"
proof (induction stubs arbitrary: fa stubs' ws fa')
  case Nil
  then show ?case by auto
next
  case (Cons stub rest)
  obtain s1 w1 f1 where a: "lookup_stub fl fm fs syms imps nm stub = (s1, w1, f1)"
    by (cases "lookup_stub fl fm fs syms imps nm stub") auto
  obtain r2 w2 f2 where b: "lookup_stubs_loop fl fm fs syms imps nm rest (fa \<and> f1) = (r2, w2, f2)"
    by (cases "lookup_stubs_loop fl fm fs syms imps nm rest (fa \<and> f1)") auto
  from Cons.prems a b have e: "stubs' = s1 # r2" "ws = w1 @ w2" "fa' = f2" by simp_all
  note h1 = lookup_stub_found[OF a]
  note h2 = Cons.IH[OF b]
  from h1 h2 e show ?case by auto
qed

lemma vita_elf_lookup_imports_found:
  assumes "vita_elf_lookup_imports fl fm ff fv ve imps = (ve', ws, found_all)"
  shows "found_all = list_all resolved (fstubs ve' @ vstubs ve')" and "found_all \<longleftrightarrow> ws = []"
proof -
  obtain fs w1 f1 where a: "lookup_stubs_loop fl fm ff (symtab_list ve) imps ''function''
                               (fstubs ve) True = (fs, w1, f1)"
    by (cases "lookup_stubs_loop fl fm ff (symtab_list ve) imps ''function'' (fstubs ve) True")
       auto
  obtain vs w2 f2 where b: "lookup_stubs_loop fl fm fv (symtab_list ve) imps ''variable''
                               (vstubs ve) True = (vs, w2, f2)"
    by (cases "lookup_stubs_loop fl fm fv (symtab_list ve) imps ''variable'' (vstubs ve) True")
       auto
  from assms a b have e: "ve' = ve\<lparr>fstubs := fs, vstubs := vs\<rparr>" "ws = w1 @ w2"
    "found_all = (f1 \<and> f2)"
    by (simp_all add: vita_elf_lookup_imports_def lookup_stubs_def)
  note h1 = lookup_stubs_loop_found[OF a]
  note h2 = lookup_stubs_loop_found[OF b]
  from h1 h2 e show "found_all = list_all resolved (fstubs ve' @ vstubs ve')" by simp
  from h1 h2 e show "found_all \<longleftrightarrow> ws = []" by simp
qed

lemma run_stages_all: "run_stages ok ss = ss \<longleftrightarrow> (\<forall>s \<in> set ss. ok s)"
  by (induction ss) auto

lemma main_after_load:
  assumes "3 \<le> argc env"
      and "vita_elf_load (input env) (mmap_result env) = Inr ve"
      and "loaded_imports env = Some imports"
  shows "status (main fl fm ff fv env) = EXIT_SUCCESS \<longleftrightarrow>
           list_all resolved (fstubs (fst (vita_elf_lookup_imports fl fm ff fv ve imports))
                              @ vstubs (fst (vita_elf_lookup_imports fl fm ff fv ve imports)))
           \<and> (\<forall>s \<in> set output_stages. stage_ok env s)"
    and "stages_done (main fl fm ff fv env) = run_stages (stage_ok env) output_stages"
    and "warnings (main fl fm ff fv env) = fst (snd (vita_elf_lookup_imports fl fm ff fv ve imports))"
proof -
  obtain ve' ws found_all where
    l: "vita_elf_lookup_imports fl fm ff fv ve imports = (ve', ws, found_all)"
    by (cases "vita_elf_lookup_imports fl fm ff fv ve imports") auto
  note f = vita_elf_lookup_imports_found(1)[OF l]
  from assms l f run_stages_all[of "stage_ok env" output_stages]
  show "status (main fl fm ff fv env) = EXIT_SUCCESS \<longleftrightarrow>
           list_all resolved (fstubs (fst (vita_elf_lookup_imports fl fm ff fv ve imports))
                              @ vstubs (fst (vita_elf_lookup_imports fl fm ff fv ve imports)))
           \<and> (\<forall>s \<in> set output_stages. stage_ok env s)"
    by (auto simp: main_def Let_def)
  from assms l show "stages_done (main fl fm ff fv env) = run_stages (stage_ok env) output_stages"
    by (auto simp: main_def Let_def)
  from assms l show "warnings (main fl fm ff fv env)
                       = fst (snd (vita_elf_lookup_imports fl fm ff fv ve imports))"
    by (auto simp: main_def Let_def)
qed

lemma main_success_needs_load:
  fixes fl :: "'db \<Rightarrow> u32 \<Rightarrow> 'l option" and fm :: "'l \<Rightarrow> u32 \<Rightarrow> 'm option"
    and ff :: "'m \<Rightarrow> u32 \<Rightarrow> 't option" and fv :: "'m \<Rightarrow> u32 \<Rightarrow> 't option"
  assumes "status (main fl fm ff fv env) = EXIT_SUCCESS"
  shows "3 \<le> argc env
       \<and> (\<exists>ve imports. (vita_elf_load (input env) (mmap_result env)
                            :: error + ('l, 'm, 't) vita_elf) = Inr ve
                        \<and> loaded_imports env = Some imports)"
  using assms
  by (auto simp: main_def Let_def split: if_splits sum.splits option.splits prod.splits)

text \<open>
  C6.  The exit status is \<open>EXIT_SUCCESS\<close> exactly when the arguments are there, the
  ELF context and the import databases load, every output stage succeeds and every
  stub is resolved.  When the context and the databases load and some stub is not
  resolved, the status is \<open>EXIT_FAILURE\<close>, yet the output stages run as they would
  otherwise: if each of them succeeds, all of them complete and the output file is
  written.
\<close>

theorem main_exit_status:
  fixes fl :: "'db \<Rightarrow> u32 \<Rightarrow> 'l option" and fm :: "'l \<Rightarrow> u32 \<Rightarrow> 'm option"
    and ff :: "'m \<Rightarrow> u32 \<Rightarrow> 't option" and fv :: "'m \<Rightarrow> u32 \<Rightarrow> 't option"
    and lve :: "('l, 'm, 't) vita_elf"
  shows "(status (main fl fm ff fv env) = EXIT_SUCCESS \<longleftrightarrow>
            3 \<le> argc env
          \<and> (\<exists>ve imports.
                (vita_elf_load (input env) (mmap_result env) :: error + ('l, 'm, 't) vita_elf)
                  = Inr ve
              \<and> loaded_imports env = Some imports
              \<and> list_all resolved
                  (fstubs (fst (vita_elf_lookup_imports fl fm ff fv ve imports))
                   @ vstubs (fst (vita_elf_lookup_imports fl fm ff fv ve imports)))
              \<and> (\<forall>s \<in> set output_stages. stage_ok env s)))
       \<and> (3 \<le> argc env
          \<and> vita_elf_load (input env) (mmap_result env) = Inr lve
          \<and> loaded_imports env = Some dbs
          \<and> \<not> list_all resolved
                  (fstubs (fst (vita_elf_lookup_imports fl fm ff fv lve dbs))
                   @ vstubs (fst (vita_elf_lookup_imports fl fm ff fv lve dbs)))
          \<and> (\<forall>s \<in> set output_stages. stage_ok env s)
          \<longrightarrow> status (main fl fm ff fv env) = EXIT_FAILURE
              \<and> stages_done (main fl fm ff fv env) = output_stages
              \<and> output_written (main fl fm ff fv env))"
proof -
  let ?A = "3 \<le> argc env
          \<and> (\<exists>ve imports.
                (vita_elf_load (input env) (mmap_result env) :: error + ('l, 'm, 't) vita_elf)
                  = Inr ve
              \<and> loaded_imports env = Some imports
              \<and> list_all resolved
                  (fstubs (fst (vita_elf_lookup_imports fl fm ff fv ve imports))
                   @ vstubs (fst (vita_elf_lookup_imports fl fm ff fv ve imports)))
              \<and> (\<forall>s \<in> set output_stages. stage_ok env s))"
  have exact: "status (main fl fm ff fv env) = EXIT_SUCCESS \<longleftrightarrow> ?A"
  proof
    assume s: "status (main fl fm ff fv env) = EXIT_SUCCESS"
    from main_success_needs_load[OF s] obtain ve imps where
      a: "3 \<le> argc env"
      and l: "(vita_elf_load (input env) (mmap_result env) :: error + ('l, 'm, 't) vita_elf)
                = Inr ve"
      and i: "loaded_imports env = Some imps"
      by blast
    from main_after_load(1)[OF a l i, of fl fm ff fv] s a l i
    show ?A by blast
  next
    assume ?A
    then obtain ve imps where
      a: "3 \<le> argc env"
      and l: "(vita_elf_load (input env) (mmap_result env) :: error + ('l, 'm, 't) vita_elf)
                = Inr ve"
      and i: "loaded_imports env = Some imps"
      and r: "list_all resolved
                  (fstubs (fst (vita_elf_lookup_imports fl fm ff fv ve imps))
                   @ vstubs (fst (vita_elf_lookup_imports fl fm ff fv ve imps)))"
      and o: "\<forall>s \<in> set output_stages. stage_ok env s"
      by blast
    from main_after_load(1)[OF a l i, of fl fm ff fv] r o
    show "status (main fl fm ff fv env) = EXIT_SUCCESS" by blast
  qed
  have unresolved: "status (main fl fm ff fv env) = EXIT_FAILURE
              \<and> stages_done (main fl fm ff fv env) = output_stages
              \<and> output_written (main fl fm ff fv env)"
    if h: "3 \<le> argc env
          \<and> vita_elf_load (input env) (mmap_result env) = Inr lve
          \<and> loaded_imports env = Some dbs
          \<and> \<not> list_all resolved
                  (fstubs (fst (vita_elf_lookup_imports fl fm ff fv lve dbs))
                   @ vstubs (fst (vita_elf_lookup_imports fl fm ff fv lve dbs)))
          \<and> (\<forall>s \<in> set output_stages. stage_ok env s)"
  proof -
    from h have a: "3 \<le> argc env"
      and l: "vita_elf_load (input env) (mmap_result env) = Inr lve"
      and i: "loaded_imports env = Some dbs"
      and r: "\<not> list_all resolved
                  (fstubs (fst (vita_elf_lookup_imports fl fm ff fv lve dbs))
                   @ vstubs (fst (vita_elf_lookup_imports fl fm ff fv lve dbs)))"
      and o: "\<forall>s \<in> set output_stages. stage_ok env s"
      by simp_all
    from main_after_load(1)[OF a l i, of fl fm ff fv] r
    have "status (main fl fm ff fv env) \<noteq> EXIT_SUCCESS" by blast
    then have s: "status (main fl fm ff fv env) = EXIT_FAILURE"
      by (cases "status (main fl fm ff fv env)") simp_all
    from main_after_load(2)[OF a l i, of fl fm ff fv] o
      run_stages_all[of "stage_ok env" output_stages]
    have d: "stages_done (main fl fm ff fv env) = output_stages" by simp
    then have "output_written (main fl fm ff fv env)" by (simp add: output_written_def)
    with s d show ?thesis by simp
  qed
  from exact unresolved show ?thesis by blast
qed

lemma good_file_loads: "vita_elf_load (Some good_file) ex_mmap = Inr good_elf"
  by (simp add: good_elf_def file_example_defs load_defs loader_defs upt_rec)

theorem main_exit_status_witness:
  "status (ex_main (ex_env good_file ex_db_other)) = EXIT_FAILURE
   \<and> stages_done (ex_main (ex_env good_file ex_db_other)) = output_stages
   \<and> output_written (ex_main (ex_env good_file ex_db_other))
   \<and> warnings (ex_main (ex_env good_file ex_db_other))
       = [Unable_to_find_library 1 ''function'' ''sceFoo'']"
proof -
  let ?env = "ex_env good_file ex_db_other"
  have l: "vita_elf_lookup_imports ex_find_lib ex_find_module ex_find_function ex_find_variable
             good_elf [ex_db_other]
           = (good_elf, [Unable_to_find_library 1 ''function'' ''sceFoo''], False)"
    by (simp add: vita_elf_lookup_imports_def lookup_stubs_def lookup_stub_def good_elf_def
          symtab_list_def stub_symbol_name_def resolver_example_defs)
  have a: "3 \<le> argc ?env" by (simp add: ex_env_def)
  have ld: "vita_elf_load (input ?env) (mmap_result ?env) = Inr good_elf"
    by (simp add: ex_env_def good_file_loads)
  have i: "loaded_imports ?env = Some [ex_db_other]" by (simp add: ex_env_def)
  have r: "\<not> list_all resolved
              (fstubs (fst (vita_elf_lookup_imports ex_find_lib ex_find_module ex_find_function
                              ex_find_variable good_elf [ex_db_other]))
               @ vstubs (fst (vita_elf_lookup_imports ex_find_lib ex_find_module ex_find_function
                               ex_find_variable good_elf [ex_db_other])))"
    by (simp add: l) (simp add: good_elf_def resolved_def)
  have o: "\<forall>s \<in> set output_stages. stage_ok ?env s" by (simp add: ex_env_def)
  from a ld i r o
  have h: "3 \<le> argc ?env
          \<and> vita_elf_load (input ?env) (mmap_result ?env) = Inr good_elf
          \<and> loaded_imports ?env = Some [ex_db_other]
          \<and> \<not> list_all resolved
              (fstubs (fst (vita_elf_lookup_imports ex_find_lib ex_find_module ex_find_function
                              ex_find_variable good_elf [ex_db_other]))
               @ vstubs (fst (vita_elf_lookup_imports ex_find_lib ex_find_module ex_find_function
                               ex_find_variable good_elf [ex_db_other])))
          \<and> (\<forall>s \<in> set output_stages. stage_ok ?env s)"
    by blast
  note t = main_exit_status[where env = ?env and lve = good_elf and dbs = "[ex_db_other]"
             and fl = ex_find_lib and fm = ex_find_module and ff = ex_find_function
             and fv = ex_find_variable, THEN conjunct2, THEN mp, OF h]
  from main_after_load(3)[OF a ld i, of ex_find_lib ex_find_module ex_find_function
         ex_find_variable] l
  have w: "warnings (main ex_find_lib ex_find_module ex_find_function ex_find_variable ?env)
             = [Unable_to_find_library 1 ''function'' ''sceFoo'']"
    by simp
  from t w show ?thesis by (simp add: ex_main_def)
qed

section \<open>The round trip through the host placeholders of a loaded context\<close>








section \<open>Properties of the stub-symbol linker\<close>

lemma slot_of_addr: "slot_of stubs v = Some st \<Longrightarrow> addr st = v \<and> st \<in> set stubs"
  by (auto simp: slot_of_def find_Some_iff)

lemma bind_stub_addrs:
  "bind_stub syms ndx c i stubs = Inr stubs' \<Longrightarrow> map addr stubs' = map addr stubs"
  by (induction stubs arbitrary: stubs') (auto split: if_splits sum.splits option.splits)

lemma bind_stub_no_slot:
  "slot_of stubs (value c) = None \<Longrightarrow>
     bind_stub syms ndx c i stubs = Inl (Not_a_valid_stub (name c) (shndx c))"
  by (induction stubs) (auto simp: slot_of_def split: if_splits)

lemma bind_stub_bound_slot:
  "slot_of stubs (value c) = Some st \<Longrightarrow> symbol st = Some other \<Longrightarrow>
     bind_stub syms ndx c i stubs
       = Inl (Duplicate_stub_symbols (value c) ndx (name (syms ! other)) (name c))"
  by (induction stubs) (auto simp: slot_of_def split: if_splits)

lemma bind_stub_binds:
  "bind_stub syms ndx c i stubs = Inr stubs' \<Longrightarrow>
     \<exists>st. slot_of stubs (value c) = Some st \<and> symbol st = None
        \<and> slot_of stubs' (value c) = Some (st\<lparr>symbol := Some i\<rparr>)"
  by (induction stubs arbitrary: stubs')
     (auto simp: slot_of_def split: if_splits sum.splits option.splits)

lemma bind_stub_other_slot:
  "bind_stub syms ndx c i stubs = Inr stubs' \<Longrightarrow> v \<noteq> value c \<Longrightarrow>
     slot_of stubs' v = slot_of stubs v"
  by (induction stubs arbitrary: stubs')
     (auto simp: slot_of_def split: if_splits sum.splits option.splits)

text \<open>A bound slot survives every later successful binding.\<close>

lemma bind_stub_keeps_bound:
  assumes "bind_stub syms ndx c i stubs = Inr stubs'"
      and "slot_of stubs v = Some st" and "symbol st = Some k"
  shows "slot_of stubs' v = Some st"
proof (cases "v = value c")
  case True
  from bind_stub_bound_slot[of stubs c st k syms ndx i] assms True show ?thesis by simp
next
  case False
  from bind_stub_other_slot[OF assms(1) False] assms(2) show ?thesis by simp
qed

text \<open>One round of the loop over the symbols.\<close>

lemma link_symbol_binds:
  "link_symbol syms ndx ty h stubs = Inr stubs1 \<Longrightarrow> stub_symbol ndx (syms ! h) \<Longrightarrow>
     bind_stub syms ndx (syms ! h) h stubs = Inr stubs1"
  by (auto simp: link_symbol_def stub_symbol_def Let_def split: if_splits)

lemma link_symbol_skips:
  "link_symbol syms ndx ty h stubs = Inr stubs1 \<Longrightarrow> \<not> stub_symbol ndx (syms ! h) \<Longrightarrow>
     stubs1 = stubs"
  by (auto simp: link_symbol_def stub_symbol_def Let_def split: if_splits)

lemma loop_step:
  assumes "lookup_stub_symbols_loop syms ndx ty (h # idxs) stubs = Inr stubs'"
  shows "\<exists>stubs1. link_symbol syms ndx ty h stubs = Inr stubs1
                 \<and> lookup_stub_symbols_loop syms ndx ty idxs stubs1 = Inr stubs'"
  using assms by (simp split: sum.splits)

lemma loop_keeps_bound:
  "lookup_stub_symbols_loop syms ndx ty idxs stubs = Inr stubs' \<Longrightarrow>
     slot_of stubs v = Some st \<Longrightarrow> symbol st = Some k \<Longrightarrow> slot_of stubs' v = Some st"
proof (induction idxs arbitrary: stubs)
  case Nil
  then show ?case by simp
next
  case (Cons h idxs)
  from Cons.prems(1) obtain stubs1 where
    ls: "link_symbol syms ndx ty h stubs = Inr stubs1"
    and r: "lookup_stub_symbols_loop syms ndx ty idxs stubs1 = Inr stubs'"
    using loop_step by blast
  note b = link_symbol_binds[OF ls] and n = link_symbol_skips[OF ls]
  have "slot_of stubs1 v = Some st"
  proof (cases "stub_symbol ndx (syms ! h)")
    case True
    from bind_stub_keeps_bound[OF b[OF True] Cons.prems(2,3)] show ?thesis .
  next
    case False
    with n Cons.prems(2) show ?thesis by simp
  qed
  from Cons.IH[OF r this Cons.prems(3)] show ?case .
qed

lemma loop_addrs:
  "lookup_stub_symbols_loop syms ndx ty idxs stubs = Inr stubs' \<Longrightarrow>
     map addr stubs' = map addr stubs"
proof (induction idxs arbitrary: stubs)
  case Nil
  then show ?case by simp
next
  case (Cons h idxs)
  from Cons.prems(1) obtain stubs1 where
    ls: "link_symbol syms ndx ty h stubs = Inr stubs1"
    and r: "lookup_stub_symbols_loop syms ndx ty idxs stubs1 = Inr stubs'"
    using loop_step by blast
  note b = link_symbol_binds[OF ls] and n = link_symbol_skips[OF ls]
  have "map addr stubs1 = map addr stubs"
  proof (cases "stub_symbol ndx (syms ! h)")
    case True
    from bind_stub_addrs[OF b[OF True]] show ?thesis .
  next
    case False
    with n show ?thesis by simp
  qed
  with Cons.IH[OF r] show ?case by simp
qed

text \<open>On success every symbol the linker looks at is bound to the slot at its value.\<close>

lemma loop_binds_each:
  "lookup_stub_symbols_loop syms ndx ty idxs stubs = Inr stubs' \<Longrightarrow>
     i \<in> set idxs \<Longrightarrow> stub_symbol ndx (syms ! i) \<Longrightarrow>
     \<exists>st. slot_of stubs' (value (syms ! i)) = Some st \<and> symbol st = Some i"
proof (induction idxs arbitrary: stubs)
  case Nil
  then show ?case by simp
next
  case (Cons h idxs)
  from Cons.prems(1) obtain stubs1 where
    ls: "link_symbol syms ndx ty h stubs = Inr stubs1"
    and r: "lookup_stub_symbols_loop syms ndx ty idxs stubs1 = Inr stubs'"
    using loop_step by blast
  note b = link_symbol_binds[OF ls] and n = link_symbol_skips[OF ls]
  show ?case
  proof (cases "i = h")
    case True
    with Cons.prems(3) have q: "stub_symbol ndx (syms ! h)" by simp
    from bind_stub_binds[OF b[OF q]] obtain st where
      s: "slot_of stubs1 (value (syms ! h)) = Some (st\<lparr>symbol := Some h\<rparr>)" by blast
    have "symbol (st\<lparr>symbol := Some h\<rparr>) = Some h" by simp
    from loop_keeps_bound[OF r s this] True show ?thesis by auto
  next
    case False
    with Cons.prems(2) have "i \<in> set idxs" by simp
    from Cons.IH[OF r this Cons.prems(3)] show ?thesis .
  qed
qed

text \<open>A symbol at a slot that is bound already makes the linker fail.\<close>

lemma loop_fails_on_bound_slot:
  "slot_of stubs v = Some st \<Longrightarrow> symbol st = Some k \<Longrightarrow>
     j \<in> set idxs \<Longrightarrow> stub_symbol ndx (syms ! j) \<Longrightarrow> value (syms ! j) = v \<Longrightarrow>
     isl (lookup_stub_symbols_loop syms ndx ty idxs stubs)"
proof (induction idxs arbitrary: stubs)
  case Nil
  then show ?case by simp
next
  case (Cons h idxs)
  show ?case
  proof (cases "lookup_stub_symbols_loop syms ndx ty (h # idxs) stubs")
    case (Inl e)
    then show ?thesis by simp
  next
    case (Inr stubs')
    then obtain stubs1 where
      ls: "link_symbol syms ndx ty h stubs = Inr stubs1"
      and r: "lookup_stub_symbols_loop syms ndx ty idxs stubs1 = Inr stubs'"
      using loop_step by blast
    note b = link_symbol_binds[OF ls] and n = link_symbol_skips[OF ls]
    have hj: "h \<noteq> j"
    proof
      assume "h = j"
      with Cons.prems(4) have q: "stub_symbol ndx (syms ! h)" by simp
      from bind_stub_bound_slot[of stubs "syms ! h" st k syms ndx h] Cons.prems(1,2,5) \<open>h = j\<close>
        b[OF q]
      show False by simp
    qed
    with Cons.prems(3) have m: "j \<in> set idxs" by simp
    have "slot_of stubs1 v = Some st"
    proof (cases "stub_symbol ndx (syms ! h)")
      case True
      from bind_stub_keeps_bound[OF b[OF True] Cons.prems(1,2)] show ?thesis .
    next
      case False
      with n Cons.prems(1) show ?thesis by simp
    qed
    from Cons.IH[OF this Cons.prems(2) m Cons.prems(4,5)] r show ?thesis by simp
  qed
qed

text \<open>Two symbols at one slot make the linker fail.\<close>

lemma loop_fails_on_shared_slot:
  "i \<in> set idxs \<Longrightarrow> j \<in> set idxs \<Longrightarrow> i \<noteq> j \<Longrightarrow>
     stub_symbol ndx (syms ! i) \<Longrightarrow> stub_symbol ndx (syms ! j) \<Longrightarrow>
     value (syms ! i) = value (syms ! j) \<Longrightarrow>
     isl (lookup_stub_symbols_loop syms ndx ty idxs stubs)"
proof (induction idxs arbitrary: stubs)
  case Nil
  then show ?case by simp
next
  case (Cons h idxs)
  show ?case
  proof (cases "lookup_stub_symbols_loop syms ndx ty (h # idxs) stubs")
    case (Inl e)
    then show ?thesis by simp
  next
    case (Inr stubs')
    then obtain stubs1 where
      ls: "link_symbol syms ndx ty h stubs = Inr stubs1"
      and r: "lookup_stub_symbols_loop syms ndx ty idxs stubs1 = Inr stubs'"
      using loop_step by blast
    note b = link_symbol_binds[OF ls] and n = link_symbol_skips[OF ls]
    have bound: "isl (lookup_stub_symbols_loop syms ndx ty idxs stubs1)"
      if q: "stub_symbol ndx (syms ! h)" and m: "c \<in> set idxs"
        and qc: "stub_symbol ndx (syms ! c)" and v: "value (syms ! c) = value (syms ! h)" for c
    proof -
      from bind_stub_binds[OF b[OF q]] obtain st where
        s: "slot_of stubs1 (value (syms ! h)) = Some (st\<lparr>symbol := Some h\<rparr>)" by blast
      have "symbol (st\<lparr>symbol := Some h\<rparr>) = Some h" by simp
      from loop_fails_on_bound_slot[OF s this m qc v] show ?thesis .
    qed
    have "isl (lookup_stub_symbols_loop syms ndx ty idxs stubs1)"
    proof (cases "h = i")
      case True
      with Cons.prems have "j \<in> set idxs" by auto
      from bound[OF _ this] True Cons.prems(4-6) show ?thesis by simp
    next
      case False
      note hi = this
      show ?thesis
      proof (cases "h = j")
        case True
        with Cons.prems have "i \<in> set idxs" by auto
        from bound[OF _ this] True Cons.prems(4-6) show ?thesis by simp
      next
        case False
        with hi Cons.prems(1,2) have "i \<in> set idxs" "j \<in> set idxs" by auto
        from Cons.IH[OF this Cons.prems(3-6)] show ?thesis .
      qed
    qed
    with r show ?thesis by simp
  qed
qed

text \<open>A symbol at an address without a slot makes the linker fail.\<close>

lemma loop_fails_without_slot:
  "i \<in> set idxs \<Longrightarrow> stub_symbol ndx (syms ! i) \<Longrightarrow> slot_of stubs (value (syms ! i)) = None \<Longrightarrow>
     isl (lookup_stub_symbols_loop syms ndx ty idxs stubs)"
proof (induction idxs arbitrary: stubs)
  case Nil
  then show ?case by simp
next
  case (Cons h idxs)
  show ?case
  proof (cases "lookup_stub_symbols_loop syms ndx ty (h # idxs) stubs")
    case (Inl e)
    then show ?thesis by simp
  next
    case (Inr stubs')
    then obtain stubs1 where
      ls: "link_symbol syms ndx ty h stubs = Inr stubs1"
      and r: "lookup_stub_symbols_loop syms ndx ty idxs stubs1 = Inr stubs'"
      using loop_step by blast
    note b = link_symbol_binds[OF ls] and n = link_symbol_skips[OF ls]
    have hi: "h \<noteq> i"
    proof
      assume "h = i"
      with Cons.prems(2) have q: "stub_symbol ndx (syms ! h)" by simp
      from bind_stub_no_slot[of stubs "syms ! h" syms ndx h] Cons.prems(3) \<open>h = i\<close> b[OF q]
      show False by simp
    qed
    with Cons.prems(1) have m: "i \<in> set idxs" by simp
    have a: "map addr stubs1 = map addr stubs"
    proof (cases "stub_symbol ndx (syms ! h)")
      case True
      from bind_stub_addrs[OF b[OF True]] show ?thesis .
    next
      case False
      with n show ?thesis by simp
    qed
    have "slot_of stubs1 (value (syms ! i)) = None"
    proof -
      from Cons.prems(3) have "value (syms ! i) \<notin> set (map addr stubs)"
        by (auto simp: slot_of_def find_None_iff)
      with a have "value (syms ! i) \<notin> set (map addr stubs1)" by simp
      then show ?thesis unfolding slot_of_def find_None_iff by (metis imageI set_map)
    qed
    from Cons.IH[OF m Cons.prems(2) this] r show ?thesis by simp
  qed
qed

lemma lookup_stub_symbols_fails_on_shared_slot:
  assumes "a < num_symbols ve" and "b < num_symbols ve" and "a \<noteq> b"
      and "stub_symbol ndx (symtab_list ve ! a)" and "stub_symbol ndx (symtab_list ve ! b)"
      and "value (symtab_list ve ! a) = value (symtab_list ve ! b)"
  shows "isl (lookup_stub_symbols ve stubs ndx ty)"
proof -
  from assms(1,2) have "a \<in> set [0..<num_symbols ve]" "b \<in> set [0..<num_symbols ve]" by simp_all
  from loop_fails_on_shared_slot[OF this assms(3-6)] show ?thesis
    by (simp add: lookup_stub_symbols_def)
qed

lemma main_load_failure:
  fixes fl :: "'db \<Rightarrow> u32 \<Rightarrow> 'l option" and fm :: "'l \<Rightarrow> u32 \<Rightarrow> 'm option"
    and ff :: "'m \<Rightarrow> u32 \<Rightarrow> 't option" and fv :: "'m \<Rightarrow> u32 \<Rightarrow> 't option"
  assumes "isl (vita_elf_load (input env) (mmap_result env) :: error + ('l, 'm, 't) vita_elf)"
  shows "status (main fl fm ff fv env) = EXIT_FAILURE"
    and "stages_done (main fl fm ff fv env) = []"
    and "\<not> output_written (main fl fm ff fv env)"
proof -
  from assms obtain e where
    "(vita_elf_load (input env) (mmap_result env) :: error + ('l, 'm, 't) vita_elf) = Inl e"
    by (cases "vita_elf_load (input env) (mmap_result env) :: error + ('l, 'm, 't) vita_elf") auto
  then show "status (main fl fm ff fv env) = EXIT_FAILURE"
    and d: "stages_done (main fl fm ff fv env) = []"
    by (simp_all add: main_def)
  from d show "\<not> output_written (main fl fm ff fv env)"
    by (simp add: output_written_def output_stages_def)
qed

text \<open>Scenario S6 on the loaded context: two global function symbols on one stub slot.\<close>

lemma load_fails_on_shared_fstub:
  fixes lve :: "('l, 'm, 't) vita_elf"
  assumes "scan_sections (sections f) 1 (tl (sections f)) zero_elf = Inr lve"
      and "fstubs_ndx lve \<noteq> 0"
      and "a < num_symbols lve" and "b < num_symbols lve" and "a \<noteq> b"
      and "binding (symtab_list lve ! a) = STB_GLOBAL" and "symtype (symtab_list lve ! a) = STT_FUNC"
      and "shndx (symtab_list lve ! a) = fstubs_ndx lve"
      and "binding (symtab_list lve ! b) = STB_GLOBAL" and "symtype (symtab_list lve ! b) = STT_FUNC"
      and "shndx (symtab_list lve ! b) = fstubs_ndx lve"
      and "value (symtab_list lve ! a) = value (symtab_list lve ! b)"
  shows "isl (vita_elf_load (Some f) mm :: error + ('l, 'm, 't) vita_elf)"
proof -
  from assms(6-8) have qa: "stub_symbol (fstubs_ndx lve) (symtab_list lve ! a)"
    by (simp add: stub_symbol_def)
  from assms(9-11) have qb: "stub_symbol (fstubs_ndx lve) (symtab_list lve ! b)"
    by (simp add: stub_symbol_def)
  from lookup_stub_symbols_fails_on_shared_slot[OF assms(3-5) qa qb assms(12)]
  have "isl (lookup_stub_symbols lve (fstubs lve) (fstubs_ndx lve) STT_FUNC)" .
  with assms(2) have "isl (link_fstubs lve)"
    by (auto simp: link_fstubs_def split: sum.splits)
  then have "isl (finish_load mm (phdrs f) lve)"
    by (auto simp: finish_load_def split: sum.splits)
  with assms(1) show ?thesis
    by (auto simp: vita_elf_load_def split: sum.splits)
qed

lemmas link_example_defs = S6_scanned_def twice_scanned_def good_elf_def

lemma S6_file_scans:
  "scan_sections (sections S6_file) 1 (tl (sections S6_file)) zero_elf = Inr S6_scanned"
  by (simp add: S6_scanned_def file_example_defs load_defs loader_defs upt_rec)

text \<open>The linker reads of the context only the symbol table and the number of symbols.\<close>

lemma lookup_stub_symbols_reads:
  "symtab_list ve1 = symtab_list ve \<Longrightarrow> num_symbols ve1 = num_symbols ve \<Longrightarrow>
     lookup_stub_symbols ve1 stubs ndx ty = lookup_stub_symbols ve stubs ndx ty"
  by (simp add: lookup_stub_symbols_def)

text \<open>On success every symbol the linker looks at has the type of the stub section.\<close>

lemma loop_types:
  "lookup_stub_symbols_loop syms ndx ty idxs stubs = Inr stubs' \<Longrightarrow>
     i \<in> set idxs \<Longrightarrow> stub_symbol ndx (syms ! i) \<Longrightarrow> symtype (syms ! i) = ty"
proof (induction idxs arbitrary: stubs)
  case Nil
  then show ?case by simp
next
  case (Cons h idxs)
  from loop_step[OF Cons.prems(1)] obtain stubs1 where
    a: "link_symbol syms ndx ty h stubs = Inr stubs1"
    and b: "lookup_stub_symbols_loop syms ndx ty idxs stubs1 = Inr stubs'"
    by blast
  show ?case
  proof (cases "i = h")
    case True
    with a Cons.prems(3) show ?thesis
      by (auto simp: link_symbol_def stub_symbol_def Let_def split: if_splits)
  next
    case False
    with Cons.prems(2) have "i \<in> set idxs" by simp
    from Cons.IH[OF b this Cons.prems(3)] show ?thesis .
  qed
qed

lemma lookup_stub_symbols_binds:
  assumes "lookup_stub_symbols ve stubs ndx ty = Inr stubs'"
      and "i < num_symbols ve" and "stub_symbol ndx (symtab_list ve ! i)"
  shows "symtype (symtab_list ve ! i) = ty"
    and "\<exists>st. slot_of stubs' (value (symtab_list ve ! i)) = Some st
            \<and> addr st = value (symtab_list ve ! i) \<and> symbol st = Some i"
proof -
  from assms(2) have m: "i \<in> set [0..<num_symbols ve]" by simp
  from loop_types[OF assms(1)[unfolded lookup_stub_symbols_def] m assms(3)]
  show "symtype (symtab_list ve ! i) = ty" .
  from loop_binds_each[OF assms(1)[unfolded lookup_stub_symbols_def] m assms(3)]
  obtain st where "slot_of stubs' (value (symtab_list ve ! i)) = Some st" "symbol st = Some i"
    by blast
  with slot_of_addr[OF this(1)]
  show "\<exists>st. slot_of stubs' (value (symtab_list ve ! i)) = Some st
            \<and> addr st = value (symtab_list ve ! i) \<and> symbol st = Some i"
    by blast
qed

lemma lookup_stub_symbols_fails_without_slot:
  assumes "k < num_symbols ve" and "stub_symbol ndx (symtab_list ve ! k)"
      and "slot_of stubs (value (symtab_list ve ! k)) = None"
  shows "isl (lookup_stub_symbols ve stubs ndx ty)"
proof -
  from assms(1) have "k \<in> set [0..<num_symbols ve]" by simp
  from loop_fails_without_slot[OF this assms(2,3)] show ?thesis
    by (simp add: lookup_stub_symbols_def)
qed

text \<open>
  What \<open>vita_elf_load\<close> does after the loop over the sections: it runs the linker on the
  function stubs and on the variable stubs, each when its section is there, and keeps
  the results; the symbol table and the section indexes stay as they are.
\<close>

lemma link_fstubs_result:
  assumes "link_fstubs lve = Inr ve1"
  shows "\<exists>st. ve1 = lve\<lparr>fstubs := st\<rparr>
            \<and> (fstubs_ndx lve \<noteq> 0 \<longrightarrow>
                 lookup_stub_symbols lve (fstubs lve) (fstubs_ndx lve) STT_FUNC = Inr st)"
proof (cases "fstubs_ndx lve = 0")
  case True
  with assms have "ve1 = lve\<lparr>fstubs := fstubs lve\<rparr>" by (simp add: link_fstubs_def)
  with True show ?thesis by blast
next
  case False
  with assms show ?thesis by (auto simp: link_fstubs_def split: sum.splits)
qed

lemma link_vstubs_result:
  assumes "link_vstubs lve = Inr ve1"
  shows "\<exists>st. ve1 = lve\<lparr>vstubs := st\<rparr>
            \<and> (vstubs_ndx lve \<noteq> 0 \<longrightarrow>
                 lookup_stub_symbols lve (vstubs lve) (vstubs_ndx lve) STT_OBJECT = Inr st)"
proof (cases "vstubs_ndx lve = 0")
  case True
  with assms have "ve1 = lve\<lparr>vstubs := vstubs lve\<rparr>" by (simp add: link_vstubs_def)
  with True show ?thesis by blast
next
  case False
  with assms show ?thesis by (auto simp: link_vstubs_def split: sum.splits)
qed

lemma finish_load_links:
  assumes "finish_load mm ph lve = Inr lo"
  shows "symtab_list lo = symtab_list lve" and "num_symbols lo = num_symbols lve"
    and "fstubs_ndx lo = fstubs_ndx lve" and "vstubs_ndx lo = vstubs_ndx lve"
    and "fstubs_ndx lve \<noteq> 0 \<Longrightarrow>
           lookup_stub_symbols lve (fstubs lve) (fstubs_ndx lve) STT_FUNC = Inr (fstubs lo)"
    and "vstubs_ndx lve \<noteq> 0 \<Longrightarrow>
           lookup_stub_symbols lve (vstubs lve) (vstubs_ndx lve) STT_OBJECT = Inr (vstubs lo)"
proof -
  from assms obtain ve1 ve2 segs where
    f: "link_fstubs lve = Inr ve1" and v: "link_vstubs ve1 = Inr ve2"
    and lo: "lo = ve2\<lparr>segments := segs, num_segments := length ph\<rparr>"
    by (auto simp: finish_load_def split: if_splits sum.splits)
  from link_fstubs_result[OF f] obtain fs where
    e1: "ve1 = lve\<lparr>fstubs := fs\<rparr>"
    and lf: "fstubs_ndx lve \<noteq> 0 \<longrightarrow>
               lookup_stub_symbols lve (fstubs lve) (fstubs_ndx lve) STT_FUNC = Inr fs"
    by blast
  from link_vstubs_result[OF v] obtain vs where
    e2: "ve2 = ve1\<lparr>vstubs := vs\<rparr>"
    and lv: "vstubs_ndx ve1 \<noteq> 0 \<longrightarrow>
               lookup_stub_symbols ve1 (vstubs ve1) (vstubs_ndx ve1) STT_OBJECT = Inr vs"
    by blast
  from lo e1 e2 show "symtab_list lo = symtab_list lve" and "num_symbols lo = num_symbols lve"
    and "fstubs_ndx lo = fstubs_ndx lve" and "vstubs_ndx lo = vstubs_ndx lve"
    by (simp_all add: symtab_list_def)
  from lo e1 e2 have ff: "fstubs lo = fs" and vv: "vstubs lo = vs" by simp_all
  from lf ff show "lookup_stub_symbols lve (fstubs lve) (fstubs_ndx lve) STT_FUNC
                     = Inr (fstubs lo)" if "fstubs_ndx lve \<noteq> 0"
    using that by simp
  have "lookup_stub_symbols ve1 (vstubs ve1) (vstubs_ndx ve1) STT_OBJECT
          = lookup_stub_symbols lve (vstubs lve) (vstubs_ndx lve) STT_OBJECT"
    using e1 by (simp add: lookup_stub_symbols_def symtab_list_def)
  with lv vv e1 show "lookup_stub_symbols lve (vstubs lve) (vstubs_ndx lve) STT_OBJECT
                        = Inr (vstubs lo)" if "vstubs_ndx lve \<noteq> 0"
    using that by simp
qed

lemma vita_elf_load_finish:
  assumes "vita_elf_load (Some f) mm = Inr lo"
  shows "\<exists>lve. scan_sections (sections f) 1 (tl (sections f)) zero_elf = Inr lve
             \<and> finish_load mm (phdrs f) lve = Inr lo"
  using assms by (auto simp: vita_elf_load_def split: if_splits sum.splits)

text \<open>The load fails when the linker fails on the function stubs or on the variable stubs.\<close>

lemma load_fails_if_linker_fails:
  fixes lve :: "('l, 'm, 't) vita_elf"
  assumes "scan_sections (sections f) 1 (tl (sections f)) zero_elf = Inr lve"
      and "(fstubs_ndx lve \<noteq> 0
            \<and> isl (lookup_stub_symbols lve (fstubs lve) (fstubs_ndx lve) STT_FUNC))
         \<or> (vstubs_ndx lve \<noteq> 0
            \<and> isl (lookup_stub_symbols lve (vstubs lve) (vstubs_ndx lve) STT_OBJECT))"
  shows "isl (vita_elf_load (Some f) mm :: error + ('l, 'm, 't) vita_elf)"
proof (cases "vita_elf_load (Some f) mm :: error + ('l, 'm, 't) vita_elf")
  case (Inl e)
  then show ?thesis by simp
next
  case (Inr lo)
  from vita_elf_load_finish[OF Inr] assms(1)
  have fin: "finish_load mm (phdrs f) lve = Inr lo" by auto
  from assms(2) finish_load_links(5,6)[OF fin] have False by auto
  then show ?thesis ..
qed

text \<open>After a successful load the stub symbols of both stub sections are linked.\<close>

lemma loaded_stubs_linked:
  assumes "vita_elf_load (Some f) mm = Inr lo"
  shows "fstubs_ndx lo \<noteq> 0 \<Longrightarrow>
           \<exists>st0. lookup_stub_symbols lo st0 (fstubs_ndx lo) STT_FUNC = Inr (fstubs lo)"
    and "vstubs_ndx lo \<noteq> 0 \<Longrightarrow>
           \<exists>st0. lookup_stub_symbols lo st0 (vstubs_ndx lo) STT_OBJECT = Inr (vstubs lo)"
proof -
  from vita_elf_load_finish[OF assms] obtain lve where
    fin: "finish_load mm (phdrs f) lve = Inr lo" by blast
  note l = finish_load_links[OF fin]
  have r: "lookup_stub_symbols lo st0 ndx ty = lookup_stub_symbols lve st0 ndx ty"
    for st0 :: "('a, 'b, 'c) vita_elf_stub list" and ndx ty
    using l(1,2) by (rule lookup_stub_symbols_reads)
  show "\<exists>st0. lookup_stub_symbols lo st0 (fstubs_ndx lo) STT_FUNC = Inr (fstubs lo)"
    if "fstubs_ndx lo \<noteq> 0"
    using that l(3) l(5) r by auto
  show "\<exists>st0. lookup_stub_symbols lo st0 (vstubs_ndx lo) STT_OBJECT = Inr (vstubs lo)"
    if "vstubs_ndx lo \<noteq> 0"
    using that l(4) l(6) r by auto
qed

lemmas stubs_example_defs =
  ex_vstubs_def ex_vstub_def ex_obj_def stubs_file_def ex_symbol_def stubs_scanned_def
  var_on_slot_def vars_on_one_slot_def var_off_slot_def func_off_slot_def stubs_elf_def
  ex_stub_def

lemma stubs_file_scans:
  "scan_sections (sections (stubs_file var_on_slot)) 1 (tl (sections (stubs_file var_on_slot)))
     zero_elf = Inr (stubs_scanned var_on_slot)"
  "scan_sections (sections (stubs_file vars_on_one_slot)) 1
     (tl (sections (stubs_file vars_on_one_slot))) zero_elf = Inr (stubs_scanned vars_on_one_slot)"
  "scan_sections (sections (stubs_file var_off_slot)) 1
     (tl (sections (stubs_file var_off_slot))) zero_elf = Inr (stubs_scanned var_off_slot)"
  "scan_sections (sections (stubs_file func_off_slot)) 1
     (tl (sections (stubs_file func_off_slot))) zero_elf = Inr (stubs_scanned func_off_slot)"
  by (simp_all add: stubs_example_defs file_example_defs load_defs loader_defs upt_rec)

lemma stubs_file_loads: "vita_elf_load (Some (stubs_file var_on_slot)) ex_mmap = Inr stubs_elf"
  by (simp add: stubs_example_defs file_example_defs load_defs loader_defs upt_rec)

text \<open>
  C7.  When the linker succeeds, every global function or object symbol of the stub
  section is bound to the stub slot at its value, and no two of these symbols have the
  same value.  A symbol whose value is the address of no stub makes the linker fail,
  with the diagnostic "not pointing to a valid stub"; a symbol whose slot is bound
  already makes it fail with "duplicate symbols".

  \<open>vita_elf_load\<close> runs the linker on the function-stub section and on the
  variable-stub section.  After a successful load every global function or object
  symbol of the function-stub section is a function symbol bound to the slot of
  \<open>fstubs\<close> at its value, every such symbol of the variable-stub section is an object
  symbol bound to the slot of \<open>vstubs\<close> at its value, and no two symbols of one stub
  section have the same value, so that no slot has two symbols.  The load fails when a
  symbol of a stub section has a value that is the address of no slot of that section,
  and when two symbols of one stub section have the same value; in particular two
  global function symbols of the function-stub section with the same value make
  \<open>vita_elf_load\<close> fail.  After a failed load \<open>main\<close> exits with failure before any
  output stage runs.
\<close>

theorem stub_symbol_linker:
  fixes ve lve lo :: "('l, 'm, 't) vita_elf"
    and fl :: "'db \<Rightarrow> u32 \<Rightarrow> 'l option" and fm :: "'l \<Rightarrow> u32 \<Rightarrow> 'm option"
    and ff :: "'m \<Rightarrow> u32 \<Rightarrow> 't option" and fv :: "'m \<Rightarrow> u32 \<Rightarrow> 't option"
  shows
   "(lookup_stub_symbols ve stubs ndx ty = Inr stubs' \<longrightarrow>
       (\<forall>i < num_symbols ve. stub_symbol ndx (symtab_list ve ! i) \<longrightarrow>
          (\<exists>st. slot_of stubs' (value (symtab_list ve ! i)) = Some st
                \<and> addr st = value (symtab_list ve ! i) \<and> symbol st = Some i))
     \<and> (\<forall>i < num_symbols ve. \<forall>j < num_symbols ve.
          stub_symbol ndx (symtab_list ve ! i) \<and> stub_symbol ndx (symtab_list ve ! j)
          \<and> value (symtab_list ve ! i) = value (symtab_list ve ! j) \<longrightarrow> i = j))
  \<and> (k < num_symbols ve \<and> stub_symbol ndx (symtab_list ve ! k)
      \<and> slot_of stubs (value (symtab_list ve ! k)) = None
      \<longrightarrow> isl (lookup_stub_symbols ve stubs ndx ty))
  \<and> (slot_of stubs (value cursym) = None
      \<longrightarrow> bind_stub syms ndx cursym symndx stubs
            = Inl (Not_a_valid_stub (name cursym) (shndx cursym)))
  \<and> (slot_of stubs (value cursym) = Some bst \<and> symbol bst = Some other
      \<longrightarrow> bind_stub syms ndx cursym symndx stubs
            = Inl (Duplicate_stub_symbols (value cursym) ndx (name (syms ! other)) (name cursym)))
  \<and> (vita_elf_load (Some f) mm = Inr lo \<longrightarrow>
       (\<forall>i < num_symbols lo.
          fstubs_ndx lo \<noteq> 0 \<and> stub_symbol (fstubs_ndx lo) (symtab_list lo ! i) \<longrightarrow>
            symtype (symtab_list lo ! i) = STT_FUNC
            \<and> (\<exists>st. slot_of (fstubs lo) (value (symtab_list lo ! i)) = Some st
                    \<and> addr st = value (symtab_list lo ! i) \<and> symbol st = Some i))
     \<and> (\<forall>i < num_symbols lo.
          vstubs_ndx lo \<noteq> 0 \<and> stub_symbol (vstubs_ndx lo) (symtab_list lo ! i) \<longrightarrow>
            symtype (symtab_list lo ! i) = STT_OBJECT
            \<and> (\<exists>st. slot_of (vstubs lo) (value (symtab_list lo ! i)) = Some st
                    \<and> addr st = value (symtab_list lo ! i) \<and> symbol st = Some i))
     \<and> (\<forall>i < num_symbols lo. \<forall>j < num_symbols lo.
          ((fstubs_ndx lo \<noteq> 0 \<and> stub_symbol (fstubs_ndx lo) (symtab_list lo ! i)
            \<and> stub_symbol (fstubs_ndx lo) (symtab_list lo ! j))
           \<or> (vstubs_ndx lo \<noteq> 0 \<and> stub_symbol (vstubs_ndx lo) (symtab_list lo ! i)
              \<and> stub_symbol (vstubs_ndx lo) (symtab_list lo ! j)))
          \<and> value (symtab_list lo ! i) = value (symtab_list lo ! j) \<longrightarrow> i = j))
  \<and> (scan_sections (sections f) 1 (tl (sections f)) zero_elf = Inr lve
      \<and> n < num_symbols lve
      \<and> ((fstubs_ndx lve \<noteq> 0 \<and> stub_symbol (fstubs_ndx lve) (symtab_list lve ! n)
          \<and> slot_of (fstubs lve) (value (symtab_list lve ! n)) = None)
         \<or> (vstubs_ndx lve \<noteq> 0 \<and> stub_symbol (vstubs_ndx lve) (symtab_list lve ! n)
            \<and> slot_of (vstubs lve) (value (symtab_list lve ! n)) = None))
      \<longrightarrow> isl (vita_elf_load (Some f) mm :: error + ('l, 'm, 't) vita_elf))
  \<and> (scan_sections (sections f) 1 (tl (sections f)) zero_elf = Inr lve
      \<and> a < num_symbols lve \<and> b < num_symbols lve \<and> a \<noteq> b
      \<and> value (symtab_list lve ! a) = value (symtab_list lve ! b)
      \<and> ((fstubs_ndx lve \<noteq> 0 \<and> stub_symbol (fstubs_ndx lve) (symtab_list lve ! a)
          \<and> stub_symbol (fstubs_ndx lve) (symtab_list lve ! b))
         \<or> (vstubs_ndx lve \<noteq> 0 \<and> stub_symbol (vstubs_ndx lve) (symtab_list lve ! a)
            \<and> stub_symbol (vstubs_ndx lve) (symtab_list lve ! b)))
      \<longrightarrow> isl (vita_elf_load (Some f) mm :: error + ('l, 'm, 't) vita_elf))
  \<and> (scan_sections (sections f) 1 (tl (sections f)) zero_elf = Inr lve
      \<and> fstubs_ndx lve \<noteq> 0 \<and> a < num_symbols lve \<and> b < num_symbols lve \<and> a \<noteq> b
      \<and> binding (symtab_list lve ! a) = STB_GLOBAL \<and> symtype (symtab_list lve ! a) = STT_FUNC
      \<and> shndx (symtab_list lve ! a) = fstubs_ndx lve
      \<and> binding (symtab_list lve ! b) = STB_GLOBAL \<and> symtype (symtab_list lve ! b) = STT_FUNC
      \<and> shndx (symtab_list lve ! b) = fstubs_ndx lve
      \<and> value (symtab_list lve ! a) = value (symtab_list lve ! b)
      \<longrightarrow> isl (vita_elf_load (Some f) mm :: error + ('l, 'm, 't) vita_elf))
  \<and> (isl (vita_elf_load (input env) (mmap_result env) :: error + ('l, 'm, 't) vita_elf)
      \<longrightarrow> status (main fl fm ff fv env) = EXIT_FAILURE
          \<and> stages_done (main fl fm ff fv env) = []
          \<and> \<not> output_written (main fl fm ff fv env))"
proof -
  have unique: "i = j"
    if s: "lookup_stub_symbols ve stubs ndx ty = Inr stubs'"
      and "i < num_symbols ve" and "j < num_symbols ve"
      and "stub_symbol ndx (symtab_list ve ! i)" and "stub_symbol ndx (symtab_list ve ! j)"
      and "value (symtab_list ve ! i) = value (symtab_list ve ! j)" for i j
  proof (rule ccontr)
    assume "i \<noteq> j"
    from lookup_stub_symbols_fails_on_shared_slot[OF that(2,3) this that(4-6), of stubs ty] s
    show False by simp
  qed
  have c1: "lookup_stub_symbols ve stubs ndx ty = Inr stubs' \<longrightarrow>
       (\<forall>i < num_symbols ve. stub_symbol ndx (symtab_list ve ! i) \<longrightarrow>
          (\<exists>st. slot_of stubs' (value (symtab_list ve ! i)) = Some st
                \<and> addr st = value (symtab_list ve ! i) \<and> symbol st = Some i))
     \<and> (\<forall>i < num_symbols ve. \<forall>j < num_symbols ve.
          stub_symbol ndx (symtab_list ve ! i) \<and> stub_symbol ndx (symtab_list ve ! j)
          \<and> value (symtab_list ve ! i) = value (symtab_list ve ! j) \<longrightarrow> i = j)"
    using lookup_stub_symbols_binds(2)[of ve stubs ndx ty stubs'] unique by blast
  have c2: "k < num_symbols ve \<and> stub_symbol ndx (symtab_list ve ! k)
      \<and> slot_of stubs (value (symtab_list ve ! k)) = None
      \<longrightarrow> isl (lookup_stub_symbols ve stubs ndx ty)"
    using lookup_stub_symbols_fails_without_slot[of k ve ndx stubs ty] by blast
  have c3: "slot_of stubs (value cursym) = None
      \<longrightarrow> bind_stub syms ndx cursym symndx stubs
            = Inl (Not_a_valid_stub (name cursym) (shndx cursym))"
    using bind_stub_no_slot[of stubs cursym syms ndx symndx] by blast
  have c4: "slot_of stubs (value cursym) = Some bst \<and> symbol bst = Some other
      \<longrightarrow> bind_stub syms ndx cursym symndx stubs
            = Inl (Duplicate_stub_symbols (value cursym) ndx (name (syms ! other)) (name cursym))"
    using bind_stub_bound_slot[of stubs cursym bst other syms ndx symndx] by blast
  have c5: "vita_elf_load (Some f) mm = Inr lo \<longrightarrow>
       (\<forall>i < num_symbols lo.
          fstubs_ndx lo \<noteq> 0 \<and> stub_symbol (fstubs_ndx lo) (symtab_list lo ! i) \<longrightarrow>
            symtype (symtab_list lo ! i) = STT_FUNC
            \<and> (\<exists>st. slot_of (fstubs lo) (value (symtab_list lo ! i)) = Some st
                    \<and> addr st = value (symtab_list lo ! i) \<and> symbol st = Some i))
     \<and> (\<forall>i < num_symbols lo.
          vstubs_ndx lo \<noteq> 0 \<and> stub_symbol (vstubs_ndx lo) (symtab_list lo ! i) \<longrightarrow>
            symtype (symtab_list lo ! i) = STT_OBJECT
            \<and> (\<exists>st. slot_of (vstubs lo) (value (symtab_list lo ! i)) = Some st
                    \<and> addr st = value (symtab_list lo ! i) \<and> symbol st = Some i))
     \<and> (\<forall>i < num_symbols lo. \<forall>j < num_symbols lo.
          ((fstubs_ndx lo \<noteq> 0 \<and> stub_symbol (fstubs_ndx lo) (symtab_list lo ! i)
            \<and> stub_symbol (fstubs_ndx lo) (symtab_list lo ! j))
           \<or> (vstubs_ndx lo \<noteq> 0 \<and> stub_symbol (vstubs_ndx lo) (symtab_list lo ! i)
              \<and> stub_symbol (vstubs_ndx lo) (symtab_list lo ! j)))
          \<and> value (symtab_list lo ! i) = value (symtab_list lo ! j) \<longrightarrow> i = j)"
  proof
    assume ld: "vita_elf_load (Some f) mm = Inr lo"
    note lk = loaded_stubs_linked[OF ld]
    have pf: "symtype (symtab_list lo ! i) = STT_FUNC
            \<and> (\<exists>st. slot_of (fstubs lo) (value (symtab_list lo ! i)) = Some st
                    \<and> addr st = value (symtab_list lo ! i) \<and> symbol st = Some i)"
      if "i < num_symbols lo" and z: "fstubs_ndx lo \<noteq> 0"
        and q: "stub_symbol (fstubs_ndx lo) (symtab_list lo ! i)" for i
    proof -
      from lk(1)[OF z] obtain st0 where
        "lookup_stub_symbols lo st0 (fstubs_ndx lo) STT_FUNC = Inr (fstubs lo)" by blast
      from lookup_stub_symbols_binds[OF this that(1) q] show ?thesis by blast
    qed
    have pv: "symtype (symtab_list lo ! i) = STT_OBJECT
            \<and> (\<exists>st. slot_of (vstubs lo) (value (symtab_list lo ! i)) = Some st
                    \<and> addr st = value (symtab_list lo ! i) \<and> symbol st = Some i)"
      if "i < num_symbols lo" and z: "vstubs_ndx lo \<noteq> 0"
        and q: "stub_symbol (vstubs_ndx lo) (symtab_list lo ! i)" for i
    proof -
      from lk(2)[OF z] obtain st0 where
        "lookup_stub_symbols lo st0 (vstubs_ndx lo) STT_OBJECT = Inr (vstubs lo)" by blast
      from lookup_stub_symbols_binds[OF this that(1) q] show ?thesis by blast
    qed
    have pu: "i = j"
      if i: "i < num_symbols lo" and j: "j < num_symbols lo"
        and d: "(fstubs_ndx lo \<noteq> 0 \<and> stub_symbol (fstubs_ndx lo) (symtab_list lo ! i)
                 \<and> stub_symbol (fstubs_ndx lo) (symtab_list lo ! j))
              \<or> (vstubs_ndx lo \<noteq> 0 \<and> stub_symbol (vstubs_ndx lo) (symtab_list lo ! i)
                 \<and> stub_symbol (vstubs_ndx lo) (symtab_list lo ! j))"
        and e: "value (symtab_list lo ! i) = value (symtab_list lo ! j)" for i j
    proof (rule ccontr)
      assume ne: "i \<noteq> j"
      from d show False
      proof
        assume h: "fstubs_ndx lo \<noteq> 0 \<and> stub_symbol (fstubs_ndx lo) (symtab_list lo ! i)
                   \<and> stub_symbol (fstubs_ndx lo) (symtab_list lo ! j)"
        then obtain st0 where
          s: "lookup_stub_symbols lo st0 (fstubs_ndx lo) STT_FUNC = Inr (fstubs lo)"
          using lk(1) by blast
        from h have qi: "stub_symbol (fstubs_ndx lo) (symtab_list lo ! i)"
          and qj: "stub_symbol (fstubs_ndx lo) (symtab_list lo ! j)" by simp_all
        from lookup_stub_symbols_fails_on_shared_slot[OF i j ne qi qj e, of st0 STT_FUNC] s
        show False by simp
      next
        assume h: "vstubs_ndx lo \<noteq> 0 \<and> stub_symbol (vstubs_ndx lo) (symtab_list lo ! i)
                   \<and> stub_symbol (vstubs_ndx lo) (symtab_list lo ! j)"
        then obtain st0 where
          s: "lookup_stub_symbols lo st0 (vstubs_ndx lo) STT_OBJECT = Inr (vstubs lo)"
          using lk(2) by blast
        from h have qi: "stub_symbol (vstubs_ndx lo) (symtab_list lo ! i)"
          and qj: "stub_symbol (vstubs_ndx lo) (symtab_list lo ! j)" by simp_all
        from lookup_stub_symbols_fails_on_shared_slot[OF i j ne qi qj e, of st0 STT_OBJECT] s
        show False by simp
      qed
    qed
    from pf pv pu show "(\<forall>i < num_symbols lo.
          fstubs_ndx lo \<noteq> 0 \<and> stub_symbol (fstubs_ndx lo) (symtab_list lo ! i) \<longrightarrow>
            symtype (symtab_list lo ! i) = STT_FUNC
            \<and> (\<exists>st. slot_of (fstubs lo) (value (symtab_list lo ! i)) = Some st
                    \<and> addr st = value (symtab_list lo ! i) \<and> symbol st = Some i))
     \<and> (\<forall>i < num_symbols lo.
          vstubs_ndx lo \<noteq> 0 \<and> stub_symbol (vstubs_ndx lo) (symtab_list lo ! i) \<longrightarrow>
            symtype (symtab_list lo ! i) = STT_OBJECT
            \<and> (\<exists>st. slot_of (vstubs lo) (value (symtab_list lo ! i)) = Some st
                    \<and> addr st = value (symtab_list lo ! i) \<and> symbol st = Some i))
     \<and> (\<forall>i < num_symbols lo. \<forall>j < num_symbols lo.
          ((fstubs_ndx lo \<noteq> 0 \<and> stub_symbol (fstubs_ndx lo) (symtab_list lo ! i)
            \<and> stub_symbol (fstubs_ndx lo) (symtab_list lo ! j))
           \<or> (vstubs_ndx lo \<noteq> 0 \<and> stub_symbol (vstubs_ndx lo) (symtab_list lo ! i)
              \<and> stub_symbol (vstubs_ndx lo) (symtab_list lo ! j)))
          \<and> value (symtab_list lo ! i) = value (symtab_list lo ! j) \<longrightarrow> i = j)"
      by blast
  qed
  have c6: "scan_sections (sections f) 1 (tl (sections f)) zero_elf = Inr lve
      \<and> n < num_symbols lve
      \<and> ((fstubs_ndx lve \<noteq> 0 \<and> stub_symbol (fstubs_ndx lve) (symtab_list lve ! n)
          \<and> slot_of (fstubs lve) (value (symtab_list lve ! n)) = None)
         \<or> (vstubs_ndx lve \<noteq> 0 \<and> stub_symbol (vstubs_ndx lve) (symtab_list lve ! n)
            \<and> slot_of (vstubs lve) (value (symtab_list lve ! n)) = None))
      \<longrightarrow> isl (vita_elf_load (Some f) mm :: error + ('l, 'm, 't) vita_elf)"
  proof
    assume h: "scan_sections (sections f) 1 (tl (sections f)) zero_elf = Inr lve
      \<and> n < num_symbols lve
      \<and> ((fstubs_ndx lve \<noteq> 0 \<and> stub_symbol (fstubs_ndx lve) (symtab_list lve ! n)
          \<and> slot_of (fstubs lve) (value (symtab_list lve ! n)) = None)
         \<or> (vstubs_ndx lve \<noteq> 0 \<and> stub_symbol (vstubs_ndx lve) (symtab_list lve ! n)
            \<and> slot_of (vstubs lve) (value (symtab_list lve ! n)) = None))"
    then have sc: "scan_sections (sections f) 1 (tl (sections f)) zero_elf = Inr lve"
      and n: "n < num_symbols lve" by simp_all
    from h n lookup_stub_symbols_fails_without_slot[of n lve "fstubs_ndx lve" "fstubs lve" STT_FUNC]
      lookup_stub_symbols_fails_without_slot[of n lve "vstubs_ndx lve" "vstubs lve" STT_OBJECT]
    have "(fstubs_ndx lve \<noteq> 0
            \<and> isl (lookup_stub_symbols lve (fstubs lve) (fstubs_ndx lve) STT_FUNC))
         \<or> (vstubs_ndx lve \<noteq> 0
            \<and> isl (lookup_stub_symbols lve (vstubs lve) (vstubs_ndx lve) STT_OBJECT))"
      by blast
    from load_fails_if_linker_fails[OF sc this]
    show "isl (vita_elf_load (Some f) mm :: error + ('l, 'm, 't) vita_elf)" .
  qed
  have c7: "scan_sections (sections f) 1 (tl (sections f)) zero_elf = Inr lve
      \<and> a < num_symbols lve \<and> b < num_symbols lve \<and> a \<noteq> b
      \<and> value (symtab_list lve ! a) = value (symtab_list lve ! b)
      \<and> ((fstubs_ndx lve \<noteq> 0 \<and> stub_symbol (fstubs_ndx lve) (symtab_list lve ! a)
          \<and> stub_symbol (fstubs_ndx lve) (symtab_list lve ! b))
         \<or> (vstubs_ndx lve \<noteq> 0 \<and> stub_symbol (vstubs_ndx lve) (symtab_list lve ! a)
            \<and> stub_symbol (vstubs_ndx lve) (symtab_list lve ! b)))
      \<longrightarrow> isl (vita_elf_load (Some f) mm :: error + ('l, 'm, 't) vita_elf)"
  proof
    assume h: "scan_sections (sections f) 1 (tl (sections f)) zero_elf = Inr lve
      \<and> a < num_symbols lve \<and> b < num_symbols lve \<and> a \<noteq> b
      \<and> value (symtab_list lve ! a) = value (symtab_list lve ! b)
      \<and> ((fstubs_ndx lve \<noteq> 0 \<and> stub_symbol (fstubs_ndx lve) (symtab_list lve ! a)
          \<and> stub_symbol (fstubs_ndx lve) (symtab_list lve ! b))
         \<or> (vstubs_ndx lve \<noteq> 0 \<and> stub_symbol (vstubs_ndx lve) (symtab_list lve ! a)
            \<and> stub_symbol (vstubs_ndx lve) (symtab_list lve ! b)))"
    then have sc: "scan_sections (sections f) 1 (tl (sections f)) zero_elf = Inr lve"
      and a: "a < num_symbols lve" and b: "b < num_symbols lve" and ne: "a \<noteq> b"
      and e: "value (symtab_list lve ! a) = value (symtab_list lve ! b)" by simp_all
    from h
      lookup_stub_symbols_fails_on_shared_slot[OF a b ne _ _ e, of "fstubs_ndx lve" "fstubs lve" STT_FUNC]
      lookup_stub_symbols_fails_on_shared_slot[OF a b ne _ _ e, of "vstubs_ndx lve" "vstubs lve" STT_OBJECT]
    have "(fstubs_ndx lve \<noteq> 0
            \<and> isl (lookup_stub_symbols lve (fstubs lve) (fstubs_ndx lve) STT_FUNC))
         \<or> (vstubs_ndx lve \<noteq> 0
            \<and> isl (lookup_stub_symbols lve (vstubs lve) (vstubs_ndx lve) STT_OBJECT))"
      by blast
    from load_fails_if_linker_fails[OF sc this]
    show "isl (vita_elf_load (Some f) mm :: error + ('l, 'm, 't) vita_elf)" .
  qed
  have c8: "scan_sections (sections f) 1 (tl (sections f)) zero_elf = Inr lve
      \<and> fstubs_ndx lve \<noteq> 0 \<and> a < num_symbols lve \<and> b < num_symbols lve \<and> a \<noteq> b
      \<and> binding (symtab_list lve ! a) = STB_GLOBAL \<and> symtype (symtab_list lve ! a) = STT_FUNC
      \<and> shndx (symtab_list lve ! a) = fstubs_ndx lve
      \<and> binding (symtab_list lve ! b) = STB_GLOBAL \<and> symtype (symtab_list lve ! b) = STT_FUNC
      \<and> shndx (symtab_list lve ! b) = fstubs_ndx lve
      \<and> value (symtab_list lve ! a) = value (symtab_list lve ! b)
      \<longrightarrow> isl (vita_elf_load (Some f) mm :: error + ('l, 'm, 't) vita_elf)"
    using load_fails_on_shared_fstub[of f lve a b mm] by blast
  have c9: "isl (vita_elf_load (input env) (mmap_result env) :: error + ('l, 'm, 't) vita_elf)
      \<longrightarrow> status (main fl fm ff fv env) = EXIT_FAILURE
          \<and> stages_done (main fl fm ff fv env) = []
          \<and> \<not> output_written (main fl fm ff fv env)"
    using main_load_failure[of env fl fm ff fv] by blast
  from c1 c2 c3 c4 c5 c6 c7 c8 c9 show ?thesis by (intro conjI)
qed

theorem stub_symbol_linker_witness:
  "lookup_stub_symbols good_elf [ex_stub] 2 STT_FUNC = Inr [ex_stub\<lparr>symbol := Some 0\<rparr>]
   \<and> slot_of [ex_stub\<lparr>symbol := Some 0\<rparr>] 0x82000 = Some (ex_stub\<lparr>symbol := Some 0\<rparr>)
   \<and> isl (lookup_stub_symbols good_elf ([] :: (ex_library, ex_module, u32) vita_elf_stub list)
            2 STT_FUNC)
   \<and> vita_elf_load (Some (stubs_file var_on_slot)) ex_mmap = Inr stubs_elf
   \<and> slot_of (fstubs stubs_elf) 0x82000 = Some (ex_stub\<lparr>symbol := Some 0\<rparr>)
   \<and> slot_of (vstubs stubs_elf) 0x83000 = Some (ex_vstub\<lparr>symbol := Some 1\<rparr>)
   \<and> isl (vita_elf_load (Some (stubs_file func_off_slot)) ex_mmap
            :: error + (ex_library, ex_module, u32) vita_elf)
   \<and> isl (vita_elf_load (Some (stubs_file var_off_slot)) ex_mmap
            :: error + (ex_library, ex_module, u32) vita_elf)
   \<and> isl (vita_elf_load (Some (stubs_file vars_on_one_slot)) ex_mmap
            :: error + (ex_library, ex_module, u32) vita_elf)
   \<and> isl (vita_elf_load (Some S6_file) ex_mmap :: error + (ex_library, ex_module, u32) vita_elf)
   \<and> status (ex_main (ex_env S6_file ex_db_complete)) = EXIT_FAILURE
   \<and> stages_done (ex_main (ex_env S6_file ex_db_complete)) = []
   \<and> \<not> output_written (ex_main (ex_env S6_file ex_db_complete))"
proof -
  let ?env = "ex_env S6_file ex_db_complete"
  note t = stub_symbol_linker[where ve = good_elf and stubs = "[ex_stub]" and ndx = 2
             and ty = STT_FUNC and stubs' = "[ex_stub\<lparr>symbol := Some 0\<rparr>]"
             and f = S6_file and lve = S6_scanned and a = 0 and b = 1 and mm = ex_mmap
             and env = ?env and fl = ex_find_lib and fm = ex_find_module
             and ff = ex_find_function and fv = ex_find_variable]
  have ok: "lookup_stub_symbols good_elf [ex_stub] 2 STT_FUNC = Inr [ex_stub\<lparr>symbol := Some 0\<rparr>]"
    by (simp add: lookup_stub_symbols_def link_symbol_def good_elf_def symtab_list_def
          ex_stub_def upt_rec)
  have q: "0 < num_symbols good_elf \<and> stub_symbol 2 (symtab_list good_elf ! 0)"
    by (simp add: good_elf_def symtab_list_def stub_symbol_def)
  from t[THEN conjunct1, THEN mp, OF ok, THEN conjunct1] q
  have "\<exists>st. slot_of [ex_stub\<lparr>symbol := Some 0\<rparr>] (value (symtab_list good_elf ! 0)) = Some st
             \<and> addr st = value (symtab_list good_elf ! 0) \<and> symbol st = Some 0"
    by blast
  then have bound: "slot_of [ex_stub\<lparr>symbol := Some 0\<rparr>] 0x82000
                      = Some (ex_stub\<lparr>symbol := Some 0\<rparr>)"
    by (simp add: good_elf_def symtab_list_def slot_of_def ex_stub_def)
  have n: "0 < num_symbols good_elf \<and> stub_symbol 2 (symtab_list good_elf ! 0)
           \<and> slot_of ([] :: (ex_library, ex_module, u32) vita_elf_stub list)
                (value (symtab_list good_elf ! 0)) = None"
    by (simp add: good_elf_def symtab_list_def stub_symbol_def slot_of_def)
  from stub_symbol_linker[where ve = good_elf
         and stubs = "[] :: (ex_library, ex_module, u32) vita_elf_stub list" and ndx = 2
         and ty = STT_FUNC and k = 0, THEN conjunct2, THEN conjunct1, THEN mp, OF n]
  have none: "isl (lookup_stub_symbols good_elf
                     ([] :: (ex_library, ex_module, u32) vita_elf_stub list) 2 STT_FUNC)" .
  note ld = stubs_file_loads
  note u = stub_symbol_linker[where f = "stubs_file var_on_slot" and mm = ex_mmap
             and lo = stubs_elf, THEN conjunct2, THEN conjunct2, THEN conjunct2, THEN conjunct2,
             THEN conjunct1, THEN mp, OF ld]
  have qf: "0 < num_symbols stubs_elf \<and> fstubs_ndx stubs_elf \<noteq> 0
            \<and> stub_symbol (fstubs_ndx stubs_elf) (symtab_list stubs_elf ! 0)"
    by (simp add: stubs_example_defs ex_sym_def symtab_list_def stub_symbol_def)
  have qv: "1 < num_symbols stubs_elf \<and> vstubs_ndx stubs_elf \<noteq> 0
            \<and> stub_symbol (vstubs_ndx stubs_elf) (symtab_list stubs_elf ! 1)"
    by (simp add: stubs_example_defs ex_sym_def symtab_list_def stub_symbol_def)
  from u[THEN conjunct1] qf
  have "\<exists>st. slot_of (fstubs stubs_elf) (value (symtab_list stubs_elf ! 0)) = Some st
             \<and> addr st = value (symtab_list stubs_elf ! 0) \<and> symbol st = Some 0"
    by blast
  then have fbound: "slot_of (fstubs stubs_elf) 0x82000 = Some (ex_stub\<lparr>symbol := Some 0\<rparr>)"
    by (simp add: stubs_example_defs ex_sym_def symtab_list_def slot_of_def)
  from u[THEN conjunct2, THEN conjunct1] qv
  have "\<exists>st. slot_of (vstubs stubs_elf) (value (symtab_list stubs_elf ! 1)) = Some st
             \<and> addr st = value (symtab_list stubs_elf ! 1) \<and> symbol st = Some 1"
    by blast
  then have vbound: "slot_of (vstubs stubs_elf) 0x83000 = Some (ex_vstub\<lparr>symbol := Some 1\<rparr>)"
    by (simp add: stubs_example_defs ex_sym_def symtab_list_def slot_of_def)
  have f0: "1 < num_symbols (stubs_scanned func_off_slot)
      \<and> ((fstubs_ndx (stubs_scanned func_off_slot) \<noteq> 0
          \<and> stub_symbol (fstubs_ndx (stubs_scanned func_off_slot))
              (symtab_list (stubs_scanned func_off_slot) ! 1)
          \<and> slot_of (fstubs (stubs_scanned func_off_slot))
              (value (symtab_list (stubs_scanned func_off_slot) ! 1)) = None)
         \<or> (vstubs_ndx (stubs_scanned func_off_slot) \<noteq> 0
            \<and> stub_symbol (vstubs_ndx (stubs_scanned func_off_slot))
                (symtab_list (stubs_scanned func_off_slot) ! 1)
            \<and> slot_of (vstubs (stubs_scanned func_off_slot))
                (value (symtab_list (stubs_scanned func_off_slot) ! 1)) = None))"
    by (simp add: stubs_example_defs ex_sym_def symtab_list_def stub_symbol_def slot_of_def)
  have f1: "scan_sections (sections (stubs_file func_off_slot)) 1
              (tl (sections (stubs_file func_off_slot))) zero_elf
              = Inr (stubs_scanned func_off_slot)
      \<and> 1 < num_symbols (stubs_scanned func_off_slot)
      \<and> ((fstubs_ndx (stubs_scanned func_off_slot) \<noteq> 0
          \<and> stub_symbol (fstubs_ndx (stubs_scanned func_off_slot))
              (symtab_list (stubs_scanned func_off_slot) ! 1)
          \<and> slot_of (fstubs (stubs_scanned func_off_slot))
              (value (symtab_list (stubs_scanned func_off_slot) ! 1)) = None)
         \<or> (vstubs_ndx (stubs_scanned func_off_slot) \<noteq> 0
            \<and> stub_symbol (vstubs_ndx (stubs_scanned func_off_slot))
                (symtab_list (stubs_scanned func_off_slot) ! 1)
            \<and> slot_of (vstubs (stubs_scanned func_off_slot))
                (value (symtab_list (stubs_scanned func_off_slot) ! 1)) = None))"
    using stubs_file_scans(4) f0 by (rule conjI)
  from stub_symbol_linker[where f = "stubs_file func_off_slot" and mm = ex_mmap
         and lve = "stubs_scanned func_off_slot" and n = 1,
         THEN conjunct2, THEN conjunct2, THEN conjunct2, THEN conjunct2, THEN conjunct2,
         THEN conjunct1, THEN mp, OF f1]
  have foff: "isl (vita_elf_load (Some (stubs_file func_off_slot)) ex_mmap
                     :: error + (ex_library, ex_module, u32) vita_elf)" .
  have v0: "1 < num_symbols (stubs_scanned var_off_slot)
      \<and> ((fstubs_ndx (stubs_scanned var_off_slot) \<noteq> 0
          \<and> stub_symbol (fstubs_ndx (stubs_scanned var_off_slot))
              (symtab_list (stubs_scanned var_off_slot) ! 1)
          \<and> slot_of (fstubs (stubs_scanned var_off_slot))
              (value (symtab_list (stubs_scanned var_off_slot) ! 1)) = None)
         \<or> (vstubs_ndx (stubs_scanned var_off_slot) \<noteq> 0
            \<and> stub_symbol (vstubs_ndx (stubs_scanned var_off_slot))
                (symtab_list (stubs_scanned var_off_slot) ! 1)
            \<and> slot_of (vstubs (stubs_scanned var_off_slot))
                (value (symtab_list (stubs_scanned var_off_slot) ! 1)) = None))"
    by (simp add: stubs_example_defs ex_sym_def symtab_list_def stub_symbol_def slot_of_def)
  have v1: "scan_sections (sections (stubs_file var_off_slot)) 1
              (tl (sections (stubs_file var_off_slot))) zero_elf
              = Inr (stubs_scanned var_off_slot)
      \<and> 1 < num_symbols (stubs_scanned var_off_slot)
      \<and> ((fstubs_ndx (stubs_scanned var_off_slot) \<noteq> 0
          \<and> stub_symbol (fstubs_ndx (stubs_scanned var_off_slot))
              (symtab_list (stubs_scanned var_off_slot) ! 1)
          \<and> slot_of (fstubs (stubs_scanned var_off_slot))
              (value (symtab_list (stubs_scanned var_off_slot) ! 1)) = None)
         \<or> (vstubs_ndx (stubs_scanned var_off_slot) \<noteq> 0
            \<and> stub_symbol (vstubs_ndx (stubs_scanned var_off_slot))
                (symtab_list (stubs_scanned var_off_slot) ! 1)
            \<and> slot_of (vstubs (stubs_scanned var_off_slot))
                (value (symtab_list (stubs_scanned var_off_slot) ! 1)) = None))"
    using stubs_file_scans(3) v0 by (rule conjI)
  from stub_symbol_linker[where f = "stubs_file var_off_slot" and mm = ex_mmap
         and lve = "stubs_scanned var_off_slot" and n = 1,
         THEN conjunct2, THEN conjunct2, THEN conjunct2, THEN conjunct2, THEN conjunct2,
         THEN conjunct1, THEN mp, OF v1]
  have voff: "isl (vita_elf_load (Some (stubs_file var_off_slot)) ex_mmap
                     :: error + (ex_library, ex_module, u32) vita_elf)" .
  have d0: "1 < num_symbols (stubs_scanned vars_on_one_slot)
      \<and> 2 < num_symbols (stubs_scanned vars_on_one_slot) \<and> (1 :: nat) \<noteq> 2
      \<and> value (symtab_list (stubs_scanned vars_on_one_slot) ! 1)
          = value (symtab_list (stubs_scanned vars_on_one_slot) ! 2)
      \<and> ((fstubs_ndx (stubs_scanned vars_on_one_slot) \<noteq> 0
          \<and> stub_symbol (fstubs_ndx (stubs_scanned vars_on_one_slot))
              (symtab_list (stubs_scanned vars_on_one_slot) ! 1)
          \<and> stub_symbol (fstubs_ndx (stubs_scanned vars_on_one_slot))
              (symtab_list (stubs_scanned vars_on_one_slot) ! 2))
         \<or> (vstubs_ndx (stubs_scanned vars_on_one_slot) \<noteq> 0
            \<and> stub_symbol (vstubs_ndx (stubs_scanned vars_on_one_slot))
                (symtab_list (stubs_scanned vars_on_one_slot) ! 1)
            \<and> stub_symbol (vstubs_ndx (stubs_scanned vars_on_one_slot))
                (symtab_list (stubs_scanned vars_on_one_slot) ! 2)))"
    by (simp add: stubs_example_defs ex_sym_def symtab_list_def stub_symbol_def)
  have d1: "scan_sections (sections (stubs_file vars_on_one_slot)) 1
              (tl (sections (stubs_file vars_on_one_slot))) zero_elf
              = Inr (stubs_scanned vars_on_one_slot)
      \<and> 1 < num_symbols (stubs_scanned vars_on_one_slot)
      \<and> 2 < num_symbols (stubs_scanned vars_on_one_slot) \<and> (1 :: nat) \<noteq> 2
      \<and> value (symtab_list (stubs_scanned vars_on_one_slot) ! 1)
          = value (symtab_list (stubs_scanned vars_on_one_slot) ! 2)
      \<and> ((fstubs_ndx (stubs_scanned vars_on_one_slot) \<noteq> 0
          \<and> stub_symbol (fstubs_ndx (stubs_scanned vars_on_one_slot))
              (symtab_list (stubs_scanned vars_on_one_slot) ! 1)
          \<and> stub_symbol (fstubs_ndx (stubs_scanned vars_on_one_slot))
              (symtab_list (stubs_scanned vars_on_one_slot) ! 2))
         \<or> (vstubs_ndx (stubs_scanned vars_on_one_slot) \<noteq> 0
            \<and> stub_symbol (vstubs_ndx (stubs_scanned vars_on_one_slot))
                (symtab_list (stubs_scanned vars_on_one_slot) ! 1)
            \<and> stub_symbol (vstubs_ndx (stubs_scanned vars_on_one_slot))
                (symtab_list (stubs_scanned vars_on_one_slot) ! 2)))"
    using stubs_file_scans(2) d0 by (rule conjI)
  from stub_symbol_linker[where f = "stubs_file vars_on_one_slot" and mm = ex_mmap
         and lve = "stubs_scanned vars_on_one_slot" and a = 1 and b = 2,
         THEN conjunct2, THEN conjunct2, THEN conjunct2, THEN conjunct2, THEN conjunct2,
         THEN conjunct2, THEN conjunct1, THEN mp, OF d1]
  have vdup: "isl (vita_elf_load (Some (stubs_file vars_on_one_slot)) ex_mmap
                     :: error + (ex_library, ex_module, u32) vita_elf)" .
  have h0: "fstubs_ndx S6_scanned \<noteq> 0 \<and> 0 < num_symbols S6_scanned \<and> 1 < num_symbols S6_scanned
      \<and> (0 :: nat) \<noteq> 1
      \<and> binding (symtab_list S6_scanned ! 0) = STB_GLOBAL
      \<and> symtype (symtab_list S6_scanned ! 0) = STT_FUNC
      \<and> shndx (symtab_list S6_scanned ! 0) = fstubs_ndx S6_scanned
      \<and> binding (symtab_list S6_scanned ! 1) = STB_GLOBAL
      \<and> symtype (symtab_list S6_scanned ! 1) = STT_FUNC
      \<and> shndx (symtab_list S6_scanned ! 1) = fstubs_ndx S6_scanned
      \<and> value (symtab_list S6_scanned ! 0) = value (symtab_list S6_scanned ! 1)"
    by (simp add: S6_scanned_def symtab_list_def)
  have h: "scan_sections (sections S6_file) 1 (tl (sections S6_file)) zero_elf = Inr S6_scanned
      \<and> fstubs_ndx S6_scanned \<noteq> 0 \<and> 0 < num_symbols S6_scanned \<and> 1 < num_symbols S6_scanned
      \<and> (0 :: nat) \<noteq> 1
      \<and> binding (symtab_list S6_scanned ! 0) = STB_GLOBAL
      \<and> symtype (symtab_list S6_scanned ! 0) = STT_FUNC
      \<and> shndx (symtab_list S6_scanned ! 0) = fstubs_ndx S6_scanned
      \<and> binding (symtab_list S6_scanned ! 1) = STB_GLOBAL
      \<and> symtype (symtab_list S6_scanned ! 1) = STT_FUNC
      \<and> shndx (symtab_list S6_scanned ! 1) = fstubs_ndx S6_scanned
      \<and> value (symtab_list S6_scanned ! 0) = value (symtab_list S6_scanned ! 1)"
    using S6_file_scans h0 by (rule conjI)
  from t[THEN conjunct2, THEN conjunct2, THEN conjunct2, THEN conjunct2, THEN conjunct2,
         THEN conjunct2, THEN conjunct2, THEN conjunct1, THEN mp, OF h]
  have fails: "isl (vita_elf_load (Some S6_file) ex_mmap
                      :: error + (ex_library, ex_module, u32) vita_elf)" .
  then have "isl (vita_elf_load (input ?env) (mmap_result ?env)
                      :: error + (ex_library, ex_module, u32) vita_elf)"
    by (simp add: ex_env_def)
  from t[THEN conjunct2, THEN conjunct2, THEN conjunct2, THEN conjunct2, THEN conjunct2,
         THEN conjunct2, THEN conjunct2, THEN conjunct2, THEN mp, OF this]
  have m: "status (ex_main ?env) = EXIT_FAILURE \<and> stages_done (ex_main ?env) = []
        \<and> \<not> output_written (ex_main ?env)"
    by (simp add: ex_main_def)
  from ok bound none ld fbound vbound foff voff vdup fails m show ?thesis by (intro conjI) simp_all
qed

section \<open>Properties of the loop over the sections\<close>

lemma load_symbols_keeps_stub_ndx:
  "load_symbols ve scn = Inr ve' \<Longrightarrow>
     fstubs_ndx ve' = fstubs_ndx ve \<and> vstubs_ndx ve' = vstubs_ndx ve"
  by (auto simp: load_symbols_def Let_def split: if_splits option.splits sum.splits prod.splits)

lemma load_rel_table_keeps_stub_ndx:
  "load_rel_table scns ve shdr = Inr ve' \<Longrightarrow>
     fstubs_ndx ve' = fstubs_ndx ve \<and> vstubs_ndx ve' = vstubs_ndx ve"
  using load_symbols_keeps_stub_ndx[of ve "elf_getscn scns (sh_link shdr)"]
  by (auto simp: load_rel_table_def split: if_splits option.splits sum.splits)

lemma scan_stubs_ndx:
  assumes "scan_stubs ve ndx shdr nm = Inr ve1" and "ndx \<noteq> 0"
  shows "fstubs_ndx ve \<noteq> 0 \<Longrightarrow> fstubs_ndx ve1 \<noteq> 0"
    and "vstubs_ndx ve \<noteq> 0 \<Longrightarrow> vstubs_ndx ve1 \<noteq> 0"
    and "sh_type shdr = SHT_PROGBITS \<Longrightarrow> nm = ''.vitalink.fstubs'' \<Longrightarrow> fstubs_ndx ve1 \<noteq> 0"
    and "sh_type shdr = SHT_PROGBITS \<Longrightarrow> nm = ''.vitalink.vstubs'' \<Longrightarrow> vstubs_ndx ve1 \<noteq> 0"
  using assms
  by (auto simp: scan_stubs_def split: if_splits sum.splits prod.splits)

lemma scan_section_ndx:
  assumes "scan_section scns ve ndx shdr = Inr ve'" and "ndx \<noteq> 0"
  shows "fstubs_ndx ve \<noteq> 0 \<or> is_fstubs shdr \<Longrightarrow> fstubs_ndx ve' \<noteq> 0"
    and "vstubs_ndx ve \<noteq> 0 \<or> is_vstubs shdr \<Longrightarrow> vstubs_ndx ve' \<noteq> 0"
proof -
  from assms(1) obtain nm ve1 where
    n: "sh_name shdr = Some nm" and s: "scan_stubs ve ndx shdr nm = Inr ve1"
    and k: "fstubs_ndx ve' = fstubs_ndx ve1 \<and> vstubs_ndx ve' = vstubs_ndx ve1"
    using load_symbols_keeps_stub_ndx load_rel_table_keeps_stub_ndx
    by (fastforce simp: scan_section_def load_rela_table_def
          split: option.splits sum.splits if_splits)
  note h = scan_stubs_ndx[OF s assms(2)]
  show "fstubs_ndx ve' \<noteq> 0" if "fstubs_ndx ve \<noteq> 0 \<or> is_fstubs shdr"
    using that h(1,3) n k by (auto simp: is_fstubs_def)
  show "vstubs_ndx ve' \<noteq> 0" if "vstubs_ndx ve \<noteq> 0 \<or> is_vstubs shdr"
    using that h(2,4) n k by (auto simp: is_vstubs_def)
qed

lemma scan_section_multiple:
  shows "is_fstubs shdr \<Longrightarrow> fstubs_ndx ve \<noteq> 0 \<Longrightarrow>
           scan_section scns ve ndx shdr = Inl Multiple_fstubs_sections"
    and "is_vstubs shdr \<Longrightarrow> vstubs_ndx ve \<noteq> 0 \<Longrightarrow>
           scan_section scns ve ndx shdr = Inl Multiple_vstubs_sections"
  by (simp_all add: is_fstubs_def is_vstubs_def scan_section_def scan_stubs_def)

lemma scan_sections_append:
  "scan_sections scns ndx (xs @ ys) ve =
     (case scan_sections scns ndx xs ve of
        Inl e \<Rightarrow> Inl e
      | Inr ve' \<Rightarrow> scan_sections scns (ndx + length xs) ys ve')"
  by (induction xs arbitrary: ndx ve) (auto split: sum.splits)

lemma scan_sections_ndx:
  "scan_sections scns ndx xs ve = Inr ve' \<Longrightarrow> ndx \<noteq> 0 \<Longrightarrow>
     (fstubs_ndx ve \<noteq> 0 \<or> (\<exists>s \<in> set xs. is_fstubs s) \<longrightarrow> fstubs_ndx ve' \<noteq> 0)
     \<and> (vstubs_ndx ve \<noteq> 0 \<or> (\<exists>s \<in> set xs. is_vstubs s) \<longrightarrow> vstubs_ndx ve' \<noteq> 0)"
proof (induction xs arbitrary: ndx ve)
  case Nil
  then show ?case by simp
next
  case (Cons shdr xs)
  from Cons.prems(1) obtain ve1 where
    a: "scan_section scns ve ndx shdr = Inr ve1"
    and r: "scan_sections scns (Suc ndx) xs ve1 = Inr ve'"
    by (auto split: sum.splits)
  note h = scan_section_ndx[OF a Cons.prems(2)]
  have "Suc ndx \<noteq> 0" by simp
  from Cons.IH[OF r this] h show ?case by auto
qed

text \<open>The loop over the sections stops at the second stub section of a kind.\<close>

lemma second_stub_section:
  fixes lve :: "('l, 'm, 't) vita_elf"
  assumes "1 \<le> i" and "i < j" and "j < length scns"
      and "scan_sections scns 1 (take (j - 1) (tl scns)) zero_elf = Inr lve"
  shows "is_fstubs (scns ! i) \<Longrightarrow> is_fstubs (scns ! j) \<Longrightarrow>
           scan_sections scns 1 (tl scns) (zero_elf :: ('l, 'm, 't) vita_elf)
             = Inl Multiple_fstubs_sections"
    and "is_vstubs (scns ! i) \<Longrightarrow> is_vstubs (scns ! j) \<Longrightarrow>
           scan_sections scns 1 (tl scns) (zero_elf :: ('l, 'm, 't) vita_elf)
             = Inl Multiple_vstubs_sections"
proof -
  let ?xs = "take (j - 1) (tl scns)"
  from assms(1-3) have jl: "j - 1 < length (tl scns)" by simp
  have sj: "tl scns ! (j - 1) = scns ! j"
    using assms(1-3) by (simp add: nth_tl)
  have si: "scns ! i \<in> set ?xs"
  proof -
    from assms(1-3) have "i - 1 < length ?xs" by simp
    then have "?xs ! (i - 1) \<in> set ?xs" by (rule nth_mem)
    moreover from assms(1-3) have "?xs ! (i - 1) = scns ! i" by (simp add: nth_tl)
    ultimately show ?thesis by simp
  qed
  have split: "tl scns = ?xs @ scns ! j # drop (Suc (j - 1)) (tl scns)"
    using id_take_nth_drop[OF jl] sj by simp
  have one: "(1 :: nat) \<noteq> 0" by simp
  note nz = scan_sections_ndx[OF assms(4) one]
  have whole: "scan_sections scns 1 (tl scns) (zero_elf :: ('l, 'm, 't) vita_elf)
                 = scan_sections scns (1 + length ?xs) (scns ! j # drop (Suc (j - 1)) (tl scns)) lve"
    using scan_sections_append[of scns 1 ?xs "scns ! j # drop (Suc (j - 1)) (tl scns)"
            "zero_elf :: ('l, 'm, 't) vita_elf"] assms(4) split
    by simp
  show "scan_sections scns 1 (tl scns) (zero_elf :: ('l, 'm, 't) vita_elf)
          = Inl Multiple_fstubs_sections"
    if "is_fstubs (scns ! i)" and "is_fstubs (scns ! j)"
  proof -
    from nz si that(1) have "fstubs_ndx lve \<noteq> 0" by blast
    from scan_section_multiple(1)[OF that(2) this] whole show ?thesis by simp
  qed
  show "scan_sections scns 1 (tl scns) (zero_elf :: ('l, 'm, 't) vita_elf)
          = Inl Multiple_vstubs_sections"
    if "is_vstubs (scns ! i)" and "is_vstubs (scns ! j)"
  proof -
    from nz si that(1) have "vstubs_ndx lve \<noteq> 0" by blast
    from scan_section_multiple(2)[OF that(2) this] whole show ?thesis by simp
  qed
qed

lemma scan_prefix_fails:
  "isl (scan_sections scns ndx xs ve) \<Longrightarrow> isl (scan_sections scns ndx (xs @ ys) ve)"
  by (cases "scan_sections scns ndx xs ve") (simp_all add: scan_sections_append)

text \<open>
  C10.  If the section table holds two \<open>PROGBITS\<close> sections named \<open>.vitalink.fstubs\<close>, or
  two named \<open>.vitalink.vstubs\<close>, \<open>vita_elf_load\<close> fails.  When the header is accepted
  and the loop over the sections reaches the second of them, the failure is the
  diagnostic "Multiple .vitalink.fstubs sections in binary", or the one for \<open>vstubs\<close>.
\<close>

theorem multiple_stub_sections_fail:
  fixes lve :: "('l, 'm, 't) vita_elf"
  assumes "1 \<le> i" and "i < j" and "j < length (sections f)"
      and "(is_fstubs (sections f ! i) \<and> is_fstubs (sections f ! j))
           \<or> (is_vstubs (sections f ! i) \<and> is_vstubs (sections f ! j))"
  shows "isl (vita_elf_load (Some f) mm :: error + ('l, 'm, 't) vita_elf)
       \<and> (header_ok f
          \<and> scan_sections (sections f) 1 (take (j - 1) (tl (sections f))) zero_elf = Inr lve
          \<longrightarrow> (vita_elf_load (Some f) mm :: error + ('l, 'm, 't) vita_elf)
                = Inl (if is_fstubs (sections f ! j) then Multiple_fstubs_sections
                       else Multiple_vstubs_sections))"
proof -
  let ?scns = "sections f"
  let ?pre = "scan_sections ?scns 1 (take (j - 1) (tl ?scns)) (zero_elf :: ('l, 'm, 't) vita_elf)"
  let ?all = "scan_sections ?scns 1 (tl ?scns) (zero_elf :: ('l, 'm, 't) vita_elf)"
  have nv: "\<not> is_fstubs (?scns ! j)" if "is_vstubs (?scns ! j)"
    using that by (auto simp: is_fstubs_def is_vstubs_def)
  have reach: "?all = Inl (if is_fstubs (?scns ! j) then Multiple_fstubs_sections
                           else Multiple_vstubs_sections)"
    if p: "?pre = Inr ve1" for ve1
    using second_stub_section[OF assms(1-3) p] assms(4) nv by auto
  have "isl ?all"
  proof (cases ?pre)
    case (Inl e)
    then have "isl ?pre" by simp
    from scan_prefix_fails[OF this, of "drop (j - 1) (tl ?scns)"] show ?thesis by simp
  next
    case (Inr ve1)
    from reach[OF this] show ?thesis by simp
  qed
  then have fails: "isl (vita_elf_load (Some f) mm :: error + ('l, 'm, 't) vita_elf)"
    by (auto simp: vita_elf_load_def split: sum.splits)
  have diag: "(vita_elf_load (Some f) mm :: error + ('l, 'm, 't) vita_elf)
                = Inl (if is_fstubs (?scns ! j) then Multiple_fstubs_sections
                       else Multiple_vstubs_sections)"
    if "header_ok f" and "?pre = Inr lve"
    using reach[OF that(2)] that(1) by (simp add: vita_elf_load_def header_ok_def)
  from fails diag show ?thesis by blast
qed

theorem multiple_stub_sections_fail_witness:
  "(vita_elf_load (Some twice_fstubs_file) ex_mmap :: error + (ex_library, ex_module, u32) vita_elf)
     = Inl Multiple_fstubs_sections"
proof -
  let ?f = twice_fstubs_file
  have h1: "(1 :: nat) \<le> 2" and h2: "(2 :: nat) < 3" by simp_all
  have h3: "3 < length (sections ?f)" by (simp add: file_example_defs)
  have s2: "is_fstubs (sections ?f ! 2)" and s3: "is_fstubs (sections ?f ! 3)"
    by (simp_all add: file_example_defs is_fstubs_def)
  then have h4: "(is_fstubs (sections ?f ! 2) \<and> is_fstubs (sections ?f ! 3))
                 \<or> (is_vstubs (sections ?f ! 2) \<and> is_vstubs (sections ?f ! 3))" by simp
  have h5: "header_ok ?f" by (simp add: file_example_defs header_ok_def)
  have h6: "scan_sections (sections ?f) 1 (take (3 - 1) (tl (sections ?f))) zero_elf
              = Inr twice_scanned"
    by (simp add: twice_scanned_def file_example_defs load_defs loader_defs upt_rec)
  from multiple_stub_sections_fail[OF h1 h2 h3 h4, where lve = twice_scanned and mm = ex_mmap,
         THEN conjunct2, THEN mp] h5 h6 s3
  show ?thesis by simp
qed

end
